theory Spec2Isabelle
  imports Complex_Main
begin

chapter \<open>The photometric bundle adjuster of mdso: model\<close>

text \<open>
  The scalar type \<open>T\<close> of the optimizer and \<open>double\<close> are modelled by \<^typ>\<open>real\<close>:
  sums, products and comparisons are those of the reals, without rounding. In three places
  the source behaves differently on a double that is no real number, and there the model has
  such values: \<open>std::isfinite(depth)\<close> is modelled by an explicit overflow of \<open>exp\<close>
  (see \<open>expT\<close> below); the step controller, which divides by a difference that may be
  zero, and the comparison of the two energies in \<open>EnergyFunction::optimize\<close>, which is
  false for a NaN, are modelled over the type \<open>double\<close> of the next section. A failed
  glog \<open>CHECK\<close> aborts the process; it is the error value \<open>CheckFailed\<close>.
\<close>

datatype error = CheckFailed

section \<open>Doubles with their special values (IEEE 754)\<close>

text \<open>
  A double is a finite number, one of the two infinities, or NaN; zero has a sign.
  \<open>Fin x\<close> is the finite double of value \<open>x\<close>, with \<open>Fin 0\<close> for \<open>+0\<close>, and
  \<open>NegZero\<close> is \<open>-0\<close>. The operations below are those that the source applies to such
  values (\<open>-\<close> unary and binary, \<open>+\<close>, \<open>*\<close>, \<open>/\<close>, \<open><\<close>, \<open>>=\<close>, \<open>std::max\<close>), with the
  results that IEEE 754 gives for zeros, infinities and NaN. A finite result is exact: it
  is neither rounded nor does it overflow.
\<close>

datatype double = Fin real | NegZero | PInf | MInf | NaN

fun signbit :: "double \<Rightarrow> bool" where
  "signbit (Fin x) = (x < 0)"
| "signbit NegZero = True"
| "signbit PInf = False"
| "signbit MInf = True"
| "signbit NaN = False"

text \<open>The value of a finite double.\<close>

fun valueOf :: "double \<Rightarrow> real" where
  "valueOf (Fin x) = x"
| "valueOf NegZero = 0"
| "valueOf PInf = 0"
| "valueOf MInf = 0"
| "valueOf NaN = 0"

fun isFinite :: "double \<Rightarrow> bool" where
  "isFinite (Fin x) = True"
| "isFinite NegZero = True"
| "isFinite PInf = False"
| "isFinite MInf = False"
| "isFinite NaN = False"

definition isZero :: "double \<Rightarrow> bool" where
  "isZero d = (d = Fin 0 \<or> d = NegZero)"

definition isInf :: "double \<Rightarrow> bool" where
  "isInf d = (d = PInf \<or> d = MInf)"

definition signedZero :: "bool \<Rightarrow> double" where
  "signedZero s = (if s then NegZero else Fin 0)"

definition signedInf :: "bool \<Rightarrow> double" where
  "signedInf s = (if s then MInf else PInf)"

text \<open>A finite product or quotient: a zero takes the sign \<open>s\<close> of the operation.\<close>

definition finiteResult :: "bool \<Rightarrow> real \<Rightarrow> double" where
  "finiteResult s r = (if r = 0 then signedZero s else Fin r)"

fun dneg :: "double \<Rightarrow> double" where
  "dneg (Fin x) = (if x = 0 then NegZero else Fin (- x))"
| "dneg NegZero = Fin 0"
| "dneg PInf = MInf"
| "dneg MInf = PInf"
| "dneg NaN = NaN"

text \<open>
  The sum: \<open>inf + (-inf)\<close> is NaN; a zero sum of finite doubles is \<open>+0\<close>, except
  \<open>(-0) + (-0) = -0\<close>. The difference \<open>a - b\<close> is \<open>a + (-b)\<close>.
\<close>

definition dadd :: "double \<Rightarrow> double \<Rightarrow> double" where
  "dadd a b =
     (if a = NaN \<or> b = NaN \<or> (a = PInf \<and> b = MInf) \<or> (a = MInf \<and> b = PInf) then NaN
      else if isInf a then a
      else if isInf b then b
      else if valueOf a + valueOf b \<noteq> 0 then Fin (valueOf a + valueOf b)
      else if a = NegZero \<and> b = NegZero then NegZero
      else Fin 0)"

definition dsub :: "double \<Rightarrow> double \<Rightarrow> double" where
  "dsub a b = dadd a (dneg b)"

text \<open>The product: \<open>inf * 0\<close> is NaN; the sign is the exclusive or of the signs.\<close>

definition dmul :: "double \<Rightarrow> double \<Rightarrow> double" where
  "dmul a b =
     (if a = NaN \<or> b = NaN \<or> (isInf a \<and> isZero b) \<or> (isZero a \<and> isInf b) then NaN
      else if isInf a \<or> isInf b then signedInf (signbit a \<noteq> signbit b)
      else finiteResult (signbit a \<noteq> signbit b) (valueOf a * valueOf b))"

text \<open>
  The quotient: \<open>inf / inf\<close> and \<open>0 / 0\<close> are NaN, a non-zero number divided by a zero
  is an infinity, a finite number divided by an infinity is a zero.
\<close>

definition ddiv :: "double \<Rightarrow> double \<Rightarrow> double" where
  "ddiv a b =
     (if a = NaN \<or> b = NaN \<or> (isInf a \<and> isInf b) \<or> (isZero a \<and> isZero b) then NaN
      else if isInf a \<or> isZero b then signedInf (signbit a \<noteq> signbit b)
      else if isInf b then signedZero (signbit a \<noteq> signbit b)
      else finiteResult (signbit a \<noteq> signbit b) (valueOf a / valueOf b))"

text \<open>
  The comparisons \<open>a < b\<close> and \<open>a >= b\<close>: both are false when an operand is NaN; the two
  zeros are equal. \<open>std::max(a, b)\<close> is \<open>(a < b) ? b : a\<close>.
\<close>

definition dless :: "double \<Rightarrow> double \<Rightarrow> bool" where
  "dless a b =
     (a \<noteq> NaN \<and> b \<noteq> NaN \<and>
      (if a = MInf then b \<noteq> MInf
       else if b = PInf then a \<noteq> PInf
       else if a = PInf \<or> b = MInf then False
       else valueOf a < valueOf b))"

definition dge :: "double \<Rightarrow> double \<Rightarrow> bool" where
  "dge a b = (a \<noteq> NaN \<and> b \<noteq> NaN \<and> \<not> dless a b)"

definition dmax :: "double \<Rightarrow> double \<Rightarrow> double" where
  "dmax a b = (if dless a b then b else a)"

section \<open>StepController (StepController.cpp)\<close>

text \<open>
  \<open>Settings::Optimization::StepControl\<close>, the fields that \<open>StepController\<close> reads.
  The fields carry the prefix \<open>sc_\<close> to keep them apart from the fields of the same name
  in \<open>settings.optimization\<close>. The settings are configured numbers.
\<close>

record StepControl =
  sc_initialLambda :: real
  sc_initialFailMultiplier :: real
  sc_acceptedQuality :: real
  sc_minLambdaMultiplier :: real
  sc_failMultiplierMultiplier :: real

text \<open>The members of class \<open>StepController\<close>; \<open>mLambda\<close> and \<open>failMultiplier\<close> are doubles.\<close>

record StepController =
  mLambda :: double
  failMultiplier :: double
  settings :: StepControl

text \<open>The constructor (lines 5-9).\<close>

definition StepController_ctor :: "StepControl \<Rightarrow> StepController" where
  "StepController_ctor newSettings =
     \<lparr>mLambda = Fin (sc_initialLambda newSettings),
      failMultiplier = Fin (sc_initialFailMultiplier newSettings),
      settings = newSettings\<rparr>"

text \<open>
  \<open>StepController::newStep\<close> (lines 11-37). The method mutates \<open>mLambda\<close> and
  \<open>failMultiplier\<close> and returns \<open>isStepSuccessful\<close>; the model returns the flag and the
  controller after the call. The three energies are doubles, and every operation is the one
  on doubles: when the predicted difference is zero the quotient \<open>predictionQuality\<close> is an
  infinity or NaN. The logging is left out.
\<close>

definition newStep :: "StepController \<Rightarrow> double \<Rightarrow> double \<Rightarrow> double \<Rightarrow> bool \<times> StepController" where
  "newStep sc oldEnergy newEnergy predictedEnergy =
     (let predictedDiff0 = dsub oldEnergy predictedEnergy;
          actualDiff0 = dsub oldEnergy newEnergy;
          predictedDiff = (if dless predictedDiff0 (Fin 0) then dmul predictedDiff0 (Fin (- 1))
                           else predictedDiff0);
          actualDiff = (if dless predictedDiff0 (Fin 0) then dmul actualDiff0 (Fin (- 1))
                        else actualDiff0);
          predictionQuality = ddiv actualDiff predictedDiff;
          q2m1 = dsub (dmul (Fin 2) predictionQuality) (Fin 1);
          isStepSuccessful = dless (Fin (sc_acceptedQuality (settings sc))) predictionQuality
      in if isStepSuccessful
         then (isStepSuccessful,
               sc\<lparr>mLambda := dmul (mLambda sc)
                       (dmax (Fin (sc_minLambdaMultiplier (settings sc)))
                          (dsub (Fin 1) (dmul (dmul q2m1 q2m1) q2m1))),
                  failMultiplier := Fin (sc_initialFailMultiplier (settings sc))\<rparr>)
         else (isStepSuccessful,
               sc\<lparr>mLambda := dmul (mLambda sc) (failMultiplier sc),
                  failMultiplier := dmul (failMultiplier sc)
                                      (Fin (sc_failMultiplierMultiplier (settings sc)))\<rparr>))"

definition StepController_lambda :: "StepController \<Rightarrow> double" where
  "StepController_lambda sc = mLambda sc"

section \<open>Vectors, rotations and rigid motions (Eigen, Sophus)\<close>

type_synonym Vec2 = "real \<times> real"
type_synonym Vec3 = "real \<times> real \<times> real"

definition vadd2 :: "Vec2 \<Rightarrow> Vec2 \<Rightarrow> Vec2" where
  "vadd2 a b = (fst a + fst b, snd a + snd b)"

definition vsub2 :: "Vec2 \<Rightarrow> Vec2 \<Rightarrow> Vec2" where
  "vsub2 a b = (fst a - fst b, snd a - snd b)"

fun vadd :: "Vec3 \<Rightarrow> Vec3 \<Rightarrow> Vec3" where
  "vadd (a1, a2, a3) (b1, b2, b3) = (a1 + b1, a2 + b2, a3 + b3)"

fun smul :: "real \<Rightarrow> Vec3 \<Rightarrow> Vec3" where
  "smul k (a1, a2, a3) = (k * a1, k * a2, k * a3)"

fun normalized :: "Vec3 \<Rightarrow> Vec3" where
  "normalized (a1, a2, a3) =
     (let n = sqrt (a1 * a1 + a2 * a2 + a3 * a3) in (a1 / n, a2 / n, a3 / n))"

text \<open>
  A quaternion \<open>(w, x, y, z)\<close> with the Hamilton product, as \<open>Eigen::Quaternion\<close>.
  \<open>Sophus::SO3\<close> stores a quaternion of norm one (\<open>unit_quaternion()\<close>); the product
  of two rotations is the product of their quaternions, the inverse is the conjugate, and
  a rotation acts on a point \<open>p\<close> as the vector part of \<open>q * (0, p) * q\<^sup>*\<close>
  (for a quaternion of norm one this is also what \<open>_transformVector\<close> of Eigen returns).
  Sophus renormalises a product whose norm has drifted from one by rounding; over the reals
  the product of unit quaternions has norm one and the step is the identity.
\<close>

type_synonym Quaternion = "real \<times> real \<times> real \<times> real"

fun qmul :: "Quaternion \<Rightarrow> Quaternion \<Rightarrow> Quaternion" where
  "qmul (a, b, c, d) (e, f, g, h) =
     (a * e - b * f - c * g - d * h,
      a * f + b * e + c * h - d * g,
      a * g - b * h + c * e + d * f,
      a * h + b * g - c * f + d * e)"

fun qconj :: "Quaternion \<Rightarrow> Quaternion" where
  "qconj (a, b, c, d) = (a, - b, - c, - d)"

fun squaredNorm :: "Quaternion \<Rightarrow> real" where
  "squaredNorm (a, b, c, d) = a * a + b * b + c * c + d * d"

definition qone :: Quaternion where
  "qone = (1, 0, 0, 0)"

fun pureq :: "Vec3 \<Rightarrow> Quaternion" where
  "pureq (x, y, z) = (0, x, y, z)"

fun vec :: "Quaternion \<Rightarrow> Vec3" where
  "vec (a, b, c, d) = (b, c, d)"

definition SO3_act :: "Quaternion \<Rightarrow> Vec3 \<Rightarrow> Vec3" where
  "SO3_act q p = vec (qmul (qmul q (pureq p)) (qconj q))"

text \<open>
  \<open>Sophus::SE3\<close>: a rotation and a translation. \<open>a * b\<close> is
  \<open>(so3(a) * so3(b), translation(a) + so3(a) * translation(b))\<close>; \<open>inverse()\<close> is
  \<open>(invR, invR * (translation() * -1))\<close> with \<open>invR = so3().inverse()\<close>; \<open>a * p\<close> is
  \<open>so3(a) * p + translation(a)\<close>; the default constructor gives the identity.
\<close>

type_synonym SE3 = "Quaternion \<times> Vec3"

definition so3 :: "SE3 \<Rightarrow> Quaternion" where
  "so3 a = fst a"

definition translation :: "SE3 \<Rightarrow> Vec3" where
  "translation a = snd a"

definition SE3_mul :: "SE3 \<Rightarrow> SE3 \<Rightarrow> SE3" where
  "SE3_mul a b = (qmul (so3 a) (so3 b), vadd (translation a) (SO3_act (so3 a) (translation b)))"

definition SE3_inverse :: "SE3 \<Rightarrow> SE3" where
  "SE3_inverse a = (let invR = qconj (so3 a) in (invR, SO3_act invR (smul (- 1) (translation a))))"

definition SE3_act :: "SE3 \<Rightarrow> Vec3 \<Rightarrow> Vec3" where
  "SE3_act a p = vadd (SO3_act (so3 a) p) (translation a)"

definition SE3_identity :: SE3 where
  "SE3_identity = (qone, (0, 0, 0))"

section \<open>Scalars that may overflow\<close>

text \<open>
  \<open>T depth = exp(*logDepth)\<close> is the one scalar the source tests with \<open>std::isfinite\<close>.
  \<open>maxT\<close> is the largest finite value of the scalar type \<open>T\<close> (a type definition of a
  header that is not among the sources, so it is a parameter): the exponential is finite
  up to \<open>maxT\<close> and overflows beyond.
\<close>

datatype depthT = Finite real | NonFinite

definition expT :: "real \<Rightarrow> real \<Rightarrow> depthT" where
  "expT maxT x = (if exp x \<le> maxT then Finite (exp x) else NonFinite)"

fun isfinite :: "depthT \<Rightarrow> bool" where
  "isfinite (Finite d) = True"
| "isfinite NonFinite = False"

section \<open>Robust losses (ceres::LossFunction)\<close>

text \<open>
  \<open>lossFunction->Evaluate(s, rho)\<close> writes the loss and its first two derivatives at
  \<open>s\<close> to \<open>rho[0..2]\<close>. The two losses that \<open>getLoss\<close> (part 002, lines 6-18) can
  return are those of the ceres library: \<open>TrivialLoss\<close> is the identity;
  \<open>HuberLoss(a)\<close> is linear in \<open>sqrt s\<close> beyond \<open>b = a * a\<close>, where
  \<open>std::numeric_limits<double>::min()\<close> bounds \<open>rho[1]\<close> from below.
\<close>

type_synonym LossFunction = "real \<Rightarrow> real \<times> real \<times> real"

definition TrivialLoss :: LossFunction where
  "TrivialLoss s = (s, 1, 0)"

definition numeric_limits_min :: real where
  "numeric_limits_min = 1 / 2 ^ 1022"

definition HuberLoss :: "real \<Rightarrow> LossFunction" where
  "HuberLoss a s =
     (let b = a * a in
      if s > b
      then (let r = sqrt s;
                rho0 = 2 * a * r - b;
                rho1 = max numeric_limits_min (a / r);
                rho2 = - rho1 / (2 * s)
            in (rho0, rho1, rho2))
      else (s, 1, 0))"

datatype Loss = TRIVIAL | HUBER

fun getLoss :: "Loss \<Rightarrow> real \<Rightarrow> LossFunction" where
  "getLoss TRIVIAL outlierDiff = TrivialLoss"
| "getLoss HUBER outlierDiff = HuberLoss outlierDiff"

section \<open>Cameras, key frames and settings\<close>

text \<open>
  The camera model, the image interpolators and the affine light transform are classes of
  the repository whose code is not among the sources. A camera is the record of its
  methods; \<open>map\<close> is called \<open>map_cam\<close> here. An interpolator is the function
  \<open>Evaluate(r, c, &f, &dfdr, &dfdc)\<close> from a row and a column to the intensity and its
  two partial derivatives.
\<close>

type_synonym Mat = "real list list"

record CameraModel =
  isMappable :: "Vec3 \<Rightarrow> bool"
  map_cam :: "Vec3 \<Rightarrow> Vec2"
  unmap :: "Vec2 \<Rightarrow> Vec3"
  isOnImage :: "Vec2 \<Rightarrow> int \<Rightarrow> bool"
  diffMap :: "Vec3 \<Rightarrow> Vec2 \<times> Mat"

record CameraBundleEntry =
  cam :: CameraModel
  thisToBody :: SE3
  bodyToThis :: SE3

type_synonym CameraBundle = "CameraBundleEntry list"

type_synonym Interpolator = "real \<Rightarrow> real \<Rightarrow> real \<times> real \<times> real"

text \<open>
  Modelled from the spec: \<open>AffineLightTransform\<close>, whose header is missing. The pair
  \<open>(a, b)\<close> is its \<open>data[2]\<close>; it maps an intensity \<open>I\<close> to \<open>exp(a) * I + b\<close>
  (glossary), so that \<open>L_t * L_h.inverse()\<close> maps \<open>I\<close> to
  \<open>exp(a_t - a_h) * (I - b_h) + b_t\<close> (section 4.2).
\<close>

type_synonym AffLight = "real \<times> real"

definition AffLight_apply :: "AffLight \<Rightarrow> real \<Rightarrow> real" where
  "AffLight_apply l x = exp (fst l) * x + snd l"

definition AffLight_inverse :: "AffLight \<Rightarrow> AffLight" where
  "AffLight_inverse l = (- fst l, - (exp (- fst l) * snd l))"

definition AffLight_mul :: "AffLight \<Rightarrow> AffLight \<Rightarrow> AffLight" where
  "AffLight_mul l1 l2 = (fst l1 + fst l2, exp (fst l1) * snd l2 + snd l1)"

definition ea :: "AffLight \<Rightarrow> real" where
  "ea l = exp (fst l)"

datatype PointState = ACTIVE | OUTLIER | OOB

text \<open>\<open>OptimizedPoint\<close>: the fields the optimizer reads. \<open>p\<close> is called \<open>p_host\<close>.\<close>

record OptimizedPoint =
  p_host :: Vec2
  dir :: Vec3
  logDepth :: real
  state :: PointState

text \<open>
  Modelled from the spec: the method \<open>OptimizedPoint::depth()\<close>, whose code is missing.
  The depth is \<open>exp(logDepth)\<close> (section 3).
\<close>

definition depth :: "OptimizedPoint \<Rightarrow> real" where
  "depth op = exp (logDepth op)"

record KeyFrameEntry =
  optimizedPoints :: "OptimizedPoint list"
  lightWorldToThis :: AffLight
  interpolator :: Interpolator

record KeyFrame =
  thisToWorld :: SE3
  frames :: "KeyFrameEntry list"

text \<open>
  \<open>ResidualSettings\<close>: \<open>residualPattern.pattern()\<close>, \<open>residualPattern.height\<close>,
  \<open>residualWeighting.c\<close>, \<open>residualWeighting.lossEps\<close>, \<open>depth.max\<close> and
  \<open>intensity.outlierDiff\<close>.
\<close>

record ResidualSettings =
  pattern :: "Vec2 list"
  height :: int
  weighting_c :: real
  lossEps :: real
  depth_max :: real
  outlierDiff :: real

section \<open>Residual (Residual.cpp, the second part of DeltaParameterVector.cpp)\<close>

text \<open>
  The members of a \<open>Residual\<close>. \<open>target\<close> points to the target key frame entry, of
  which only the interpolator of level 0 is read: the field holds that interpolator.
  \<open>logDepth\<close> points to the current log-depth of the point in the parameter block; the
  methods below take the value \<open>*logDepth\<close> as the argument \<open>logDepthV\<close>.
  \<open>settings\<close> is called \<open>rsettings\<close>.
\<close>

record Residual =
  mHostInd :: nat
  mHostCamInd :: nat
  mTargetInd :: nat
  mTargetCamInd :: nat
  mPointInd :: nat
  lossFunction :: LossFunction
  camTarget :: CameraModel
  target :: Interpolator
  hostPoint :: Vec2
  hostDir :: Vec3
  rsettings :: ResidualSettings
  reprojPattern :: "Vec2 list"
  hostIntensities :: "real list"
  gradWeights :: "real list"

text \<open>\<open>remapDepthed\<close> (lines 52-57).\<close>

fun remapDepthed :: "SE3 \<Rightarrow> Vec3 \<Rightarrow> depthT \<Rightarrow> Vec3" where
  "remapDepthed frameToFrame ray (Finite d) = SE3_act frameToFrame (smul d ray)"
| "remapDepthed frameToFrame ray NonFinite = SO3_act (so3 frameToFrame) ray"

text \<open>
  The constructor (lines 59-109), at a depth \<open>exp logDepthV\<close> that is a number. The
  source multiplies the unprojected pattern rays by the depth without a test for
  finiteness: at a depth that has overflowed its pattern offsets are NaN, which the real
  offsets of \<open>reprojPattern\<close> cannot be, and that case is not modelled.
  \<open>hostInterp->Evaluate(p[1], p[0], &hostIntensity, &gradIhost[1], &gradIhost[0])\<close>
  reads row \<open>p[1]\<close> and column \<open>p[0]\<close>.
\<close>

definition Residual_ctor ::
  "nat \<Rightarrow> nat \<Rightarrow> nat \<Rightarrow> nat \<Rightarrow> nat \<Rightarrow> real \<Rightarrow> CameraBundle \<Rightarrow> KeyFrameEntry \<Rightarrow> KeyFrameEntry \<Rightarrow>
   OptimizedPoint \<Rightarrow> SE3 \<Rightarrow> LossFunction \<Rightarrow> ResidualSettings \<Rightarrow> Residual" where
  "Residual_ctor hostInd hostCamInd targetInd targetCamInd pointInd logDepthV bundle
     hostFrame targetFrame optimizedPoint hostToTargetImage lossFn sett =
     (let camT = cam (bundle ! targetCamInd);
          camHost = cam (bundle ! hostCamInd);
          d = exp logDepthV;
          reproj = map_cam camT (remapDepthed hostToTargetImage (dir optimizedPoint) (Finite d));
          hostInterp = interpolator hostFrame
      in \<lparr>mHostInd = hostInd, mHostCamInd = hostCamInd, mTargetInd = targetInd,
          mTargetCamInd = targetCamInd, mPointInd = pointInd, lossFunction = lossFn,
          camTarget = camT, target = interpolator targetFrame,
          hostPoint = p_host optimizedPoint, hostDir = dir optimizedPoint, rsettings = sett,
          reprojPattern =
            map (\<lambda>off. vsub2
                   (map_cam camT (SE3_act hostToTargetImage
                      (smul d (normalized (unmap camHost (vadd2 (p_host optimizedPoint) off))))))
                   reproj)
              (pattern sett),
          hostIntensities =
            map (\<lambda>off. let p = vadd2 (p_host optimizedPoint) off
                        in fst (hostInterp (snd p) (fst p)))
              (pattern sett),
          gradWeights =
            map (\<lambda>off. let p = vadd2 (p_host optimizedPoint) off;
                            gradIhost1 = fst (snd (hostInterp (snd p) (fst p)));
                            gradIhost0 = snd (snd (hostInterp (snd p) (fst p)));
                            normSq = gradIhost0 * gradIhost0 + gradIhost1 * gradIhost1;
                            c = weighting_c sett
                        in c / sqrt (c * c + normSq))
              (pattern sett)\<rparr>)"

text \<open>
  \<open>Residual::getValues\<close> (lines 123-143). The result is the vector of pattern values
  and the reprojection written to \<open>reprojOut\<close>.
\<close>

definition getValues :: "real \<Rightarrow> Residual \<Rightarrow> SE3 \<Rightarrow> AffLight \<Rightarrow> real \<Rightarrow> real list \<times> Vec2" where
  "getValues maxT res hostToTargetImage lightHostToTarget logDepthV =
     (let d = expT maxT logDepthV;
          reproj = map_cam (camTarget res) (remapDepthed hostToTargetImage (hostDir res) d);
          result =
            map (\<lambda>i. let p = vadd2 reproj (reprojPattern res ! i);
                          targetIntensity = fst (target res (snd p) (fst p));
                          hostIntensity = AffLight_apply lightHostToTarget (hostIntensities res ! i)
                      in targetIntensity - hostIntensity)
              [0..<length (pattern (rsettings res))]
      in (result, reproj))"

text \<open>
  \<open>Residual::getWeights\<close> (lines 145-160): the body of the loop for one index, and the
  loop. \<open>CHECK_GE(rho[1], 0)\<close> aborts the call.
\<close>

definition sampleWeight :: "Residual \<Rightarrow> real list \<Rightarrow> nat \<Rightarrow> error + real" where
  "sampleWeight res values i =
     (let v = values ! i;
          v2 = v * v;
          rho = lossFunction res v2;
          rho1 = fst (snd rho);
          rho2 = snd (snd rho);
          w = rho1 + 2 * rho2 * v2
      in if w < 0
         then (if rho1 \<ge> 0 then Inr (gradWeights res ! i * (lossEps (rsettings res) * rho1))
               else Inl CheckFailed)
         else Inr (gradWeights res ! i * w))"

fun getWeights_loop :: "Residual \<Rightarrow> real list \<Rightarrow> nat list \<Rightarrow> error + real list" where
  "getWeights_loop res values [] = Inr []"
| "getWeights_loop res values (i # is) =
     (case sampleWeight res values i of
        Inl e \<Rightarrow> Inl e
      | Inr w \<Rightarrow> (case getWeights_loop res values is of
                    Inl e \<Rightarrow> Inl e
                  | Inr ws \<Rightarrow> Inr (w # ws)))"

definition getWeights :: "Residual \<Rightarrow> real list \<Rightarrow> error + real list" where
  "getWeights res values = getWeights_loop res values [0..<length (pattern (rsettings res))]"

text \<open>
  Small matrices are lists of rows. \<open>MotionDerivatives\<close> is a class whose code is missing:
  the record of the four members that \<open>getJacobian\<close> reads.
\<close>

definition dot :: "real list \<Rightarrow> real list \<Rightarrow> real" where
  "dot u v = sum_list (map2 (*) u v)"

definition mat_vec :: "Mat \<Rightarrow> real list \<Rightarrow> real list" where
  "mat_vec A v = map (\<lambda>row. dot row v) A"

definition mat_mul :: "Mat \<Rightarrow> Mat \<Rightarrow> Mat" where
  "mat_mul A B = map (\<lambda>row. map (\<lambda>col. dot row col) (transpose B)) A"

fun toList :: "Vec3 \<Rightarrow> real list" where
  "toList (x, y, z) = [x, y, z]"

fun makeHomogeneous :: "Vec3 \<Rightarrow> real list" where
  "makeHomogeneous (x, y, z) = [x, y, z, 1]"

record MotionDerivatives =
  daction_dq_host :: "real list \<Rightarrow> Mat"
  daction_dt_host :: Mat
  daction_dq_target :: "real list \<Rightarrow> Mat"
  daction_dt_target :: Mat

record DiffFrameParams =
  dp_dq :: Mat
  dp_dt :: Mat
  dr_dab :: Mat

record Jacobian =
  dhost :: DiffFrameParams
  dtarget :: DiffFrameParams
  dp_dlogd :: "real list"
  gradItarget :: Mat
  isInfDepth :: bool

text \<open>
  \<open>Residual::getJacobian\<close> (lines 162-209). \<open>lightWorldToHost.b()\<close> is the second
  component of the affine pair.
\<close>

definition getJacobian ::
  "real \<Rightarrow> Residual \<Rightarrow> SE3 \<Rightarrow> MotionDerivatives \<Rightarrow> AffLight \<Rightarrow> AffLight \<Rightarrow> real \<Rightarrow> Jacobian" where
  "getJacobian maxT res hostToTarget dHostToTarget lightWorldToHost lightHostToTarget logDepthV =
     (let n = length (pattern (rsettings res));
          d0 = expT maxT logDepthV;
          d = (case d0 of Finite x \<Rightarrow> x | NonFinite \<Rightarrow> depth_max (rsettings res));
          hostVec = smul d (hostDir res);
          hostVecH = makeHomogeneous hostVec;
          targetVec = SE3_act hostToTarget hostVec;
          reproj = fst (diffMap (camTarget res) targetVec);
          dpi = snd (diffMap (camTarget res) targetVec);
          d_da = (\<lambda>i. ea lightHostToTarget * (hostIntensities res ! i - snd lightWorldToHost))
      in \<lparr>dhost =
            \<lparr>dp_dq = mat_mul dpi (daction_dq_host dHostToTarget hostVecH),
             dp_dt = mat_mul dpi (daction_dt_host dHostToTarget),
             dr_dab = map (\<lambda>i. [d_da i, ea lightHostToTarget]) [0..<n]\<rparr>,
          dtarget =
            \<lparr>dp_dq = mat_mul dpi (daction_dq_target dHostToTarget hostVecH),
             dp_dt = mat_mul dpi (daction_dt_target dHostToTarget),
             dr_dab = map (\<lambda>i. [- d_da i, - 1]) [0..<n]\<rparr>,
          dp_dlogd = mat_vec dpi (toList (SO3_act (so3 hostToTarget) hostVec)),
          gradItarget =
            map (\<lambda>i. let p = vadd2 reproj (reprojPattern res ! i);
                          g = snd (target res (snd p) (fst p))
                      in [snd g, fst g])
              [0..<n],
          isInfDepth = (\<not> isfinite d0)\<rparr>)"

section \<open>The parameter block\<close>

text \<open>
  Modelled from the spec: class \<open>Parameters\<close>, whose code is missing. It is the canonical
  storage of the optimization variables (section 2): the body-to-world pose of every key
  frame, the affine brightness pair of every (key frame, camera), and the log-depth of
  every point; it mirrors the key frames at construction (section 3, lifecycles).
  \<open>Parameters::State\<close> holds these values, and the parameter block also keeps the
  pointers to the optimized points that \<open>setPoints\<close> receives. A pointer to an optimized
  point is the triple of its key frame, its camera and its position in the entry's
  \<open>optimizedPoints\<close>.
\<close>

record State =
  bodyToWorld :: "SE3 list"
  lightWorldToFrame :: "AffLight list list"
  logDepths :: "real list"

type_synonym PointRef = "nat \<times> nat \<times> nat"

record Parameters =
  pstate :: State
  points :: "PointRef list"

fun getPoint :: "KeyFrame list \<Rightarrow> PointRef \<Rightarrow> OptimizedPoint" where
  "getPoint keyFrames (hostInd, hostCamInd, k) =
     optimizedPoints (frames (keyFrames ! hostInd) ! hostCamInd) ! k"

text \<open>
  Modelled from the spec: the constructor, \<open>setPoints\<close> and the getters of
  \<open>Parameters\<close>, whose code is missing. The parameter block mirrors the key frames at
  construction, and the log-depths those of the points it is given.
\<close>

definition Parameters_ctor :: "CameraBundle \<Rightarrow> KeyFrame list \<Rightarrow> Parameters" where
  "Parameters_ctor camBundle keyFrames =
     \<lparr>pstate = \<lparr>bodyToWorld = map thisToWorld keyFrames,
                 lightWorldToFrame = map (\<lambda>kf. map lightWorldToThis (frames kf)) keyFrames,
                 logDepths = []\<rparr>,
      points = []\<rparr>"

definition setPoints :: "KeyFrame list \<Rightarrow> PointRef list \<Rightarrow> Parameters \<Rightarrow> Parameters" where
  "setPoints keyFrames newPoints params =
     params\<lparr>pstate := (pstate params)\<lparr>logDepths := map (\<lambda>r. logDepth (getPoint keyFrames r)) newPoints\<rparr>,
            points := newPoints\<rparr>"

definition numKeyFrames :: "Parameters \<Rightarrow> nat" where
  "numKeyFrames params = length (bodyToWorld (pstate params))"

definition getBodyToWorld :: "Parameters \<Rightarrow> nat \<Rightarrow> SE3" where
  "getBodyToWorld params i = bodyToWorld (pstate params) ! i"

definition getLightWorldToFrame :: "Parameters \<Rightarrow> nat \<Rightarrow> nat \<Rightarrow> AffLight" where
  "getLightWorldToFrame params i c = lightWorldToFrame (pstate params) ! i ! c"

definition logDepth_at :: "Parameters \<Rightarrow> nat \<Rightarrow> real" where
  "logDepth_at params pInd = logDepths (pstate params) ! pInd"

text \<open>
  Modelled from the spec: \<open>Parameters::saveState()\<close> and
  \<open>Parameters::recoverState()\<close>, whose code is missing. They are the snapshot for trial
  steps (section 4.1): the first returns the current values, the second puts the given
  values back.
\<close>

definition saveState :: "Parameters \<Rightarrow> State" where
  "saveState params = pstate params"

definition recoverState :: "State \<Rightarrow> Parameters \<Rightarrow> Parameters" where
  "recoverState saved params = params\<lparr>pstate := saved\<rparr>"

section \<open>EnergyFunction (part 002): precomputations\<close>

text \<open>
  \<open>PrecomputedHostToTarget\<close> (lines 268-306) fills a four-dimensional table; the entries
  with equal host and target key frame keep the default value, the identity.
\<close>

definition hostToTarget_entry :: "CameraBundle \<Rightarrow> Parameters \<Rightarrow> nat \<Rightarrow> nat \<Rightarrow> nat \<Rightarrow> nat \<Rightarrow> SE3" where
  "hostToTarget_entry bundle params hostInd hostCamInd targetInd targetCamInd =
     (if hostInd = targetInd then SE3_identity
      else let hostBodyToTargetBody =
                 SE3_mul (SE3_inverse (getBodyToWorld params targetInd)) (getBodyToWorld params hostInd);
               hostFrameToTargetBody = SE3_mul hostBodyToTargetBody (thisToBody (bundle ! hostCamInd))
           in SE3_mul (bodyToThis (bundle ! targetCamInd)) hostFrameToTargetBody)"

type_synonym 'a Table4 = "'a list list list list"

definition PrecomputedHostToTarget :: "CameraBundle \<Rightarrow> Parameters \<Rightarrow> SE3 Table4" where
  "PrecomputedHostToTarget bundle params =
     map (\<lambda>hostInd.
       map (\<lambda>hostCamInd.
         map (\<lambda>targetInd.
           map (\<lambda>targetCamInd. hostToTarget_entry bundle params hostInd hostCamInd targetInd targetCamInd)
             [0..<length bundle])
           [0..<numKeyFrames params])
         [0..<length bundle])
       [0..<numKeyFrames params]"

definition get4 :: "'a Table4 \<Rightarrow> nat \<Rightarrow> nat \<Rightarrow> nat \<Rightarrow> nat \<Rightarrow> 'a" where
  "get4 table hostInd hostCamInd targetInd targetCamInd =
     table ! hostInd ! hostCamInd ! targetInd ! targetCamInd"

text \<open>
  \<open>PrecomputedLightHostToTarget\<close> (lines 334-357) and \<open>PrecomputedMotionDerivatives\<close>
  (lines 308-332) fill their entries at the first \<open>get\<close>, from the parameter block they
  point to. In \<open>optimize\<close> every \<open>get\<close> happens while the parameter block still has the
  values it had when the table was made, so a table is the function of those values. The
  constructor of \<open>MotionDerivatives\<close> is missing: it is the parameter \<open>mkMotion\<close>.
\<close>

definition lightHostToTarget_get :: "Parameters \<Rightarrow> nat \<Rightarrow> nat \<Rightarrow> nat \<Rightarrow> nat \<Rightarrow> AffLight" where
  "lightHostToTarget_get params hostInd hostCamInd targetInd targetCamInd =
     AffLight_mul (getLightWorldToFrame params targetInd targetCamInd)
       (AffLight_inverse (getLightWorldToFrame params hostInd hostCamInd))"

definition motionDerivatives_get ::
  "(SE3 \<Rightarrow> SE3 \<Rightarrow> SE3 \<Rightarrow> SE3 \<Rightarrow> MotionDerivatives) \<Rightarrow> CameraBundle \<Rightarrow> Parameters \<Rightarrow>
   nat \<Rightarrow> nat \<Rightarrow> nat \<Rightarrow> nat \<Rightarrow> MotionDerivatives" where
  "motionDerivatives_get mkMotion bundle params hostInd hostCamInd targetInd targetCamInd =
     mkMotion (thisToBody (bundle ! hostCamInd)) (getBodyToWorld params hostInd)
       (getBodyToWorld params targetInd) (bodyToThis (bundle ! targetCamInd))"

section \<open>EnergyFunction: values and the total energy\<close>

text \<open>
  \<open>Values\<close> (lines 222-239) holds, for every residual, its pattern values and what
  \<open>getValues\<close> writes through its last argument. \<open>totalEnergy\<close> (lines 254-266) takes the
  pattern size from the first entry; \<open>Accumulator\<close> adds the terms up.
\<close>

type_synonym Values = "(real list \<times> Vec2) list"

definition createValues ::
  "real \<Rightarrow> Residual list \<Rightarrow> Parameters \<Rightarrow> SE3 Table4 \<Rightarrow> (nat \<Rightarrow> nat \<Rightarrow> nat \<Rightarrow> nat \<Rightarrow> AffLight) \<Rightarrow> Values" where
  "createValues maxT residuals params hostToTarget lightHostToTarget =
     map (\<lambda>res. let hi = mHostInd res; hci = mHostCamInd res; ti = mTargetInd res;
                     tci = mTargetCamInd res; pInd = mPointInd res
                 in getValues maxT res (get4 hostToTarget hi hci ti tci)
                      (lightHostToTarget hi hci ti tci) (logDepth_at params pInd))
       residuals"

definition totalEnergy :: "LossFunction \<Rightarrow> Values \<Rightarrow> error + real" where
  "totalEnergy lossFn valsAndCache =
     (if \<not> length valsAndCache > 0 then Inl CheckFailed
      else let patternSize = length (fst (valsAndCache ! 0))
           in Inr (sum_list (map (\<lambda>vc. sum_list (map (\<lambda>i. fst (lossFn (fst vc ! i * fst vc ! i)))
                                                  [0..<patternSize]))
                              valsAndCache)))"

section \<open>DeltaParameterVector (DeltaParameterVector.cpp)\<close>

text \<open>
  \<open>FrameParameterOrder\<close> is a class whose code is missing: the record of the two counts
  and of the position in \<open>frame\<close> at which the affine block of a (key frame, camera)
  starts, called \<open>affStart\<close>. \<open>affBlock(frameInd, camInd)\<close>, of a missing header, is the
  segment of the two entries from there (an affine pair has two entries, as
  \<open>AddParameterBlock(affLight, 2)\<close> in BundleAdjusterCeres.cpp has it).
\<close>

record FrameParameterOrder =
  fpo_numKeyFrames :: nat
  fpo_numCameras :: nat
  affStart :: "nat \<Rightarrow> nat \<Rightarrow> nat"

record DeltaParameterVector =
  frameParameterOrder :: FrameParameterOrder
  frame :: "real list"
  point :: "real list"

definition affBlock_setZero :: "nat \<Rightarrow> nat \<Rightarrow> DeltaParameterVector \<Rightarrow> DeltaParameterVector" where
  "affBlock_setZero frameInd camInd delta =
     (let s = affStart (frameParameterOrder delta) frameInd camInd
      in delta\<lparr>frame := (frame delta)[s := 0, Suc s := 0]\<rparr>)"

text \<open>\<open>setAffineZero\<close> (lines 34-39) and \<open>constraintDepths\<close> (lines 41-45).\<close>

definition setAffineZero :: "DeltaParameterVector \<Rightarrow> DeltaParameterVector" where
  "setAffineZero delta =
     fold (\<lambda>frameInd d.
             fold (\<lambda>camInd d'. affBlock_setZero frameInd camInd d')
               [0..<fpo_numCameras (frameParameterOrder delta)] d)
       [1..<fpo_numKeyFrames (frameParameterOrder delta)] delta"

definition constraintDepths :: "real \<Rightarrow> DeltaParameterVector \<Rightarrow> DeltaParameterVector" where
  "constraintDepths maxAbsDeltaD delta =
     delta\<lparr>point := map (\<lambda>d. if \<bar>d\<bar> > maxAbsDeltaD then 0 else d) (point delta)\<rparr>"

definition DeltaParameterVector_dot :: "DeltaParameterVector \<Rightarrow> DeltaParameterVector \<Rightarrow> real" where
  "DeltaParameterVector_dot d other = dot (frame d) (frame other) + dot (point d) (point other)"

section \<open>EnergyFunction: construction\<close>

text \<open>
  \<open>settings.optimization\<close>, with the prefix \<open>opt_\<close>: the fields that part 002 reads, and
  the settings of the step controller (\<open>Settings::Optimization::StepControl\<close>), which
  \<open>optimize\<close> does not read.
\<close>

record Optimization =
  opt_lossType :: Loss
  opt_initialLambda :: real
  opt_successMultiplier :: real
  opt_failMultiplier :: real
  opt_stepControl :: StepControl

record EnergyFunctionSettings =
  optimization :: Optimization
  residual :: ResidualSettings

text \<open>
  The members of \<open>EnergyFunction\<close> that the constructor and \<open>optimize\<close> use;
  \<open>lossFunction\<close>, \<open>cam\<close> and \<open>settings\<close> carry the prefix \<open>ef_\<close>.
\<close>

record EnergyFunction =
  parameters :: Parameters
  ef_lossFunction :: LossFunction
  ef_cam :: CameraBundle
  ef_settings :: EnergyFunctionSettings
  residuals :: "Residual list"

text \<open>
  The constructor (lines 20-78). \<open>targetStep\<close> is the body of the two loops over the
  target key frame and the target camera, for one optimized point; its state is
  \<open>hasResiduals\<close>, the vector \<open>optimizedPoints\<close> and the vector \<open>residuals\<close>.
  \<open>pointStep\<close> is the body of the loop over the optimized points of a host entry, and
  \<open>allPoints\<close> lists the points in the order of the three outer loops.
\<close>

definition targetStep ::
  "CameraBundle \<Rightarrow> KeyFrame list \<Rightarrow> SE3 Table4 \<Rightarrow> LossFunction \<Rightarrow> EnergyFunctionSettings \<Rightarrow>
   PointRef \<Rightarrow> nat \<times> nat \<Rightarrow> bool \<times> PointRef list \<times> Residual list \<Rightarrow>
   bool \<times> PointRef list \<times> Residual list" where
  "targetStep bundle keyFrames hostToTarget lossFn sett ref tgt acc =
     (let hostInd = fst ref; hostCamInd = fst (snd ref);
          targetInd = fst tgt; targetCamInd = snd tgt;
          optP = getPoint keyFrames ref;
          ray = smul (depth optP) (dir optP);
          hasResiduals = fst acc; optimizedPointsV = fst (snd acc); residualsV = snd (snd acc)
      in if hostInd = targetInd then acc
         else let hostToTargetImage = get4 hostToTarget hostInd hostCamInd targetInd targetCamInd;
                  rayTarget = SE3_act hostToTargetImage ray;
                  camT = cam (bundle ! targetCamInd)
              in if \<not> isMappable camT rayTarget then acc
                 else let pointTarget = map_cam camT rayTarget
                      in if \<not> isOnImage camT pointTarget (height (residual sett)) then acc
                         else let optimizedPointsV' =
                                    (if \<not> hasResiduals then optimizedPointsV @ [ref]
                                     else optimizedPointsV)
                              in (True, optimizedPointsV',
                                  residualsV @
                                    [Residual_ctor hostInd hostCamInd targetInd targetCamInd
                                       (length optimizedPointsV' - 1) (logDepth optP) bundle
                                       (frames (keyFrames ! hostInd) ! hostCamInd)
                                       (frames (keyFrames ! targetInd) ! targetCamInd)
                                       optP hostToTargetImage lossFn (residual sett)]))"

definition pointStep ::
  "CameraBundle \<Rightarrow> KeyFrame list \<Rightarrow> SE3 Table4 \<Rightarrow> LossFunction \<Rightarrow> EnergyFunctionSettings \<Rightarrow>
   PointRef \<Rightarrow> PointRef list \<times> Residual list \<Rightarrow> PointRef list \<times> Residual list" where
  "pointStep bundle keyFrames hostToTarget lossFn sett ref acc =
     (if state (getPoint keyFrames ref) \<noteq> ACTIVE then acc
      else snd (fold (targetStep bundle keyFrames hostToTarget lossFn sett ref)
                  (List.product [0..<length keyFrames] [0..<length bundle])
                  (False, fst acc, snd acc)))"

definition allPoints :: "CameraBundle \<Rightarrow> KeyFrame list \<Rightarrow> PointRef list" where
  "allPoints bundle keyFrames =
     concat (map (\<lambda>hostInd.
       concat (map (\<lambda>hostCamInd.
         map (\<lambda>k. (hostInd, hostCamInd, k))
           [0..<length (optimizedPoints (frames (keyFrames ! hostInd) ! hostCamInd))])
         [0..<length bundle]))
       [0..<length keyFrames])"

definition EnergyFunction_ctor ::
  "CameraBundle \<Rightarrow> KeyFrame list \<Rightarrow> EnergyFunctionSettings \<Rightarrow> error + EnergyFunction" where
  "EnergyFunction_ctor camBundle keyFrames sett =
     (let parameters0 = Parameters_ctor camBundle keyFrames;
          lossFn = getLoss (opt_lossType (optimization sett)) (outlierDiff (residual sett))
      in if \<not> length keyFrames \<ge> 2 then Inl CheckFailed
         else let hostToTarget = PrecomputedHostToTarget camBundle parameters0;
                  acc = fold (pointStep camBundle keyFrames hostToTarget lossFn sett)
                          (allPoints camBundle keyFrames) ([], [])
              in Inr \<lparr>parameters = setPoints keyFrames (fst acc) parameters0,
                      ef_lossFunction = lossFn, ef_cam = camBundle, ef_settings = sett,
                      residuals = snd acc\<rparr>)"

section \<open>EnergyFunction: optimize\<close>

text \<open>
  The classes \<open>Hessian\<close>, \<open>Gradient\<close>, their accumulators and the parametrization
  Jacobians, the constructor of \<open>MotionDerivatives\<close>, and the methods \<open>update\<close> and
  \<open>apply\<close> (here \<open>applyParameters\<close>) of the parameter block are not among the sources. They are the fields of the
  record \<open>Collaborators\<close>, over which every definition of this section is parametric:
  \<open>mkHessian\<close> and \<open>mkGradient\<close> stand for \<open>getHessian\<close> and \<open>getGradient\<close>
  (lines 98-143), which accumulate the residuals' contributions; \<open>update\<close> changes the
  values of the parameter block.
\<close>

record ('H, 'G, 'J) Collaborators =
  mkMotion :: "SE3 \<Rightarrow> SE3 \<Rightarrow> SE3 \<Rightarrow> SE3 \<Rightarrow> MotionDerivatives"
  mkParametrizationJacobians :: "Parameters \<Rightarrow> 'J"
  mkHessian :: "Residual list \<Rightarrow> Values \<Rightarrow> 'J \<Rightarrow> Jacobian list \<Rightarrow> 'H"
  mkGradient :: "Residual list \<Rightarrow> Values \<Rightarrow> 'J \<Rightarrow> Jacobian list \<Rightarrow> 'G"
  levenbergMarquardtDamp :: "'H \<Rightarrow> real \<Rightarrow> 'H"
  solve :: "'H \<Rightarrow> 'G \<Rightarrow> DeltaParameterVector"
  update :: "DeltaParameterVector \<Rightarrow> State \<Rightarrow> State"
  applyParameters :: "Parameters \<Rightarrow> KeyFrame list \<Rightarrow> KeyFrame list"

record 'J Derivatives =
  parametrizationJacobians :: 'J
  residualJacobians :: "Jacobian list"

text \<open>The constructor of \<open>Derivatives\<close> (lines 359-381).\<close>

definition createDerivatives ::
  "real \<Rightarrow> ('H, 'G, 'J) Collaborators \<Rightarrow> EnergyFunction \<Rightarrow> Values \<Rightarrow> SE3 Table4 \<Rightarrow>
   (nat \<Rightarrow> nat \<Rightarrow> nat \<Rightarrow> nat \<Rightarrow> MotionDerivatives) \<Rightarrow> (nat \<Rightarrow> nat \<Rightarrow> nat \<Rightarrow> nat \<Rightarrow> AffLight) \<Rightarrow>
   'J Derivatives" where
  "createDerivatives maxT co efn values hostToTarget motionDerivatives lightHostToTarget =
     \<lparr>parametrizationJacobians = mkParametrizationJacobians co (parameters efn),
      residualJacobians =
        map (\<lambda>res. let hi = mHostInd res; hci = mHostCamInd res; ti = mTargetInd res;
                        tci = mTargetCamInd res; pInd = mPointInd res
                    in getJacobian maxT res (get4 hostToTarget hi hci ti tci)
                         (motionDerivatives hi hci ti tci)
                         (getLightWorldToFrame (parameters efn) hi hci)
                         (lightHostToTarget hi hci ti tci) (logDepth_at (parameters efn) pInd))
          (residuals efn)\<rparr>"

text \<open>
  The local variables of \<open>optimize\<close> (lines 158-220), together with the object itself,
  whose member \<open>parameters\<close> the loop changes.
\<close>

record ('H, 'G, 'J) LoopState =
  ef :: EnergyFunction
  lambda :: real
  hostToTarget :: "SE3 Table4"
  motionDerivatives :: "nat \<Rightarrow> nat \<Rightarrow> nat \<Rightarrow> nat \<Rightarrow> MotionDerivatives"
  lightHostToTarget :: "nat \<Rightarrow> nat \<Rightarrow> nat \<Rightarrow> nat \<Rightarrow> AffLight"
  curValues :: Values
  curDerivatives :: "'J Derivatives"
  hessian :: 'H
  gradient :: 'G
  parametersUpdated :: bool

text \<open>Lines 159-168: the state before the first iteration.\<close>

definition optimize_init ::
  "real \<Rightarrow> ('H, 'G, 'J) Collaborators \<Rightarrow> EnergyFunction \<Rightarrow> ('H, 'G, 'J) LoopState" where
  "optimize_init maxT co efn =
     (let h2t = PrecomputedHostToTarget (ef_cam efn) (parameters efn);
          md = motionDerivatives_get (mkMotion co) (ef_cam efn) (parameters efn);
          l2t = lightHostToTarget_get (parameters efn);
          cv = createValues maxT (residuals efn) (parameters efn) h2t l2t;
          cd = createDerivatives maxT co efn cv h2t md l2t
      in \<lparr>ef = efn, lambda = opt_initialLambda (optimization (ef_settings efn)),
          hostToTarget = h2t, motionDerivatives = md, lightHostToTarget = l2t,
          curValues = cv, curDerivatives = cd,
          hessian = mkHessian co (residuals efn) cv (parametrizationJacobians cd) (residualJacobians cd),
          gradient = mkGradient co (residuals efn) cv (parametrizationJacobians cd) (residualJacobians cd),
          parametersUpdated = False\<rparr>)"

text \<open>Lines 177-183: the derivatives are made anew after an accepted step.\<close>

definition refresh ::
  "real \<Rightarrow> ('H, 'G, 'J) Collaborators \<Rightarrow> ('H, 'G, 'J) LoopState \<Rightarrow> ('H, 'G, 'J) LoopState" where
  "refresh maxT co st =
     (if parametersUpdated st
      then let md = motionDerivatives_get (mkMotion co) (ef_cam (ef st)) (parameters (ef st));
               cd = createDerivatives maxT co (ef st) (curValues st) (hostToTarget st) md
                      (lightHostToTarget st)
           in st\<lparr>motionDerivatives := md, curDerivatives := cd,
                 hessian := mkHessian co (residuals (ef st)) (curValues st)
                              (parametrizationJacobians cd) (residualJacobians cd),
                 gradient := mkGradient co (residuals (ef st)) (curValues st)
                               (parametrizationJacobians cd) (residualJacobians cd)\<rparr>
      else st)"

text \<open>
  Lines 185-194: the step \<open>delta\<close>, the parameter block after \<open>parameters.update(delta)\<close>,
  and the values there.
\<close>

definition stepDelta :: "('H, 'G, 'J) Collaborators \<Rightarrow> ('H, 'G, 'J) LoopState \<Rightarrow> DeltaParameterVector" where
  "stepDelta co st = solve co (levenbergMarquardtDamp co (hessian st) (lambda st)) (gradient st)"

definition trialParameters ::
  "real \<Rightarrow> ('H, 'G, 'J) Collaborators \<Rightarrow> ('H, 'G, 'J) LoopState \<Rightarrow> Parameters" where
  "trialParameters maxT co st =
     (let st1 = refresh maxT co st; ps = parameters (ef st1)
      in ps\<lparr>pstate := update co (stepDelta co st1) (pstate ps)\<rparr>)"

definition trialValues ::
  "real \<Rightarrow> ('H, 'G, 'J) Collaborators \<Rightarrow> ('H, 'G, 'J) LoopState \<Rightarrow> Values" where
  "trialValues maxT co st =
     (let ps = trialParameters maxT co st
      in createValues maxT (residuals (ef st)) ps
           (PrecomputedHostToTarget (ef_cam (ef st)) ps) (lightHostToTarget_get ps))"

text \<open>
  Lines 203-213: the test \<open>newEnergy >= curEnergy\<close> on the two doubles and its branches.
  On a rejected step the saved state is recovered and \<open>lambda\<close> grows; otherwise \<open>lambda\<close>
  shrinks and the new values and precomputations replace the current ones.
\<close>

definition acceptOrReject ::
  "('H, 'G, 'J) LoopState \<Rightarrow> State \<Rightarrow> Parameters \<Rightarrow> SE3 Table4 \<Rightarrow>
   (nat \<Rightarrow> nat \<Rightarrow> nat \<Rightarrow> nat \<Rightarrow> AffLight) \<Rightarrow> Values \<Rightarrow> double \<Rightarrow> double \<Rightarrow>
   ('H, 'G, 'J) LoopState" where
  "acceptOrReject st1 savedState updated newHostToTarget newLightHostToTarget newValues
     curEnergy newEnergy =
     (if dge newEnergy curEnergy
      then st1\<lparr>ef := (ef st1)\<lparr>parameters := recoverState savedState updated\<rparr>,
               lambda := lambda st1 * opt_failMultiplier (optimization (ef_settings (ef st1))),
               parametersUpdated := False\<rparr>
      else st1\<lparr>ef := (ef st1)\<lparr>parameters := updated\<rparr>,
               lambda := lambda st1 * opt_successMultiplier (optimization (ef_settings (ef st1))),
               curValues := newValues,
               hostToTarget := newHostToTarget,
               lightHostToTarget := newLightHostToTarget,
               parametersUpdated := True\<rparr>)"

text \<open>
  One iteration of the loop (lines 169-217), without the logging and the timing. The values
  of this model are reals, so the two energies that \<open>totalEnergy\<close> returns here are
  finite doubles.
\<close>

definition iteration ::
  "real \<Rightarrow> ('H, 'G, 'J) Collaborators \<Rightarrow> ('H, 'G, 'J) LoopState \<Rightarrow> error + ('H, 'G, 'J) LoopState" where
  "iteration maxT co st =
     (case totalEnergy (ef_lossFunction (ef st)) (curValues st) of
        Inl e \<Rightarrow> Inl e
      | Inr curEnergy \<Rightarrow>
          let st1 = refresh maxT co st;
              savedState = saveState (parameters (ef st1));
              updated = trialParameters maxT co st;
              newHostToTarget = PrecomputedHostToTarget (ef_cam (ef st1)) updated;
              newLightHostToTarget = lightHostToTarget_get updated;
              newValues = trialValues maxT co st
          in (case totalEnergy (ef_lossFunction (ef st1)) newValues of
                Inl e \<Rightarrow> Inl e
              | Inr newEnergy \<Rightarrow>
                  Inr (acceptOrReject st1 savedState updated newHostToTarget newLightHostToTarget
                         newValues (Fin curEnergy) (Fin newEnergy))))"

fun optimize_loop ::
  "real \<Rightarrow> ('H, 'G, 'J) Collaborators \<Rightarrow> nat \<Rightarrow> ('H, 'G, 'J) LoopState \<Rightarrow> error + ('H, 'G, 'J) LoopState" where
  "optimize_loop maxT co 0 st = Inr st"
| "optimize_loop maxT co (Suc n) st =
     (case iteration maxT co st of
        Inl e \<Rightarrow> Inl e
      | Inr st' \<Rightarrow> optimize_loop maxT co n st')"

text \<open>
  \<open>optimize(maxIterations)\<close>: the loop runs \<open>maxIterations\<close> times, not at all when the
  number is not positive; then \<open>parameters.apply()\<close> writes to the key frames. The result
  is the object and the key frames after the call.
\<close>

definition optimize ::
  "real \<Rightarrow> ('H, 'G, 'J) Collaborators \<Rightarrow> EnergyFunction \<Rightarrow> KeyFrame list \<Rightarrow> int \<Rightarrow>
   error + EnergyFunction \<times> KeyFrame list" where
  "optimize maxT co efn keyFrames maxIterations =
     (case optimize_loop maxT co (nat maxIterations) (optimize_init maxT co efn) of
        Inl e \<Rightarrow> Inl e
      | Inr st \<Rightarrow> Inr (ef st, applyParameters co (parameters (ef st)) keyFrames))"

section \<open>BundleAdjusterCeres (BundleAdjusterCeres.cpp)\<close>

text \<open>
  The parameter blocks that \<open>adjust\<close> gives to the ceres problem, named by what they
  point to: the translation and the rotation of \<open>bodyToWorld[i]\<close>, the affine pair of
  the entry of camera \<open>c\<close> in key frame \<open>i\<close>, and the log-depth of the \<open>k\<close>-th optimized
  point of that entry. \<open>ProblemValues\<close> is the memory behind the blocks.
\<close>

datatype Block =
  TranslationBlock nat
| RotationBlock nat
| AffLightBlock nat nat
| LogDepthBlock nat nat nat

record ProblemValues =
  pv_translation :: "nat \<Rightarrow> Vec3"
  pv_rotation :: "nat \<Rightarrow> Quaternion"
  pv_affLight :: "nat \<Rightarrow> nat \<Rightarrow> AffLight"
  pv_logDepth :: "nat \<Rightarrow> nat \<Rightarrow> nat \<Rightarrow> real"

text \<open>
  Of a \<open>ceres::Problem\<close> the model keeps the parameter blocks and those set constant; the
  residual blocks, bounds and parametrizations only steer the minimizer. \<open>ceres::Solve\<close>
  is a function of the library: it writes to the parameter blocks of the problem that are
  not constant, and to nothing else. What it writes there is the parameter \<open>minimizer\<close>.
\<close>

record Problem =
  parameterBlocks :: "Block list"
  constantBlocks :: "Block list"

definition isFree :: "Problem \<Rightarrow> Block \<Rightarrow> bool" where
  "isFree problem b = (b \<in> set (parameterBlocks problem) \<and> b \<notin> set (constantBlocks problem))"

definition Solve :: "(Problem \<Rightarrow> ProblemValues \<Rightarrow> ProblemValues) \<Rightarrow> Problem \<Rightarrow> ProblemValues \<Rightarrow> ProblemValues" where
  "Solve minimizer problem v =
     (let w = minimizer problem v
      in \<lparr>pv_translation = (\<lambda>i. if isFree problem (TranslationBlock i) then pv_translation w i
                                 else pv_translation v i),
          pv_rotation = (\<lambda>i. if isFree problem (RotationBlock i) then pv_rotation w i
                              else pv_rotation v i),
          pv_affLight = (\<lambda>i c. if isFree problem (AffLightBlock i c) then pv_affLight w i c
                                else pv_affLight v i c),
          pv_logDepth = (\<lambda>i c k. if isFree problem (LogDepthBlock i c k) then pv_logDepth w i c k
                                  else pv_logDepth v i c k)\<rparr>)"

text \<open>
  The settings that decide which blocks exist and which are constant:
  \<open>affineLight.optimizeAffineLight\<close>, \<open>bundleAdjuster.minFirstToSecondRadius\<close>,
  \<open>bundleAdjuster.fixedRotationOnSecondKF\<close>, \<open>bundleAdjuster.fixedMotionOnFirstAdjustent\<close>,
  \<open>depth.min\<close> and \<open>depth.max\<close>.
\<close>

record BundleAdjusterSettings =
  optimizeAffineLight :: bool
  minFirstToSecondRadius :: real
  fixedRotationOnSecondKF :: bool
  fixedMotionOnFirstAdjustent :: bool
  ba_depth_min :: real
  ba_depth_max :: real

fun norm3 :: "Vec3 \<Rightarrow> real" where
  "norm3 (x, y, z) = sqrt (x * x + y * y + z * z)"

text \<open>
  The blocks of the problem (lines 115-141 and 178) and the blocks set constant
  (lines 137-138, 143-167), in the order of the calls.
\<close>

definition frameBlocks :: "KeyFrame list \<Rightarrow> Block list" where
  "frameBlocks keyFrames =
     concat (map (\<lambda>i. [TranslationBlock i, RotationBlock i] @
                       map (\<lambda>c. AffLightBlock i c) [0..<length (frames (keyFrames ! i))])
               [0..<length keyFrames])"

definition depthBlocks :: "BundleAdjusterSettings \<Rightarrow> CameraBundle \<Rightarrow> KeyFrame list \<Rightarrow> Block list" where
  "depthBlocks sett bundle keyFrames =
     concat (map (\<lambda>hostInd.
       concat (map (\<lambda>hostCamInd.
         concat (map (\<lambda>k. let optP = optimizedPoints (frames (keyFrames ! hostInd) ! hostCamInd) ! k
                          in if depth optP \<le> ba_depth_min sett \<or> depth optP \<ge> ba_depth_max sett then []
                             else [LogDepthBlock hostInd hostCamInd k])
           [0..<length (optimizedPoints (frames (keyFrames ! hostInd) ! hostCamInd))]))
         [0..<length bundle]))
       [0..<length keyFrames])"

definition constantBlocksOf :: "BundleAdjusterSettings \<Rightarrow> KeyFrame list \<Rightarrow> Block list" where
  "constantBlocksOf sett keyFrames =
     (let bodyToWorldV = map thisToWorld keyFrames;
          firstToWorld = bodyToWorldV ! 0;
          secondToWorld = bodyToWorldV ! 1;
          radius = norm3 (vadd (translation secondToWorld) (smul (- 1) (translation firstToWorld)))
      in concat (map (\<lambda>i. if \<not> optimizeAffineLight sett
                           then map (\<lambda>c. AffLightBlock i c) [0..<length (frames (keyFrames ! i))]
                           else [])
                   [0..<length keyFrames])
         @ [TranslationBlock 0, RotationBlock 0]
         @ map (\<lambda>c. AffLightBlock 0 c) [0..<length (frames (keyFrames ! 0))]
         @ (if radius > minFirstToSecondRadius sett then [] else [TranslationBlock 1])
         @ (if fixedRotationOnSecondKF sett then [RotationBlock 1] else [])
         @ (if fixedMotionOnFirstAdjustent sett \<and> length keyFrames = 2
            then [TranslationBlock 1, RotationBlock 1] else []))"

text \<open>
  The constructor's checks (lines 24-25) and \<open>adjust\<close> (lines 104-270) on a fresh
  adjuster, whose vector \<open>bodyToWorld\<close> is empty. The poses are copied to
  \<open>bodyToWorld\<close> and written back after \<open>ceres::Solve\<close> (lines 266-267); the affine pairs
  and the log-depths are changed in place.
\<close>

definition adjust ::
  "(Problem \<Rightarrow> ProblemValues \<Rightarrow> ProblemValues) \<Rightarrow> BundleAdjusterSettings \<Rightarrow> CameraBundle \<Rightarrow>
   KeyFrame list \<Rightarrow> error + KeyFrame list" where
  "adjust minimizer sett bundle keyFrames =
     (if \<not> length keyFrames \<ge> 2 then Inl CheckFailed
      else if \<not> length bundle = 1 then Inl CheckFailed
      else let bodyToWorldV = map thisToWorld keyFrames;
               v0 = \<lparr>pv_translation = (\<lambda>i. translation (bodyToWorldV ! i)),
                     pv_rotation = (\<lambda>i. so3 (bodyToWorldV ! i)),
                     pv_affLight = (\<lambda>i c. lightWorldToThis (frames (keyFrames ! i) ! c)),
                     pv_logDepth = (\<lambda>i c k. logDepth (optimizedPoints (frames (keyFrames ! i) ! c) ! k))\<rparr>;
               problem = \<lparr>parameterBlocks = frameBlocks keyFrames @ depthBlocks sett bundle keyFrames,
                          constantBlocks = constantBlocksOf sett keyFrames\<rparr>;
               v1 = Solve minimizer problem v0
           in Inr (map (\<lambda>kfInd.
                     (keyFrames ! kfInd)
                       \<lparr>thisToWorld := (pv_rotation v1 kfInd, pv_translation v1 kfInd),
                        frames :=
                          map (\<lambda>c. (frames (keyFrames ! kfInd) ! c)
                                 \<lparr>optimizedPoints :=
                                    map (\<lambda>k. (optimizedPoints (frames (keyFrames ! kfInd) ! c) ! k)
                                                \<lparr>logDepth := pv_logDepth v1 kfInd c k\<rparr>)
                                      [0..<length (optimizedPoints (frames (keyFrames ! kfInd) ! c))],
                                  lightWorldToThis := pv_affLight v1 kfInd c\<rparr>)
                            [0..<length (frames (keyFrames ! kfInd))]\<rparr>)
                   [0..<length keyFrames]))"

chapter \<open>The specification's quantities and concrete inputs\<close>

section \<open>Step quality\<close>

text \<open>
  The quantities the specification names: the predicted and the observed reduction, both
  with their sign flipped when the predicted reduction is negative, their quotient, and the
  third power. They are doubles, as the energies are.
\<close>

definition D_pred :: "double \<Rightarrow> double \<Rightarrow> double" where
  "D_pred oldEnergy predictedEnergy =
     (if dless (dsub oldEnergy predictedEnergy) (Fin 0) then dneg (dsub oldEnergy predictedEnergy)
      else dsub oldEnergy predictedEnergy)"

definition D_obs :: "double \<Rightarrow> double \<Rightarrow> double \<Rightarrow> double" where
  "D_obs oldEnergy newEnergy predictedEnergy =
     (if dless (dsub oldEnergy predictedEnergy) (Fin 0) then dneg (dsub oldEnergy newEnergy)
      else dsub oldEnergy newEnergy)"

definition quality :: "double \<Rightarrow> double \<Rightarrow> double \<Rightarrow> double" where
  "quality oldEnergy newEnergy predictedEnergy =
     ddiv (D_obs oldEnergy newEnergy predictedEnergy) (D_pred oldEnergy predictedEnergy)"

definition dcube :: "double \<Rightarrow> double" where
  "dcube x = dmul (dmul x x) x"

section \<open>Per-sample weights\<close>

text \<open>
  The curvature term \<open>rho_1 + 2 * rho_2 * v_i^2\<close> and \<open>rho_1\<close> at the \<open>i\<close>-th pattern
  value; the weight as the specification words it (the larger of the curvature term and
  the floor \<open>eps * rho_1\<close>); the weight with the floor taken only below zero; and the
  condition under which \<open>CHECK_GE(rho[1], 0)\<close> fails.
\<close>

definition rawWeight :: "Residual \<Rightarrow> real list \<Rightarrow> nat \<Rightarrow> real" where
  "rawWeight res values i =
     (let v = values ! i; rho = lossFunction res (v * v)
      in fst (snd rho) + 2 * snd (snd rho) * (v * v))"

definition rho1_at :: "Residual \<Rightarrow> real list \<Rightarrow> nat \<Rightarrow> real" where
  "rho1_at res values i = fst (snd (lossFunction res (values ! i * values ! i)))"

definition weight_spec :: "Residual \<Rightarrow> real list \<Rightarrow> nat \<Rightarrow> real" where
  "weight_spec res values i =
     gradWeights res ! i * max (rawWeight res values i) (lossEps (rsettings res) * rho1_at res values i)"

definition weight_code :: "Residual \<Rightarrow> real list \<Rightarrow> nat \<Rightarrow> real" where
  "weight_code res values i =
     gradWeights res ! i *
       (if rawWeight res values i < 0 then lossEps (rsettings res) * rho1_at res values i
        else rawWeight res values i)"

definition check_fails :: "Residual \<Rightarrow> real list \<Rightarrow> nat \<Rightarrow> bool" where
  "check_fails res values i = (rawWeight res values i < 0 \<and> rho1_at res values i < 0)"

section \<open>Concrete inputs\<close>

text \<open>
  A pinhole camera with a 640 x 480 image around the principal point \<open>(0, 0)\<close>, an
  image of constant intensity 5, and a
  residual with a one-point pattern between key frames 0 and 1, whose host intensity is 3.
\<close>

definition pinhole :: CameraModel where
  "pinhole =
     \<lparr>isMappable = (\<lambda>v. snd (snd v) > 0),
      map_cam = (\<lambda>v. (fst v / snd (snd v), fst (snd v) / snd (snd v))),
      unmap = (\<lambda>p. (fst p, snd p, 1)),
      isOnImage = (\<lambda>p border. \<bar>fst p\<bar> < 320 - real_of_int border
                      \<and> \<bar>snd p\<bar> < 240 - real_of_int border),
      diffMap = (\<lambda>v. ((fst v / snd (snd v), fst (snd v) / snd (snd v)),
                     [[1 / snd (snd v), 0, - fst v / (snd (snd v) * snd (snd v))],
                      [0, 1 / snd (snd v), - fst (snd v) / (snd (snd v) * snd (snd v))]]))\<rparr>"

definition flatImage :: Interpolator where
  "flatImage r c = (5, 0, 0)"

definition oneTap :: "LossFunction \<Rightarrow> real \<Rightarrow> real \<Rightarrow> Residual" where
  "oneTap lossFn gw eps =
     \<lparr>mHostInd = 0, mHostCamInd = 0, mTargetInd = 1, mTargetCamInd = 0, mPointInd = 0,
      lossFunction = lossFn, camTarget = pinhole, target = flatImage,
      hostPoint = (0, 0), hostDir = (0, 0, 1),
      rsettings = \<lparr>pattern = [(0, 0)], height = 1, weighting_c = 1, lossEps = eps, depth_max = 10,
          outlierDiff = 1\<rparr>,
      reprojPattern = [(0, 0)], hostIntensities = [3], gradWeights = [gw]\<rparr>"

text \<open>
  A rig of one camera, two key frames at the identity whose second affine pair is
  \<open>(0, bT)\<close>, and an energy function over them with the one-point residual and the
  trivial loss. The collaborators \<open>shiftB k\<close> propose in every iteration to add \<open>k\<close> to
  the brightness offset of key frame 1.
\<close>

definition unitRig :: CameraBundle where
  "unitRig = [\<lparr>cam = pinhole, thisToBody = SE3_identity, bodyToThis = SE3_identity\<rparr>]"

definition twoFrames :: "real \<Rightarrow> Parameters" where
  "twoFrames bT =
     \<lparr>pstate = \<lparr>bodyToWorld = [SE3_identity, SE3_identity],
                 lightWorldToFrame = [[(0, 0)], [(0, bT)]],
                 logDepths = [0]\<rparr>,
      points = [(0, 0, 0)]\<rparr>"

definition exampleSettings :: EnergyFunctionSettings where
  "exampleSettings =
     \<lparr>optimization =
        \<lparr>opt_lossType = TRIVIAL, opt_initialLambda = 1, opt_successMultiplier = 1/2,
         opt_failMultiplier = 2,
         opt_stepControl = \<lparr>sc_initialLambda = 1, sc_initialFailMultiplier = 2,
           sc_acceptedQuality = 1/4, sc_minLambdaMultiplier = 1/3,
           sc_failMultiplierMultiplier = 3\<rparr>\<rparr>,
      residual = \<lparr>pattern = [(0, 0)], height = 1, weighting_c = 1, lossEps = 1/100,
        depth_max = 10, outlierDiff = 1\<rparr>\<rparr>"

definition exampleEF :: "Residual list \<Rightarrow> EnergyFunction" where
  "exampleEF rs =
     \<lparr>parameters = twoFrames 0, ef_lossFunction = TrivialLoss, ef_cam = unitRig,
      ef_settings = exampleSettings, residuals = rs\<rparr>"

definition shiftB :: "real \<Rightarrow> (unit, unit, unit) Collaborators" where
  "shiftB k =
     \<lparr>mkMotion = (\<lambda>a b c d. \<lparr>daction_dq_host = (\<lambda>v. []), daction_dt_host = [],
                    daction_dq_target = (\<lambda>v. []), daction_dt_target = []\<rparr>),
      mkParametrizationJacobians = (\<lambda>ps. ()),
      mkHessian = (\<lambda>rs vs pj js. ()),
      mkGradient = (\<lambda>rs vs pj js. ()),
      levenbergMarquardtDamp = (\<lambda>h l. h),
      solve = (\<lambda>h g. \<lparr>frameParameterOrder =
                          \<lparr>fpo_numKeyFrames = 2, fpo_numCameras = 1, affStart = (\<lambda>f c. 0)\<rparr>,
                        frame = [0, k], point = [0]\<rparr>),
      update = (\<lambda>delta s. s\<lparr>lightWorldToFrame :=
                  [lightWorldToFrame s ! 0,
                   [(0, snd (lightWorldToFrame s ! 1 ! 0) + frame delta ! 1)]]\<rparr>),
      applyParameters = (\<lambda>ps kfs. kfs)\<rparr>"

section \<open>The energy as the specification words it\<close>

text \<open>
  The sum over all residuals and all pattern indices \<open>i\<close> of \<open>w_i * rho(r_i^2)\<close>, where
  \<open>w_i\<close> is the \<open>i\<close>-th weight that \<open>getWeights\<close> returns for the residual's values.
\<close>

definition weightedEnergy_spec :: "LossFunction \<Rightarrow> Residual list \<Rightarrow> Values \<Rightarrow> real" where
  "weightedEnergy_spec lossFn rs valsAndCache =
     sum_list (map2 (\<lambda>res vc.
        sum_list (map (\<lambda>i. (case getWeights res (fst vc) of Inl e \<Rightarrow> 0 | Inr ws \<Rightarrow> ws ! i)
                            * fst (lossFn (fst vc ! i * fst vc ! i)))
                    [0..<length (pattern (rsettings res))]))
       rs valsAndCache)"

section \<open>The pattern values of a residual\<close>

text \<open>
  The values that \<open>createValues\<close> computes for one residual: the residual's current pattern
  values \<open>r_i\<close>.
\<close>

definition valuesOf ::
  "real \<Rightarrow> Parameters \<Rightarrow> SE3 Table4 \<Rightarrow> (nat \<Rightarrow> nat \<Rightarrow> nat \<Rightarrow> nat \<Rightarrow> AffLight) \<Rightarrow> Residual \<Rightarrow> real list" where
  "valuesOf maxT ps h l res =
     fst (getValues maxT res (get4 h (mHostInd res) (mHostCamInd res) (mTargetInd res) (mTargetCamInd res))
            (l (mHostInd res) (mHostCamInd res) (mTargetInd res) (mTargetCamInd res))
            (logDepth_at ps (mPointInd res)))"

section \<open>A change of the world frame\<close>

text \<open>
  The parameter block in which the body-to-world pose of every key frame is multiplied
  from the left by the rigid motion \<open>g\<close>.
\<close>

definition leftMultiply :: "SE3 \<Rightarrow> Parameters \<Rightarrow> Parameters" where
  "leftMultiply g ps =
     ps\<lparr>pstate := (pstate ps)\<lparr>bodyToWorld := map (SE3_mul g) (bodyToWorld (pstate ps))\<rparr>\<rparr>"

text \<open>
  The largest finite value of a double, for \<open>maxT\<close>, and motion derivatives whose
  translation blocks are minus and plus the identity.
\<close>

definition DBL_MAX :: real where
  "DBL_MAX = 2 ^ 1024 - 2 ^ 971"

definition unitMotion :: MotionDerivatives where
  "unitMotion =
     \<lparr>daction_dq_host = (\<lambda>v. [[0, 0, 0, 0], [0, 0, 0, 0], [0, 0, 0, 0]]),
      daction_dt_host = [[- 1, 0, 0], [0, - 1, 0], [0, 0, - 1]],
      daction_dq_target = (\<lambda>v. [[0, 0, 0, 0], [0, 0, 0, 0], [0, 0, 0, 0]]),
      daction_dt_target = [[1, 0, 0], [0, 1, 0], [0, 0, 1]]\<rparr>"

section \<open>The residuals of the constructor\<close>

text \<open>
  The conditions of the constructor, in terms of the poses: the ray of the point at its
  current depth, taken to the target camera by the host-to-target transform, is mappable
  and its projection lies on the target image within the border
  \<open>residualPattern.height\<close>; and a combination of a point and a target is admissible when
  in addition host and target key frame differ and the point is \<open>ACTIVE\<close>. \<open>pointOf\<close>
  is the point a residual refers to, through its index into the points of the parameter
  block.
\<close>

definition projectsInto :: "CameraBundle \<Rightarrow> KeyFrame list \<Rightarrow> EnergyFunctionSettings \<Rightarrow> PointRef \<Rightarrow> nat \<Rightarrow> nat \<Rightarrow> bool" where
  "projectsInto bundle keyFrames sett ref targetInd targetCamInd =
     (let optP = getPoint keyFrames ref;
          ray = smul (depth optP) (dir optP);
          rayTarget = SE3_act (hostToTarget_entry bundle (Parameters_ctor bundle keyFrames)
                                 (fst ref) (fst (snd ref)) targetInd targetCamInd) ray;
          camT = cam (bundle ! targetCamInd)
      in isMappable camT rayTarget \<and> isOnImage camT (map_cam camT rayTarget) (height (residual sett)))"

definition admissible :: "CameraBundle \<Rightarrow> KeyFrame list \<Rightarrow> EnergyFunctionSettings \<Rightarrow> PointRef \<Rightarrow> nat \<Rightarrow> nat \<Rightarrow> bool" where
  "admissible bundle keyFrames sett ref targetInd targetCamInd =
     (fst ref \<noteq> targetInd \<and> state (getPoint keyFrames ref) = ACTIVE
      \<and> projectsInto bundle keyFrames sett ref targetInd targetCamInd)"

definition pointOf :: "EnergyFunction \<Rightarrow> Residual \<Rightarrow> PointRef" where
  "pointOf efn r = points (parameters efn) ! mPointInd r"

text \<open>
  For the proofs: the test of the inner loops on the table of transforms, the residual
  that \<open>emplace_back\<close> constructs, the targets that pass the test for a point, the
  combination a residual stands for, and the invariant that every residual's point index
  is in range and agrees with its host indices.
\<close>

definition accepts :: "CameraBundle \<Rightarrow> KeyFrame list \<Rightarrow> SE3 Table4 \<Rightarrow> EnergyFunctionSettings \<Rightarrow> PointRef \<Rightarrow> nat \<times> nat \<Rightarrow> bool" where
  "accepts bundle keyFrames h2t sett ref tgt =
     (let optP = getPoint keyFrames ref;
          ray = smul (depth optP) (dir optP);
          rayTarget = SE3_act (get4 h2t (fst ref) (fst (snd ref)) (fst tgt) (snd tgt)) ray;
          camT = cam (bundle ! snd tgt)
      in fst ref \<noteq> fst tgt \<and> isMappable camT rayTarget
         \<and> isOnImage camT (map_cam camT rayTarget) (height (residual sett)))"

definition mkResidual ::
  "CameraBundle \<Rightarrow> KeyFrame list \<Rightarrow> SE3 Table4 \<Rightarrow> LossFunction \<Rightarrow> EnergyFunctionSettings \<Rightarrow>
   PointRef \<Rightarrow> nat \<Rightarrow> nat \<times> nat \<Rightarrow> Residual" where
  "mkResidual bundle keyFrames h2t lossFn sett ref k tgt =
     Residual_ctor (fst ref) (fst (snd ref)) (fst tgt) (snd tgt) k
       (logDepth (getPoint keyFrames ref)) bundle
       (frames (keyFrames ! fst ref) ! fst (snd ref))
       (frames (keyFrames ! fst tgt) ! snd tgt)
       (getPoint keyFrames ref)
       (get4 h2t (fst ref) (fst (snd ref)) (fst tgt) (snd tgt)) lossFn (residual sett)"

definition goodTargets ::
  "CameraBundle \<Rightarrow> KeyFrame list \<Rightarrow> SE3 Table4 \<Rightarrow> EnergyFunctionSettings \<Rightarrow> PointRef \<Rightarrow> (nat \<times> nat) list" where
  "goodTargets bundle keyFrames h2t sett ref =
     (if state (getPoint keyFrames ref) = ACTIVE
      then filter (accepts bundle keyFrames h2t sett ref)
             (List.product [0..<length keyFrames] [0..<length bundle])
      else [])"

definition key :: "PointRef list \<Rightarrow> Residual \<Rightarrow> PointRef \<times> nat \<times> nat" where
  "key pts r = (pts ! mPointInd r, mTargetInd r, mTargetCamInd r)"

definition wellIndexed :: "PointRef list \<Rightarrow> Residual list \<Rightarrow> bool" where
  "wellIndexed pts res =
     (\<forall>r \<in> set res. mPointInd r < length pts \<and> mHostInd r = fst (pts ! mPointInd r)
        \<and> mHostCamInd r = fst (snd (pts ! mPointInd r)))"

text \<open>The key frames with every body-to-world pose multiplied from the left by \<open>g\<close>.\<close>

definition leftMultiplyKeyFrames :: "SE3 \<Rightarrow> KeyFrame list \<Rightarrow> KeyFrame list" where
  "leftMultiplyKeyFrames g keyFrames = map (\<lambda>kf. kf\<lparr>thisToWorld := SE3_mul g (thisToWorld kf)\<rparr>) keyFrames"

text \<open>
  Two key frames at the identity with one camera each. The first hosts three points: an
  active one on the optical axis, an outlier, and an active one that projects outside of
  the image; its image has the constant intensity 3. The second hosts none.
\<close>

definition exampleKeyFrames :: "KeyFrame list" where
  "exampleKeyFrames =
     [\<lparr>thisToWorld = SE3_identity,
       frames = [\<lparr>optimizedPoints =
                    [\<lparr>p_host = (0, 0), dir = (0, 0, 1), logDepth = 0, state = ACTIVE\<rparr>,
                     \<lparr>p_host = (5, 5), dir = (0, 0, 1), logDepth = 0, state = OUTLIER\<rparr>,
                     \<lparr>p_host = (400, 0), dir = (400, 0, 1), logDepth = 0, state = ACTIVE\<rparr>],
                  lightWorldToThis = (0, 0), interpolator = (\<lambda>r c. (3, 0, 0))\<rparr>]\<rparr>,
      \<lparr>thisToWorld = SE3_identity,
       frames = [\<lparr>optimizedPoints = [], lightWorldToThis = (0, 0), interpolator = flatImage\<rparr>]\<rparr>]"

section \<open>The anchor\<close>

text \<open>
  The anchor of the stored values: the pose of key frame 0 and its affine pairs, one for
  each camera. Collaborators keep the anchor when \<open>update\<close> never changes it (section
  4.1 of the specification: the delta entries of key frame 0 are masked to zero before
  they are applied). \<open>affEntries\<close> are the positions in \<open>frame\<close> of the affine blocks
  of the key frames from index 1 on.
\<close>

definition anchor :: "State \<Rightarrow> SE3 \<times> AffLight list" where
  "anchor s = (bodyToWorld s ! 0, lightWorldToFrame s ! 0)"

definition keepsAnchor :: "('H, 'G, 'J) Collaborators \<Rightarrow> bool" where
  "keepsAnchor co = (\<forall>delta s. anchor (update co delta s) = anchor s)"

definition affEntries :: "FrameParameterOrder \<Rightarrow> nat set" where
  "affEntries order =
     {j. \<exists>frameInd camInd. 1 \<le> frameInd \<and> frameInd < fpo_numKeyFrames order
           \<and> camInd < fpo_numCameras order
           \<and> (j = affStart order frameInd camInd \<or> j = Suc (affStart order frameInd camInd))}"

text \<open>
  A minimizer that proposes to change every block; settings of the adjuster; and a delta
  vector for two key frames and one camera whose affine blocks start at \<open>2 * frameInd\<close>.
\<close>

definition greedyMinimizer :: "Problem \<Rightarrow> ProblemValues \<Rightarrow> ProblemValues" where
  "greedyMinimizer problem v =
     \<lparr>pv_translation = (\<lambda>i. (9, 9, 9)), pv_rotation = (\<lambda>i. (0, 1, 0, 0)),
      pv_affLight = (\<lambda>i c. (1, 1)), pv_logDepth = (\<lambda>i c k. 1)\<rparr>"

definition exampleAdjusterSettings :: BundleAdjusterSettings where
  "exampleAdjusterSettings =
     \<lparr>optimizeAffineLight = True, minFirstToSecondRadius = 1/10, fixedRotationOnSecondKF = False,
      fixedMotionOnFirstAdjustent = False, ba_depth_min = 1/10, ba_depth_max = 10\<rparr>"

definition exampleDelta :: DeltaParameterVector where
  "exampleDelta =
     \<lparr>frameParameterOrder = \<lparr>fpo_numKeyFrames = 2, fpo_numCameras = 1, affStart = (\<lambda>f c. 2 * f + 2 * c)\<rparr>,
      frame = [7, 8, 5, 6], point = [4]\<rparr>"

text \<open>
  Two key frames without optimized points, and the energy function that the constructor
  makes of them.
\<close>

definition emptyKeyFrames :: "KeyFrame list" where
  "emptyKeyFrames =
     [\<lparr>thisToWorld = SE3_identity,
       frames = [\<lparr>optimizedPoints = [], lightWorldToThis = (0, 0), interpolator = flatImage\<rparr>]\<rparr>,
      \<lparr>thisToWorld = SE3_identity,
       frames = [\<lparr>optimizedPoints = [], lightWorldToThis = (0, 0), interpolator = flatImage\<rparr>]\<rparr>]"

definition emptyEF :: EnergyFunction where
  "emptyEF =
     \<lparr>parameters = \<lparr>pstate = \<lparr>bodyToWorld = [SE3_identity, SE3_identity],
                                 lightWorldToFrame = [[(0, 0)], [(0, 0)]], logDepths = []\<rparr>,
                      points = []\<rparr>,
      ef_lossFunction = TrivialLoss, ef_cam = unitRig, ef_settings = exampleSettings, residuals = []\<rparr>"

chapter \<open>Properties\<close>

section \<open>Doubles\<close>

lemma dmul_minus_one: "dmul x (Fin (- 1)) = dneg x"
  by (cases x) (simp_all add: dmul_def isZero_def isInf_def finiteResult_def signedZero_def signedInf_def)

lemma dsub_Fin: "dsub (Fin a) (Fin b) = Fin (a - b)"
  by (simp add: dsub_def dadd_def isInf_def)

lemma dless_Fin: "dless (Fin a) (Fin b) = (a < b)"
  by (simp add: dless_def)

lemma dge_Fin: "dge (Fin a) (Fin b) = (a \<ge> b)"
  by (auto simp add: dge_def dless_def)

lemma fin_dneg: "isFinite x \<Longrightarrow> isFinite (dneg x) \<and> valueOf (dneg x) = - valueOf x"
  by (cases x) simp_all

lemma fin_dadd:
  "isFinite x \<Longrightarrow> isFinite y \<Longrightarrow> isFinite (dadd x y) \<and> valueOf (dadd x y) = valueOf x + valueOf y"
  by (cases x; cases y) (simp_all add: dadd_def isInf_def)

lemma fin_dsub:
  "isFinite x \<Longrightarrow> isFinite y \<Longrightarrow> isFinite (dsub x y) \<and> valueOf (dsub x y) = valueOf x - valueOf y"
  using fin_dadd [of x "dneg y"] fin_dneg [of y] by (simp add: dsub_def)

lemma fin_dmul:
  "isFinite x \<Longrightarrow> isFinite y \<Longrightarrow> isFinite (dmul x y) \<and> valueOf (dmul x y) = valueOf x * valueOf y"
  by (cases x; cases y) (simp_all add: dmul_def isInf_def isZero_def finiteResult_def signedZero_def)

lemma fin_ddiv:
  "isFinite x \<Longrightarrow> isFinite y \<Longrightarrow> valueOf y \<noteq> 0 \<Longrightarrow>
   isFinite (ddiv x y) \<and> valueOf (ddiv x y) = valueOf x / valueOf y"
  by (cases x; cases y) (simp_all add: ddiv_def isInf_def isZero_def finiteResult_def signedZero_def)

lemma fin_dless: "isFinite x \<Longrightarrow> isFinite y \<Longrightarrow> dless x y = (valueOf x < valueOf y)"
  by (cases x; cases y) (simp_all add: dless_def)

lemma fin_dmax:
  "isFinite x \<Longrightarrow> isFinite y \<Longrightarrow> isFinite (dmax x y) \<and> valueOf (dmax x y) = max (valueOf x) (valueOf y)"
  using fin_dless [of x y] by (simp add: dmax_def max_def)

section \<open>The step controller\<close>

text \<open>
  \<open>newStep\<close> in terms of the quotient \<open>q\<close>: multiplying by \<open>-1\<close> flips the sign, also of
  a zero and of an infinity.
\<close>

lemma newStep_quality:
  "newStep sc oldEnergy newEnergy predictedEnergy =
     (let q = quality oldEnergy newEnergy predictedEnergy
      in if dless (Fin (sc_acceptedQuality (settings sc))) q
         then (True,
               sc\<lparr>mLambda := dmul (mLambda sc)
                       (dmax (Fin (sc_minLambdaMultiplier (settings sc)))
                          (dsub (Fin 1) (dcube (dsub (dmul (Fin 2) q) (Fin 1))))),
                  failMultiplier := Fin (sc_initialFailMultiplier (settings sc))\<rparr>)
         else (False,
               sc\<lparr>mLambda := dmul (mLambda sc) (failMultiplier sc),
                  failMultiplier := dmul (failMultiplier sc)
                                      (Fin (sc_failMultiplierMultiplier (settings sc)))\<rparr>))"
proof -
  define q where "q = quality oldEnergy newEnergy predictedEnergy"
  have q: "q = ddiv (if dless (dsub oldEnergy predictedEnergy) (Fin 0)
                     then dmul (dsub oldEnergy newEnergy) (Fin (- 1)) else dsub oldEnergy newEnergy)
                    (if dless (dsub oldEnergy predictedEnergy) (Fin 0)
                     then dmul (dsub oldEnergy predictedEnergy) (Fin (- 1))
                     else dsub oldEnergy predictedEnergy)"
    by (simp add: q_def quality_def D_obs_def D_pred_def dmul_minus_one)
  show ?thesis
    unfolding newStep_def Let_def q_def [symmetric] q [symmetric] dcube_def
    by simp
qed

text \<open>
  Claim C4. For every call \<open>newStep(oldEnergy, newEnergy, predictedEnergy)\<close>, whatever the
  three doubles and the state of the controller: with \<open>q = D_obs / D_pred\<close>, the call
  returns true exactly when \<open>q > acceptedQuality\<close>; in that case lambda is multiplied by
  \<open>max(minLambdaMultiplier, 1 - (2q-1)^3)\<close> and failMultiplier is reset to
  initialFailMultiplier; otherwise lambda is multiplied by failMultiplier and
  failMultiplier by failMultiplierMultiplier. The settings are never changed. The
  operations are those on doubles, so the statement also says what happens when the
  predicted reduction is zero: \<open>q\<close> is then \<open>+inf\<close>, \<open>-inf\<close> or NaN, the step is accepted
  for \<open>+inf\<close> only, and lambda is multiplied by \<open>max(minLambdaMultiplier, -inf)\<close>, which
  is \<open>minLambdaMultiplier\<close>.
\<close>

theorem newStep_spec:
  "(let q = quality oldEnergy newEnergy predictedEnergy;
        r = newStep sc oldEnergy newEnergy predictedEnergy
    in fst r = dless (Fin (sc_acceptedQuality (settings sc))) q
     \<and> settings (snd r) = settings sc
     \<and> mLambda (snd r) =
         (if dless (Fin (sc_acceptedQuality (settings sc))) q
          then dmul (mLambda sc) (dmax (Fin (sc_minLambdaMultiplier (settings sc)))
                 (dsub (Fin 1) (dcube (dsub (dmul (Fin 2) q) (Fin 1)))))
          else dmul (mLambda sc) (failMultiplier sc))
     \<and> failMultiplier (snd r) =
         (if dless (Fin (sc_acceptedQuality (settings sc))) q
          then Fin (sc_initialFailMultiplier (settings sc))
          else dmul (failMultiplier sc) (Fin (sc_failMultiplierMultiplier (settings sc)))))"
  by (simp add: newStep_quality Let_def)

text \<open>
  Two accepted calls of a controller with lambda 8, failMultiplier 3, acceptedQuality 1/4,
  minLambdaMultiplier 1/4 and initialFailMultiplier 2. The energies 10, 4, 2 give
  \<open>q = 3/4\<close>, and lambda is multiplied by \<open>1 - (1/2)^3\<close>. The energies 10, 4, 10
  predict no reduction: \<open>q = 6/0\<close> is \<open>+inf\<close>, the call returns true, and lambda is
  multiplied by \<open>minLambdaMultiplier\<close>.
\<close>

lemma quality_example: "quality (Fin 10) (Fin 4) (Fin 2) = Fin (3/4)"
  by (simp add: quality_def D_obs_def D_pred_def dsub_Fin dless_Fin ddiv_def isZero_def isInf_def finiteResult_def)

lemma quality_zero_prediction: "quality (Fin 10) (Fin 4) (Fin 10) = PInf"
  by (simp add: quality_def D_obs_def D_pred_def dsub_Fin dless_Fin ddiv_def isZero_def isInf_def signedInf_def)

lemma multiplier_example:
  "dmul (Fin 8) (dmax (Fin (1/4)) (dsub (Fin 1) (dcube (dsub (dmul (Fin 2) (Fin (3/4))) (Fin 1))))) = Fin 7"
  by (simp add: dcube_def dmul_def dsub_Fin dmax_def dless_Fin isInf_def isZero_def finiteResult_def)

lemma multiplier_zero_prediction:
  "dmul (Fin 8) (dmax (Fin (1/4)) (dsub (Fin 1) (dcube (dsub (dmul (Fin 2) PInf) (Fin 1))))) = Fin 2"
  by (simp add: dcube_def dmul_def dsub_def dadd_def dmax_def dless_def isInf_def isZero_def
        signedInf_def finiteResult_def)

theorem newStep_spec_witness:
  "newStep \<lparr>mLambda = Fin 8, failMultiplier = Fin 3,
        settings = \<lparr>sc_initialLambda = 1, sc_initialFailMultiplier = 2, sc_acceptedQuality = 1/4,
          sc_minLambdaMultiplier = 1/4, sc_failMultiplierMultiplier = 5\<rparr>\<rparr> (Fin 10) (Fin 4) (Fin 2)
     = (True, \<lparr>mLambda = Fin 7, failMultiplier = Fin 2,
        settings = \<lparr>sc_initialLambda = 1, sc_initialFailMultiplier = 2, sc_acceptedQuality = 1/4,
          sc_minLambdaMultiplier = 1/4, sc_failMultiplierMultiplier = 5\<rparr>\<rparr>)
   \<and> newStep \<lparr>mLambda = Fin 8, failMultiplier = Fin 3,
        settings = \<lparr>sc_initialLambda = 1, sc_initialFailMultiplier = 2, sc_acceptedQuality = 1/4,
          sc_minLambdaMultiplier = 1/4, sc_failMultiplierMultiplier = 5\<rparr>\<rparr> (Fin 10) (Fin 4) (Fin 10)
     = (True, \<lparr>mLambda = Fin 2, failMultiplier = Fin 2,
        settings = \<lparr>sc_initialLambda = 1, sc_initialFailMultiplier = 2, sc_acceptedQuality = 1/4,
          sc_minLambdaMultiplier = 1/4, sc_failMultiplierMultiplier = 5\<rparr>\<rparr>)"
proof -
  let ?sc = "\<lparr>mLambda = Fin 8, failMultiplier = Fin 3,
        settings = \<lparr>sc_initialLambda = 1, sc_initialFailMultiplier = 2, sc_acceptedQuality = 1/4,
          sc_minLambdaMultiplier = 1/4, sc_failMultiplierMultiplier = 5\<rparr>\<rparr>"
  have a: "newStep ?sc (Fin 10) (Fin 4) (Fin 2) = (True, ?sc\<lparr>mLambda := Fin 7, failMultiplier := Fin 2\<rparr>)"
    using newStep_spec [of "Fin 10" "Fin 4" "Fin 2" ?sc]
    unfolding Let_def quality_example
    by (cases "newStep ?sc (Fin 10) (Fin 4) (Fin 2)") (simp add: dless_Fin multiplier_example)
  have b: "newStep ?sc (Fin 10) (Fin 4) (Fin 10) = (True, ?sc\<lparr>mLambda := Fin 2, failMultiplier := Fin 2\<rparr>)"
    using newStep_spec [of "Fin 10" "Fin 4" "Fin 10" ?sc]
    unfolding Let_def quality_zero_prediction
    by (cases "newStep ?sc (Fin 10) (Fin 4) (Fin 10)") (simp add: dless_def multiplier_zero_prediction)
  show ?thesis
    using a b by simp
qed

text \<open>
  On numbers, that is for finite energies with a non-zero predicted reduction and a
  controller whose lambda and failMultiplier are finite, the quotient and the new state are
  those of the arithmetic of the reals.
\<close>

lemma quality_finite:
  assumes "a \<noteq> c"
  shows "isFinite (quality (Fin a) (Fin b) (Fin c))
       \<and> valueOf (quality (Fin a) (Fin b) (Fin c)) = (a - b) / (a - c)"
proof -
  have p: "isFinite (D_pred (Fin a) (Fin c)) \<and> valueOf (D_pred (Fin a) (Fin c)) = (if a - c < 0 then - (a - c) else a - c)"
    by (simp add: D_pred_def dsub_Fin dless_Fin)
  have ob: "isFinite (D_obs (Fin a) (Fin b) (Fin c)) \<and> valueOf (D_obs (Fin a) (Fin b) (Fin c)) = (if a - c < 0 then - (a - b) else a - b)"
    by (simp add: D_obs_def dsub_Fin dless_Fin)
  have nz: "valueOf (D_pred (Fin a) (Fin c)) \<noteq> 0"
    using assms p by simp
  show ?thesis
    unfolding quality_def
    using fin_ddiv [of "D_obs (Fin a) (Fin b) (Fin c)" "D_pred (Fin a) (Fin c)"] p ob nz assms
          minus_divide_divide [of "a - b" "a - c"]
    by simp
qed

lemma multiplier_finite:
  assumes "isFinite q"
  shows "isFinite (dmax (Fin m) (dsub (Fin 1) (dcube (dsub (dmul (Fin 2) q) (Fin 1)))))
       \<and> valueOf (dmax (Fin m) (dsub (Fin 1) (dcube (dsub (dmul (Fin 2) q) (Fin 1)))))
           = max m (1 - (2 * valueOf q - 1) ^ 3)"
proof -
  define x where "x = dsub (dmul (Fin 2) q) (Fin 1)"
  have x: "isFinite x \<and> valueOf x = 2 * valueOf q - 1"
    unfolding x_def using fin_dmul [of "Fin 2" q] fin_dsub [of "dmul (Fin 2) q" "Fin 1"] assms by simp
  have c: "isFinite (dcube x) \<and> valueOf (dcube x) = (2 * valueOf q - 1) ^ 3"
    unfolding dcube_def using fin_dmul [of x x] fin_dmul [of "dmul x x" x] x
    by (simp add: power3_eq_cube)
  have d: "isFinite (dsub (Fin 1) (dcube x)) \<and> valueOf (dsub (Fin 1) (dcube x)) = 1 - (2 * valueOf q - 1) ^ 3"
    using fin_dsub [of "Fin 1" "dcube x"] c by simp
  show ?thesis
    unfolding x_def [symmetric]
    using fin_dmax [of "Fin m" "dsub (Fin 1) (dcube x)"] d by simp
qed

lemma newStep_numbers:
  assumes "oldEnergy \<noteq> predictedEnergy"
    and "isFinite (mLambda sc)" and "isFinite (failMultiplier sc)"
  shows "(let q = (oldEnergy - newEnergy) / (oldEnergy - predictedEnergy);
              r = newStep sc (Fin oldEnergy) (Fin newEnergy) (Fin predictedEnergy)
          in fst r = (q > sc_acceptedQuality (settings sc))
           \<and> isFinite (mLambda (snd r)) \<and> isFinite (failMultiplier (snd r))
           \<and> valueOf (mLambda (snd r)) =
               (if q > sc_acceptedQuality (settings sc)
                then valueOf (mLambda sc) * max (sc_minLambdaMultiplier (settings sc)) (1 - (2 * q - 1) ^ 3)
                else valueOf (mLambda sc) * valueOf (failMultiplier sc))
           \<and> valueOf (failMultiplier (snd r)) =
               (if q > sc_acceptedQuality (settings sc)
                then sc_initialFailMultiplier (settings sc)
                else valueOf (failMultiplier sc) * sc_failMultiplierMultiplier (settings sc)))"
proof -
  define q where "q = quality (Fin oldEnergy) (Fin newEnergy) (Fin predictedEnergy)"
  have q: "isFinite q" "valueOf q = (oldEnergy - newEnergy) / (oldEnergy - predictedEnergy)"
    unfolding q_def using quality_finite [OF assms(1)] by simp_all
  have acc: "dless (Fin (sc_acceptedQuality (settings sc))) q = (sc_acceptedQuality (settings sc) < valueOf q)"
    using fin_dless [of "Fin (sc_acceptedQuality (settings sc))" q] q(1) by simp
  note m = multiplier_finite [OF q(1), of "sc_minLambdaMultiplier (settings sc)"]
  note l1 = fin_dmul [OF assms(2), of "dmax (Fin (sc_minLambdaMultiplier (settings sc))) (dsub (Fin 1) (dcube (dsub (dmul (Fin 2) q) (Fin 1))))"]
  note l2 = fin_dmul [OF assms(2) assms(3)]
  note f2 = fin_dmul [OF assms(3), of "Fin (sc_failMultiplierMultiplier (settings sc))"]
  show ?thesis
    using m l1 l2 f2
    unfolding newStep_quality Let_def q_def [symmetric] acc q(2)
    by simp
qed

section \<open>Per-sample weights\<close>

lemma sampleWeight_eq:
  "sampleWeight res values i =
     (if check_fails res values i then Inl CheckFailed else Inr (weight_code res values i))"
  by (simp add: sampleWeight_def check_fails_def weight_code_def rawWeight_def rho1_at_def Let_def
      not_le)

lemma getWeights_loop_eq:
  "getWeights_loop res values js =
     (if list_ex (check_fails res values) js then Inl CheckFailed
      else Inr (map (weight_code res values) js))"
  by (induction js) (simp_all add: sampleWeight_eq)

lemma HuberLoss_1_4: "HuberLoss 1 4 = (3, 1/2, - 1/16)"
  by (simp add: HuberLoss_def Let_def numeric_limits_min_def)

text \<open>
  Claim C6 as stated fails: with the Huber loss of threshold 1 and the pattern value 2
  (\<open>rho = (3, 1/2, -1/16)\<close>) the curvature term is \<open>1/2 - 2 * 1/16 * 4 = 0\<close>, which is not
  negative, so \<open>getWeights\<close> returns the weight 0, while the larger of 0 and the floor
  \<open>eps * rho_1 = 1/200\<close> is 1/200.
\<close>

theorem getWeights_max_counterexample:
  "getWeights (oneTap (HuberLoss 1) 1 (1/100)) [2] = Inr [0]
   \<and> map (weight_spec (oneTap (HuberLoss 1) 1 (1/100)) [2]) [0..<1] = [1/200]"
  by (simp add: getWeights_def sampleWeight_def weight_spec_def rawWeight_def rho1_at_def
      oneTap_def HuberLoss_1_4 Let_def)

text \<open>
  Claim C6, amended. \<open>getWeights\<close> aborts when at some pattern index the curvature term
  and \<open>rho_1\<close> are both negative. Otherwise it returns, at every pattern index \<open>i\<close>,
  \<open>gradWeights[i] * w\<close> where \<open>w\<close> is the floor \<open>eps * rho_1\<close> when the curvature term
  \<open>rho_1 + 2 * rho_2 * v_i^2\<close> is negative, and the curvature term itself otherwise (also
  when it lies between 0 and the floor).
\<close>

theorem getWeights_amended:
  "getWeights res values =
     (if \<exists>i < length (pattern (rsettings res)). check_fails res values i then Inl CheckFailed
      else Inr (map (weight_code res values) [0..<length (pattern (rsettings res))]))"
  unfolding getWeights_def getWeights_loop_eq list_ex_iff
  by (simp add: Bex_def)

section \<open>Evaluation of the model\<close>

lemma get4_PrecomputedHostToTarget:
  assumes "hi < numKeyFrames ps" "hci < length bundle" "ti < numKeyFrames ps" "tci < length bundle"
  shows "get4 (PrecomputedHostToTarget bundle ps) hi hci ti tci = hostToTarget_entry bundle ps hi hci ti tci"
  using assms by (simp add: get4_def PrecomputedHostToTarget_def)

lemma SO3_act_qone: "SO3_act qone v = v"
  by (cases v) (simp add: SO3_act_def qone_def)

lemma SE3_identity_simps:
  "SE3_inverse SE3_identity = SE3_identity"
  "SE3_mul SE3_identity SE3_identity = SE3_identity"
  "SE3_act SE3_identity v = v"
  by (cases v; simp add: SE3_inverse_def SE3_mul_def SE3_act_def SE3_identity_def so3_def
      translation_def SO3_act_def qone_def Let_def)+

lemma length_getValues:
  "length (fst (getValues maxT res h l d)) = length (pattern (rsettings res))"
  by (simp add: getValues_def Let_def)

lemma totalEnergy_Nil: "totalEnergy lossFn [] = Inl CheckFailed"
  by (simp add: totalEnergy_def)

lemma createValues_Nil: "createValues maxT [] ps h l = []"
  by (simp add: createValues_def)

lemma twoFrames_h2t:
  "get4 (PrecomputedHostToTarget unitRig (twoFrames b)) 0 0 (Suc 0) 0 = SE3_identity"
  by (subst get4_PrecomputedHostToTarget)
     (simp_all add: numKeyFrames_def twoFrames_def unitRig_def hostToTarget_entry_def
       getBodyToWorld_def SE3_identity_simps Let_def)

lemma twoFrames_light:
  "lightHostToTarget_get (twoFrames b) 0 0 (Suc 0) 0 = (0, b)"
  by (simp add: lightHostToTarget_get_def getLightWorldToFrame_def twoFrames_def
      AffLight_mul_def AffLight_inverse_def)

lemma twoFrames_logDepth: "logDepth_at (twoFrames b) 0 = 0"
  by (simp add: logDepth_at_def twoFrames_def)

lemma one_le_DBL_MAX [simp]: "1 \<le> DBL_MAX"
  by (simp add: DBL_MAX_def)

lemma exp_1024_overflows: "DBL_MAX < exp 1024"
proof -
  have "(2::real) \<le> exp 1"
    using exp_ge_add_one_self [of "1::real"] by simp
  then have "(2::real) ^ 1024 \<le> exp 1 ^ 1024"
    by (intro power_mono) simp_all
  also have "exp (1::real) ^ 1024 = exp 1024"
    using exp_of_nat_mult [of 1024 "1::real"] by simp
  finally have "(2::real) ^ 1024 \<le> exp 1024" .
  moreover have "DBL_MAX < 2 ^ 1024"
    by (simp add: DBL_MAX_def)
  ultimately show ?thesis by linarith
qed

lemma expT_1024: "expT DBL_MAX 1024 = NonFinite"
  using exp_1024_overflows by (simp add: expT_def not_le)

lemma expT_0: "expT DBL_MAX 0 = Finite 1"
  using one_le_DBL_MAX by (simp add: expT_def)

lemma expT_ln_10: "expT DBL_MAX (ln 10) = Finite 10"
  by (simp add: expT_def DBL_MAX_def)

lemma oneTap_values:
  assumes "1 \<le> maxT"
  shows "createValues maxT [oneTap lossFn gw eps] (twoFrames b)
      (PrecomputedHostToTarget unitRig (twoFrames b)) (lightHostToTarget_get (twoFrames b))
    = [([2 - b], (0, 0))]"
  using assms
  by (simp add: createValues_def Let_def oneTap_def twoFrames_h2t twoFrames_light
      getValues_def expT_def twoFrames_logDepth SE3_identity_simps pinhole_def flatImage_def
      AffLight_apply_def vadd2_def)

lemma energy_one: "totalEnergy TrivialLoss [([v], r)] = Inr (v * v)"
  by (simp add: totalEnergy_def TrivialLoss_def)

lemma createValues_valuesOf:
  "map fst (createValues maxT rs ps h l) = map (valuesOf maxT ps h l) rs"
  by (simp add: createValues_def valuesOf_def Let_def)

lemma length_valuesOf: "length (valuesOf maxT ps h l res) = length (pattern (rsettings res))"
  by (simp add: valuesOf_def length_getValues)

lemma totalEnergy_map_fst:
  "totalEnergy lossFn vcs =
     (if vcs = [] then Inl CheckFailed
      else Inr (sum_list (map (\<lambda>vals. sum_list (map (\<lambda>i. fst (lossFn (vals ! i * vals ! i)))
                                                [0..<length (hd (map fst vcs))]))
                          (map fst vcs))))"
  by (cases vcs) (simp_all add: totalEnergy_def Let_def comp_def)

section \<open>The iteration of optimize\<close>

lemma refresh_simps [simp]:
  "ef (refresh maxT co st) = ef st"
  "lambda (refresh maxT co st) = lambda st"
  "curValues (refresh maxT co st) = curValues st"
  "hostToTarget (refresh maxT co st) = hostToTarget st"
  "lightHostToTarget (refresh maxT co st) = lightHostToTarget st"
  by (simp_all add: refresh_def Let_def)

lemma recoverState_update:
  "recoverState (saveState ps) (ps\<lparr>pstate := s\<rparr>) = ps"
  by (simp add: recoverState_def saveState_def)

lemma iteration_unfold:
  "iteration maxT co st =
     (case totalEnergy (ef_lossFunction (ef st)) (curValues st) of
        Inl e \<Rightarrow> Inl e
      | Inr curEnergy \<Rightarrow>
          let st1 = refresh maxT co st;
              savedState = saveState (parameters (ef st1));
              updated = trialParameters maxT co st;
              newHostToTarget = PrecomputedHostToTarget (ef_cam (ef st1)) updated;
              newLightHostToTarget = lightHostToTarget_get updated;
              newValues = trialValues maxT co st
          in (case totalEnergy (ef_lossFunction (ef st1)) newValues of
                Inl e \<Rightarrow> Inl e
              | Inr newEnergy \<Rightarrow>
                  if newEnergy \<ge> curEnergy
                  then Inr (st1\<lparr>ef := (ef st1)\<lparr>parameters := recoverState savedState updated\<rparr>,
                               lambda := lambda st1 * opt_failMultiplier (optimization (ef_settings (ef st1))),
                               parametersUpdated := False\<rparr>)
                  else Inr (st1\<lparr>ef := (ef st1)\<lparr>parameters := updated\<rparr>,
                               lambda := lambda st1 * opt_successMultiplier (optimization (ef_settings (ef st1))),
                               curValues := newValues,
                               hostToTarget := newHostToTarget,
                               lightHostToTarget := newLightHostToTarget,
                               parametersUpdated := True\<rparr>)))"
  by (simp add: iteration_def acceptOrReject_def dge_Fin Let_def split: sum.splits)

lemma iteration_rejected:
  assumes "totalEnergy (ef_lossFunction (ef st)) (curValues st) = Inr curEnergy"
    and "totalEnergy (ef_lossFunction (ef st)) (trialValues maxT co st) = Inr newEnergy"
    and "\<not> newEnergy < curEnergy"
  shows "iteration maxT co st =
     Inr ((refresh maxT co st)\<lparr>ef := ef st,
            lambda := lambda st * opt_failMultiplier (optimization (ef_settings (ef st))),
            parametersUpdated := False\<rparr>)"
proof -
  have "recoverState (saveState (parameters (ef st))) (trialParameters maxT co st) = parameters (ef st)"
    by (simp add: trialParameters_def Let_def recoverState_update)
  then show ?thesis
    using assms by (simp add: iteration_unfold Let_def not_less)
qed

lemma iteration_accepted:
  assumes "totalEnergy (ef_lossFunction (ef st)) (curValues st) = Inr curEnergy"
    and "totalEnergy (ef_lossFunction (ef st)) (trialValues maxT co st) = Inr newEnergy"
    and "newEnergy < curEnergy"
  shows "iteration maxT co st =
     Inr ((refresh maxT co st)\<lparr>ef := (ef st)\<lparr>parameters := trialParameters maxT co st\<rparr>,
            lambda := lambda st * opt_successMultiplier (optimization (ef_settings (ef st))),
            curValues := trialValues maxT co st,
            hostToTarget := PrecomputedHostToTarget (ef_cam (ef st)) (trialParameters maxT co st),
            lightHostToTarget := lightHostToTarget_get (trialParameters maxT co st),
            parametersUpdated := True\<rparr>)"
  using assms by (simp add: iteration_unfold Let_def not_le)

lemma iteration_aborts_cur:
  assumes "totalEnergy (ef_lossFunction (ef st)) (curValues st) = Inl e"
  shows "iteration maxT co st = Inl e"
  using assms by (simp add: iteration_unfold)

lemma iteration_aborts_new:
  assumes "totalEnergy (ef_lossFunction (ef st)) (curValues st) = Inr c"
      "totalEnergy (ef_lossFunction (ef st)) (trialValues maxT co st) = Inl e"
  shows "iteration maxT co st = Inl e"
  using assms by (simp add: iteration_unfold Let_def)

lemma iteration_cases:
  assumes "iteration maxT co st = Inr st'"
  obtains curEnergy newEnergy where
    "totalEnergy (ef_lossFunction (ef st)) (curValues st) = Inr curEnergy"
    "totalEnergy (ef_lossFunction (ef st)) (trialValues maxT co st) = Inr newEnergy"
proof (cases "totalEnergy (ef_lossFunction (ef st)) (curValues st)")
  case (Inl e)
  with assms show ?thesis by (simp add: iteration_unfold)
next
  case cur: (Inr curEnergy)
  show ?thesis
  proof (cases "totalEnergy (ef_lossFunction (ef st)) (trialValues maxT co st)")
    case (Inl e)
    with assms cur show ?thesis by (simp add: iteration_unfold Let_def)
  next
    case (Inr newEnergy)
    with cur that show ?thesis by blast
  qed
qed

lemma init_simps:
  "ef (optimize_init maxT co efn) = efn"
  "lambda (optimize_init maxT co efn) = opt_initialLambda (optimization (ef_settings efn))"
  "parametersUpdated (optimize_init maxT co efn) = False"
  by (simp_all add: optimize_init_def Let_def)

lemma init_curValues:
  "curValues (optimize_init maxT co efn) =
     createValues maxT (residuals efn) (parameters efn)
       (PrecomputedHostToTarget (ef_cam efn) (parameters efn)) (lightHostToTarget_get (parameters efn))"
  by (simp add: optimize_init_def Let_def)

lemma exampleEF_simps:
  "parameters (exampleEF rs) = twoFrames 0"
  "ef_lossFunction (exampleEF rs) = TrivialLoss"
  "ef_cam (exampleEF rs) = unitRig"
  "ef_settings (exampleEF rs) = exampleSettings"
  "residuals (exampleEF rs) = rs"
  by (simp_all add: exampleEF_def)

lemma twoFrames_update:
  "(twoFrames b)\<lparr>pstate := update (shiftB k) (solve (shiftB k) h g) (pstate (twoFrames b))\<rparr> = twoFrames (b + k)"
  by (simp add: twoFrames_def shiftB_def)

lemma trial_example:
  assumes "ef st = exampleEF rs" 
  shows "trialParameters maxT (shiftB k) st = twoFrames k"
  using assms
  by (simp add: trialParameters_def Let_def stepDelta_def exampleEF_simps twoFrames_update)

lemma trialValues_example:
  assumes "ef st = exampleEF [oneTap lossFn gw eps]" "1 \<le> maxT"
  shows "trialValues maxT (shiftB k) st = [([2 - k], (0, 0))]"
  using assms
  by (simp add: trialValues_def Let_def trial_example [OF assms(1)] exampleEF_simps oneTap_values)

lemma example_rejected:
  assumes "ef st = exampleEF [oneTap TrivialLoss 1 (1/100)]"
    and "curValues st = [([2], (0, 0))]"
  shows "iteration DBL_MAX (shiftB (- 1)) st =
     Inr ((refresh DBL_MAX (shiftB (- 1)) st)\<lparr>ef := ef st, lambda := lambda st * 2, parametersUpdated := False\<rparr>)"
proof -
  have cur: "totalEnergy (ef_lossFunction (ef st)) (curValues st) = Inr 4"
    by (simp add: assms exampleEF_simps energy_one)
  have new: "totalEnergy (ef_lossFunction (ef st)) (trialValues DBL_MAX (shiftB (- 1)) st) = Inr 9"
    by (simp add: assms(1) exampleEF_simps trialValues_example energy_one)
  show ?thesis
    using iteration_rejected [OF cur new] by (simp add: assms(1) exampleEF_simps exampleSettings_def)
qed

lemma example_init_curValues:
  "curValues (optimize_init DBL_MAX co (exampleEF [oneTap TrivialLoss 1 (1/100)])) = [([2], (0, 0))]"
  by (simp add: init_curValues exampleEF_simps oneTap_values)

lemma optimize_loop_aborts:
  assumes "totalEnergy (ef_lossFunction (ef st)) (curValues st) = Inl e"
  shows "optimize_loop maxT co (Suc n) st = Inl e"
  using assms by (simp add: iteration_aborts_cur)

text \<open>
  When both energies are numbers, the iteration does what the specification says: in every
  iteration of \<open>optimize\<close> in which both energies are computed, the iteration returns,
  and the trial step is accepted (the updated parameters and their values are kept,
  \<open>parametersUpdated\<close> is set) if and only if the new total energy is strictly lower than
  the current one; on a rejected iteration the parameter block is again what it was before
  the update, equal to the snapshot that \<open>saveState\<close> took.
\<close>

lemma iteration_of_numbers:
  assumes "totalEnergy (ef_lossFunction (ef st)) (curValues st) = Inr curEnergy"
    and "totalEnergy (ef_lossFunction (ef st)) (trialValues maxT co st) = Inr newEnergy"
  shows "\<exists>st'. iteration maxT co st = Inr st'
     \<and> parametersUpdated st' = (newEnergy < curEnergy)
     \<and> (if newEnergy < curEnergy
        then parameters (ef st') = trialParameters maxT co st
           \<and> curValues st' = trialValues maxT co st
        else parameters (ef st') = parameters (ef st)
           \<and> pstate (parameters (ef st')) = saveState (parameters (ef st))
           \<and> curValues st' = curValues st)"
proof (cases "newEnergy < curEnergy")
  case True
  show ?thesis
    unfolding iteration_accepted [OF assms True] using True by simp
next
  case False
  show ?thesis
    unfolding iteration_rejected [OF assms False] using False by (simp add: saveState_def)
qed

text \<open>
  A rejected iteration: the proposed step lowers the brightness offset of key frame 1 by
  one, the energy would rise from 4 to 9, and the parameter block stays as it was.
\<close>

lemma iteration_of_numbers_example:
  "totalEnergy (ef_lossFunction (ef (optimize_init DBL_MAX (shiftB (- 1)) (exampleEF [oneTap TrivialLoss 1 (1/100)]))))
      (curValues (optimize_init DBL_MAX (shiftB (- 1)) (exampleEF [oneTap TrivialLoss 1 (1/100)]))) = Inr 4
   \<and> totalEnergy (ef_lossFunction (ef (optimize_init DBL_MAX (shiftB (- 1)) (exampleEF [oneTap TrivialLoss 1 (1/100)]))))
      (trialValues DBL_MAX (shiftB (- 1)) (optimize_init DBL_MAX (shiftB (- 1)) (exampleEF [oneTap TrivialLoss 1 (1/100)]))) = Inr 9
   \<and> (\<exists>st'. iteration DBL_MAX (shiftB (- 1)) (optimize_init DBL_MAX (shiftB (- 1)) (exampleEF [oneTap TrivialLoss 1 (1/100)])) = Inr st'
        \<and> \<not> parametersUpdated st' \<and> parameters (ef st') = twoFrames 0)"
proof -
  let ?st = "optimize_init DBL_MAX (shiftB (- 1)) (exampleEF [oneTap TrivialLoss 1 (1/100)])"
  have cur: "totalEnergy (ef_lossFunction (ef ?st)) (curValues ?st) = Inr 4"
    by (simp add: init_simps init_curValues exampleEF_simps oneTap_values energy_one)
  have new: "totalEnergy (ef_lossFunction (ef ?st)) (trialValues DBL_MAX (shiftB (- 1)) ?st) = Inr 9"
    by (simp add: init_simps exampleEF_simps trialValues_example energy_one)
  show ?thesis
    using iteration_of_numbers [OF cur new] cur new
    by (auto simp: init_simps exampleEF_simps)
qed

text \<open>
  The test and the branches of lines 203-213 for any two doubles: the step is rejected
  exactly when \<open>newEnergy >= curEnergy\<close> holds, and that comparison is false as soon as
  one of the energies is NaN.
\<close>

lemma acceptOrReject_accepts_iff:
  "parametersUpdated (acceptOrReject st1 savedState updated newHostToTarget newLightHostToTarget
      newValues curEnergy newEnergy)
   = (dless newEnergy curEnergy \<or> newEnergy = NaN \<or> curEnergy = NaN)"
  by (auto simp add: acceptOrReject_def dge_def)

text \<open>
  Claim C1 fails on the code when the new energy is NaN. The claim has a step accepted only
  if the new energy is strictly lower than the current one, and rolled back otherwise.
  \<open>NaN < curEnergy\<close> is false, but so is the test \<open>NaN >= curEnergy\<close> of line 203, and
  the else-branch runs: whatever the current energy and the state of the loop, the updated
  parameters and the new values are kept, \<open>parametersUpdated\<close> is set, lambda is
  multiplied by \<open>successMultiplier\<close>, and \<open>recoverState\<close> is not called.
\<close>

theorem nan_energy_accepted:
  "(let st' = acceptOrReject st1 savedState updated newHostToTarget newLightHostToTarget
                newValues curEnergy NaN
    in \<not> dless NaN curEnergy
     \<and> parametersUpdated st'
     \<and> parameters (ef st') = updated
     \<and> curValues st' = newValues
     \<and> lambda st' = lambda st1 * opt_successMultiplier (optimization (ef_settings (ef st1))))"
  by (simp add: acceptOrReject_def dge_def dless_def Let_def)

section \<open>The damping in optimize\<close>

text \<open>
  Claim C5 as stated fails: two consecutive rejected iterations, with \<open>initialLambda = 1\<close>,
  \<open>failMultiplier = 2\<close> and \<open>failMultiplierMultiplier = 3\<close>, leave \<open>lambda = 1 * 2 * 2\<close>;
  with a fail multiplier that grows by \<open>failMultiplierMultiplier\<close> after the first
  rejection it would be \<open>1 * 2 * (2 * 3)\<close>.
\<close>

theorem optimize_backoff_counterexample:
  "(case optimize_loop DBL_MAX (shiftB (- 1)) 2 (optimize_init DBL_MAX (shiftB (- 1)) (exampleEF [oneTap TrivialLoss 1 (1/100)])) of
      Inl e \<Rightarrow> False
    | Inr st \<Rightarrow> \<not> parametersUpdated st \<and> lambda st = 1 * 2 * 2
        \<and> lambda st \<noteq> 1 * 2 * (2 * sc_failMultiplierMultiplier (opt_stepControl (optimization (ef_settings (ef st))))))"
proof -
  let ?co = "shiftB (- 1)"
  let ?st0 = "optimize_init DBL_MAX ?co (exampleEF [oneTap TrivialLoss 1 (1/100)])"
  let ?st1 = "(refresh DBL_MAX ?co ?st0)\<lparr>ef := ef ?st0, lambda := lambda ?st0 * 2, parametersUpdated := False\<rparr>"
  let ?st2 = "(refresh DBL_MAX ?co ?st1)\<lparr>ef := ef ?st1, lambda := lambda ?st1 * 2, parametersUpdated := False\<rparr>"
  have 1: "iteration DBL_MAX ?co ?st0 = Inr ?st1"
    by (rule example_rejected) (simp_all add: init_simps example_init_curValues)
  have 2: "iteration DBL_MAX ?co ?st1 = Inr ?st2"
    by (rule example_rejected) (simp_all add: init_simps example_init_curValues)
  have "optimize_loop DBL_MAX ?co 2 ?st0 = Inr ?st2"
    using 1 2 by (simp add: numeral_2_eq_2)
  then show ?thesis
    by (simp add: init_simps exampleEF_simps exampleSettings_def)
qed

text \<open>
  Claim C5, amended. In \<open>optimize\<close>, every iteration that returns leaves the settings as
  they are and multiplies lambda by a constant of \<open>settings.optimization\<close>: by
  \<open>failMultiplier\<close> on a rejected iteration, by \<open>successMultiplier\<close> on an accepted one.
  The fail multiplier is the same in consecutive rejected iterations; \<open>optimize\<close> neither
  multiplies it by \<open>failMultiplierMultiplier\<close> nor resets it (that is what
  \<open>StepController::newStep\<close> does, which \<open>optimize\<close> does not call).
\<close>

theorem iteration_lambda:
  assumes "iteration maxT co st = Inr st'"
  shows "ef_settings (ef st') = ef_settings (ef st)
     \<and> lambda st' = lambda st *
         (if parametersUpdated st' then opt_successMultiplier (optimization (ef_settings (ef st)))
          else opt_failMultiplier (optimization (ef_settings (ef st))))"
proof -
  obtain curEnergy newEnergy where
    cur: "totalEnergy (ef_lossFunction (ef st)) (curValues st) = Inr curEnergy" and
    new: "totalEnergy (ef_lossFunction (ef st)) (trialValues maxT co st) = Inr newEnergy"
    using assms by (rule iteration_cases)
  show ?thesis
  proof (cases "newEnergy < curEnergy")
    case True
    from assms show ?thesis
      unfolding iteration_accepted [OF cur new True] by auto
  next
    case False
    from assms show ?thesis
      unfolding iteration_rejected [OF cur new False] by auto
  qed
qed

text \<open>
  An accepted iteration: the step raises the brightness offset by one, the energy falls
  from 4 to 1, and lambda becomes \<open>1 * 1/2\<close>.
\<close>

theorem iteration_lambda_witness:
  "iteration DBL_MAX (shiftB 1) (optimize_init DBL_MAX (shiftB 1) (exampleEF [oneTap TrivialLoss 1 (1/100)]))
     = Inr ((refresh DBL_MAX (shiftB 1) (optimize_init DBL_MAX (shiftB 1) (exampleEF [oneTap TrivialLoss 1 (1/100)])))
              \<lparr>ef := (exampleEF [oneTap TrivialLoss 1 (1/100)])\<lparr>parameters := twoFrames 1\<rparr>,
               lambda := 1/2, curValues := [([1], (0, 0))],
               hostToTarget := PrecomputedHostToTarget unitRig (twoFrames 1),
               lightHostToTarget := lightHostToTarget_get (twoFrames 1),
               parametersUpdated := True\<rparr>)
   \<and> lambda ((refresh DBL_MAX (shiftB 1) (optimize_init DBL_MAX (shiftB 1) (exampleEF [oneTap TrivialLoss 1 (1/100)])))
              \<lparr>ef := (exampleEF [oneTap TrivialLoss 1 (1/100)])\<lparr>parameters := twoFrames 1\<rparr>,
               lambda := 1/2, curValues := [([1], (0, 0))],
               hostToTarget := PrecomputedHostToTarget unitRig (twoFrames 1),
               lightHostToTarget := lightHostToTarget_get (twoFrames 1),
               parametersUpdated := True\<rparr>) = 1 * (1/2)"
proof -
  let ?st = "optimize_init DBL_MAX (shiftB 1) (exampleEF [oneTap TrivialLoss 1 (1/100)])"
  have cur: "totalEnergy (ef_lossFunction (ef ?st)) (curValues ?st) = Inr 4"
    by (simp add: init_simps init_curValues exampleEF_simps oneTap_values energy_one)
  have new: "totalEnergy (ef_lossFunction (ef ?st)) (trialValues DBL_MAX (shiftB 1) ?st) = Inr 1"
    by (simp add: init_simps exampleEF_simps trialValues_example energy_one)
  have it: "iteration DBL_MAX (shiftB 1) ?st =
      Inr ((refresh DBL_MAX (shiftB 1) ?st)
              \<lparr>ef := (exampleEF [oneTap TrivialLoss 1 (1/100)])\<lparr>parameters := twoFrames 1\<rparr>,
               lambda := 1/2, curValues := [([1], (0, 0))],
               hostToTarget := PrecomputedHostToTarget unitRig (twoFrames 1),
               lightHostToTarget := lightHostToTarget_get (twoFrames 1),
               parametersUpdated := True\<rparr>)"
    using iteration_accepted [OF cur new]
    by (simp add: init_simps exampleEF_simps exampleSettings_def trial_example trialValues_example)
  show ?thesis
    using iteration_lambda [OF it] it by simp
qed

section \<open>The total energy\<close>

text \<open>
  Claim C2 as stated fails: for one residual with the pattern value 2, the trivial loss
  and the gradient weight 1/2, \<open>totalEnergy\<close> returns \<open>rho(2^2) = 4\<close>, while the weighted
  sum \<open>w * rho(2^2)\<close> with the weight \<open>w = 1/2\<close> of \<open>getWeights\<close> is 2.
\<close>

theorem totalEnergy_weighted_counterexample:
  "totalEnergy TrivialLoss (createValues DBL_MAX [oneTap TrivialLoss (1/2) (1/100)] (twoFrames 0)
        (PrecomputedHostToTarget unitRig (twoFrames 0)) (lightHostToTarget_get (twoFrames 0))) = Inr 4
   \<and> weightedEnergy_spec TrivialLoss [oneTap TrivialLoss (1/2) (1/100)]
       (createValues DBL_MAX [oneTap TrivialLoss (1/2) (1/100)] (twoFrames 0)
        (PrecomputedHostToTarget unitRig (twoFrames 0)) (lightHostToTarget_get (twoFrames 0))) = 2"
proof -
  have w: "getWeights (oneTap TrivialLoss (1/2) (1/100)) [2] = Inr [1/2]"
    by (simp add: getWeights_def sampleWeight_def oneTap_def TrivialLoss_def Let_def)
  have n: "length (pattern (rsettings (oneTap TrivialLoss (1/2) (1/100)))) = 1"
    by (simp add: oneTap_def)
  show ?thesis
    by (simp add: oneTap_values energy_one weightedEnergy_spec_def w n TrivialLoss_def)
qed

text \<open>
  Claim C2, amended. When there is at least one residual and all residuals have the same
  pattern size, the value returned by \<open>totalEnergy\<close> for the values of the residuals is
  the sum over all residuals and all pattern indices \<open>i\<close> of \<open>rho(r_i^2)\<close>, where \<open>r_i\<close>
  is the residual's \<open>i\<close>-th current pattern value and \<open>rho\<close> is the robust loss: the
  terms carry no weight.
\<close>

theorem totalEnergy_unweighted:
  assumes "rs \<noteq> []" and "\<forall>res \<in> set rs. length (pattern (rsettings res)) = n"
  shows "totalEnergy lossFn (createValues maxT rs ps h l) =
     Inr (sum_list (map (\<lambda>res. sum_list (map (\<lambda>i. fst (lossFn (valuesOf maxT ps h l res ! i *
                                                          valuesOf maxT ps h l res ! i)))
                                         [0..<n]))
                     rs))"
proof -
  have ne: "createValues maxT rs ps h l \<noteq> []"
    using assms(1) by (simp add: createValues_def)
  have "hd rs \<in> set rs" using assms(1) by simp
  then have n: "length (hd (map (valuesOf maxT ps h l) rs)) = n"
    using assms by (simp add: hd_map length_valuesOf)
  show ?thesis
    unfolding totalEnergy_map_fst createValues_valuesOf n
    using ne by (simp add: comp_def)
qed

text \<open>The energy of the one-point residual with pattern value 2.\<close>

theorem totalEnergy_unweighted_witness:
  "[oneTap TrivialLoss (1/2) (1/100)] \<noteq> []
   \<and> list_all (\<lambda>res. length (pattern (rsettings res)) = 1) [oneTap TrivialLoss (1/2) (1/100)]
   \<and> totalEnergy TrivialLoss (createValues DBL_MAX [oneTap TrivialLoss (1/2) (1/100)] (twoFrames 0)
        (PrecomputedHostToTarget unitRig (twoFrames 0)) (lightHostToTarget_get (twoFrames 0))) = Inr 4"
proof -
  have ne: "[oneTap TrivialLoss (1/2) (1/100)] \<noteq> []" by simp
  have len: "\<forall>res \<in> set [oneTap TrivialLoss (1/2) (1/100)]. length (pattern (rsettings res)) = 1"
    by (simp add: oneTap_def)
  have v: "valuesOf DBL_MAX (twoFrames 0) (PrecomputedHostToTarget unitRig (twoFrames 0))
             (lightHostToTarget_get (twoFrames 0)) (oneTap TrivialLoss (1/2) (1/100)) = [2]"
    using createValues_valuesOf [of DBL_MAX "[oneTap TrivialLoss (1/2) (1/100)]" "twoFrames 0"
        "PrecomputedHostToTarget unitRig (twoFrames 0)" "lightHostToTarget_get (twoFrames 0)"]
    by (simp add: oneTap_values)
  show ?thesis
    using totalEnergy_unweighted [OF ne len, of TrivialLoss DBL_MAX "twoFrames 0"
        "PrecomputedHostToTarget unitRig (twoFrames 0)" "lightHostToTarget_get (twoFrames 0)"] len
    by (simp add: v TrivialLoss_def)
qed

text \<open>
  Claim C10. \<open>totalEnergy\<close> needs at least one residual: for an energy function with an
  empty residual set the values are empty and \<open>totalEnergy\<close> fails its \<open>CHECK\<close> instead
  of returning zero, and so does \<open>optimize\<close>, which evaluates it at the start of every
  iteration, whenever it runs at least one iteration.
\<close>

theorem totalEnergy_needs_residual:
  assumes "residuals efn = []" and "0 < maxIterations"
  shows "totalEnergy (ef_lossFunction efn)
           (createValues maxT (residuals efn) (parameters efn)
              (PrecomputedHostToTarget (ef_cam efn) (parameters efn))
              (lightHostToTarget_get (parameters efn))) = Inl CheckFailed
       \<and> optimize maxT co efn keyFrames maxIterations = Inl CheckFailed"
proof -
  have e: "totalEnergy (ef_lossFunction (ef (optimize_init maxT co efn)))
             (curValues (optimize_init maxT co efn)) = Inl CheckFailed"
    by (simp add: init_simps init_curValues assms(1) createValues_Nil totalEnergy_Nil)
  obtain n where n: "nat maxIterations = Suc n"
    using assms(2) by (cases "nat maxIterations") auto
  show ?thesis
    using optimize_loop_aborts [OF e, of maxT co n]
    by (simp add: optimize_def n assms(1) createValues_Nil totalEnergy_Nil)
qed

text \<open>
  For two key frames without optimized points the constructor makes no residual. Then
  \<open>optimize(1)\<close> aborts; \<open>optimize(0)\<close> runs no iteration and returns.
\<close>

lemma emptyKeyFrames_ctor:
  "EnergyFunction_ctor unitRig emptyKeyFrames exampleSettings = Inr emptyEF"
proof -
  have a: "allPoints unitRig emptyKeyFrames = []"
    by (simp add: allPoints_def emptyKeyFrames_def unitRig_def numeral_2_eq_2)
  have l: "length emptyKeyFrames = 2" by (simp add: emptyKeyFrames_def)
  have g: "getLoss (opt_lossType (optimization exampleSettings)) (outlierDiff (residual exampleSettings)) = TrivialLoss"
    by (simp add: exampleSettings_def)
  have p: "setPoints emptyKeyFrames [] (Parameters_ctor unitRig emptyKeyFrames) = parameters emptyEF"
    by (simp add: setPoints_def Parameters_ctor_def emptyKeyFrames_def emptyEF_def)
  show ?thesis
    by (simp add: EnergyFunction_ctor_def Let_def a l g p) (simp add: emptyEF_def)
qed

theorem totalEnergy_needs_residual_witness:
  "EnergyFunction_ctor unitRig emptyKeyFrames exampleSettings = Inr emptyEF
   \<and> residuals emptyEF = [] \<and> (0::int) < 1
   \<and> optimize DBL_MAX (shiftB 1) emptyEF emptyKeyFrames 1 = Inl CheckFailed
   \<and> optimize DBL_MAX (shiftB 1) emptyEF emptyKeyFrames 0 = Inr (emptyEF, emptyKeyFrames)"
proof -
  have r: "residuals emptyEF = []" by (simp add: emptyEF_def)
  have z: "optimize DBL_MAX (shiftB 1) emptyEF emptyKeyFrames 0 = Inr (emptyEF, emptyKeyFrames)"
    by (simp add: optimize_def init_simps shiftB_def)
  show ?thesis
    using totalEnergy_needs_residual [OF r, of 1 DBL_MAX "shiftB 1" emptyKeyFrames] r z emptyKeyFrames_ctor
    by simp
qed

section \<open>Quaternions and rigid motions\<close>

lemma qmul_assoc: "qmul (qmul a b) c = qmul a (qmul b c)"
  by (cases a; cases b; cases c) (simp add: algebra_simps)

lemma qconj_qmul: "qconj (qmul a b) = qmul (qconj b) (qconj a)"
  by (cases a; cases b) simp

lemma qmul_qone [simp]: "qmul qone a = a" "qmul a qone = a"
  by (cases a; simp add: qone_def)+

lemma qconj_qmul_self:
  assumes "squaredNorm q = 1"
  shows "qmul (qconj q) q = qone"
  using assms by (cases q) (simp add: qone_def)

lemma pureq_vec_conjugation:
  "qmul (qmul q (pureq p)) (qconj q) = pureq (SO3_act q p)"
  by (cases q; cases p) (simp add: SO3_act_def algebra_simps)

lemma SO3_act_qmul: "SO3_act (qmul a b) p = SO3_act a (SO3_act b p)"
proof -
  have "pureq (SO3_act (qmul a b) p) = qmul (qmul (qmul a b) (pureq p)) (qconj (qmul a b))"
    by (simp add: pureq_vec_conjugation)
  also have "\<dots> = qmul (qmul a (qmul (qmul b (pureq p)) (qconj b))) (qconj a)"
    by (simp add: qconj_qmul qmul_assoc)
  also have "\<dots> = pureq (SO3_act a (SO3_act b p))"
    by (simp add: pureq_vec_conjugation)
  finally show ?thesis
    by (cases "SO3_act (qmul a b) p"; cases "SO3_act a (SO3_act b p)") simp
qed

lemma SO3_act_vadd: "SO3_act q (vadd u v) = vadd (SO3_act q u) (SO3_act q v)"
  by (cases q; cases u; cases v) (simp add: SO3_act_def algebra_simps)

lemma SO3_act_smul: "SO3_act q (smul k v) = smul k (SO3_act q v)"
  by (cases q; cases v) (simp add: SO3_act_def algebra_simps)

lemma vadd_assoc: "vadd (vadd a b) c = vadd a (vadd b c)"
  by (cases a; cases b; cases c) simp

lemma vadd_neg: "vadd (smul (- 1) v) v = (0, 0, 0)" "vadd v (smul (- 1) v) = (0, 0, 0)"
  by (cases v; simp)+

lemma vadd_zero [simp]: "vadd (0, 0, 0) v = v" "vadd v (0, 0, 0) = v"
  by (cases v; simp)+

lemma SO3_act_zero [simp]: "SO3_act q (0, 0, 0) = (0, 0, 0)"
  by (cases q) (simp add: SO3_act_def)

lemma SE3_mul_assoc: "SE3_mul (SE3_mul a b) c = SE3_mul a (SE3_mul b c)"
  by (simp add: SE3_mul_def so3_def translation_def qmul_assoc SO3_act_qmul SO3_act_vadd vadd_assoc)

lemma SE3_mul_identity [simp]: "SE3_mul SE3_identity a = a"
  by (simp add: SE3_mul_def SE3_identity_def so3_def translation_def SO3_act_qone)

lemma smul_vadd: "smul k (vadd u v) = vadd (smul k u) (smul k v)"
  by (cases u; cases v) (simp add: algebra_simps)

lemma vadd_commute: "vadd u v = vadd v u"
  by (cases u; cases v) simp

lemma SE3_inverse_left:
  assumes "squaredNorm (so3 a) = 1"
  shows "SE3_mul (SE3_inverse a) a = SE3_identity"
proof -
  have "vadd (SO3_act (qconj (so3 a)) (smul (- 1) (translation a))) (SO3_act (qconj (so3 a)) (translation a))
      = (0, 0, 0)"
    by (simp add: SO3_act_vadd [symmetric] vadd_neg)
  then show ?thesis
    using assms
    by (simp add: SE3_mul_def SE3_inverse_def Let_def so3_def translation_def qconj_qmul_self
        SE3_identity_def)
qed

lemma SO3_act_conj_cancel:
  assumes "squaredNorm q = 1"
  shows "SO3_act (qconj q) (SO3_act q v) = v"
  using assms by (simp add: SO3_act_qmul [symmetric] qconj_qmul_self SO3_act_qone)

lemma SE3_inverse_mul:
  assumes "squaredNorm (so3 a) = 1"
  shows "SE3_inverse (SE3_mul a b) = SE3_mul (SE3_inverse b) (SE3_inverse a)"
  using assms
  by (simp add: SE3_mul_def SE3_inverse_def Let_def so3_def translation_def qconj_qmul
      SO3_act_qmul SO3_act_vadd SO3_act_smul SO3_act_conj_cancel smul_vadd)
     (rule vadd_commute)

lemma gauge_pair:
  assumes "squaredNorm (so3 g) = 1"
  shows "SE3_mul (SE3_inverse (SE3_mul g t)) (SE3_mul g h) = SE3_mul (SE3_inverse t) h"
proof -
  have "SE3_mul (SE3_inverse (SE3_mul g t)) (SE3_mul g h)
      = SE3_mul (SE3_inverse t) (SE3_mul (SE3_mul (SE3_inverse g) g) h)"
    by (simp add: SE3_inverse_mul [OF assms] SE3_mul_assoc)
  then show ?thesis
    by (simp add: SE3_inverse_left [OF assms])
qed

section \<open>Gauge invariance\<close>

lemma leftMultiply_simps:
  "numKeyFrames (leftMultiply g ps) = numKeyFrames ps"
  "getLightWorldToFrame (leftMultiply g ps) = getLightWorldToFrame ps"
  "logDepth_at (leftMultiply g ps) = logDepth_at ps"
  "lightHostToTarget_get (leftMultiply g ps) = lightHostToTarget_get ps"
  by (simp_all add: leftMultiply_def numKeyFrames_def getLightWorldToFrame_def logDepth_at_def
      lightHostToTarget_get_def fun_eq_iff)

lemma getBodyToWorld_leftMultiply:
  assumes "i < numKeyFrames ps"
  shows "getBodyToWorld (leftMultiply g ps) i = SE3_mul g (getBodyToWorld ps i)"
  using assms by (simp add: leftMultiply_def getBodyToWorld_def numKeyFrames_def)

lemma hostToTarget_entry_leftMultiply:
  assumes "squaredNorm (so3 g) = 1" "hi < numKeyFrames ps" "ti < numKeyFrames ps"
  shows "hostToTarget_entry bundle (leftMultiply g ps) hi hci ti tci
       = hostToTarget_entry bundle ps hi hci ti tci"
  using assms
  by (simp add: hostToTarget_entry_def getBodyToWorld_leftMultiply gauge_pair Let_def)

lemma PrecomputedHostToTarget_leftMultiply:
  assumes "squaredNorm (so3 g) = 1"
  shows "PrecomputedHostToTarget bundle (leftMultiply g ps) = PrecomputedHostToTarget bundle ps"
  unfolding PrecomputedHostToTarget_def leftMultiply_simps
  by (intro map_cong refl) (simp add: hostToTarget_entry_leftMultiply [OF assms])

section \<open>Non-finite depth\<close>

lemma oneTap_jacobian_dp_dlogd:
  "dp_dlogd (getJacobian DBL_MAX (oneTap lossFn gw eps) (qone, (t, 0, 0)) unitMotion (0, 0) (0, 0) 1024)
     = [- t / 10, 0]"
  by (simp add: getJacobian_def Let_def expT_1024 oneTap_def pinhole_def SE3_act_def so3_def
      translation_def SO3_act_qone mat_vec_def dot_def)

lemma oneTap_jacobian_dp_dt:
  "dp_dt (dhost (getJacobian DBL_MAX (oneTap lossFn gw eps) (qone, (t, 0, 0)) unitMotion (0, 0) (0, 0) 1024))
     = [[- 1 / 10, 0, t / 100], [0, - 1 / 10, 0]]"
  by (simp add: getJacobian_def Let_def expT_1024 oneTap_def pinhole_def SE3_act_def so3_def
      translation_def SO3_act_qone mat_mul_def dot_def unitMotion_def)

text \<open>
  Claim C8 as stated fails in its part on \<open>getJacobian\<close>: at a non-finite depth the
  Jacobian is not that of a pure rotation. For two host-to-target transforms with the same
  rotation and the translations \<open>(0, 0, 0)\<close> and \<open>(1, 0, 0)\<close> the derivative of the
  projection with respect to the log-depth differs (and is not zero for the second), and
  the block with respect to the host translation is not zero.
\<close>

theorem nonfinite_jacobian_counterexample:
  "expT DBL_MAX 1024 = NonFinite
   \<and> so3 (qone, (0, 0, 0)) = so3 (qone, (1, 0, 0))
   \<and> dp_dlogd (getJacobian DBL_MAX (oneTap TrivialLoss 1 (1/100)) (qone, (0, 0, 0)) unitMotion (0, 0) (0, 0) 1024)
       = [0, 0]
   \<and> dp_dlogd (getJacobian DBL_MAX (oneTap TrivialLoss 1 (1/100)) (qone, (1, 0, 0)) unitMotion (0, 0) (0, 0) 1024)
       = [- 1 / 10, 0]
   \<and> dp_dt (dhost (getJacobian DBL_MAX (oneTap TrivialLoss 1 (1/100)) (qone, (1, 0, 0)) unitMotion (0, 0) (0, 0) 1024))
       = [[- 1 / 10, 0, 1 / 100], [0, - 1 / 10, 0]]"
  using oneTap_jacobian_dp_dlogd [of TrivialLoss 1 "1/100" 0]
  by (simp add: expT_1024 so3_def oneTap_jacobian_dp_dlogd oneTap_jacobian_dp_dt)

text \<open>
  Claim C8, amended. Whenever \<open>depth = exp(logDepth)\<close> is non-finite,
  \<open>Residual::getValues\<close> reprojects the host direction with the rotation part of the
  host-to-target transform only, and \<open>Residual::getJacobian\<close> marks the Jacobian record
  (\<open>isInfDepth\<close>) and puts \<open>settings.depth.max\<close> in the place of the depth: it returns,
  but for the mark, the Jacobian of the finite depth \<open>depth.max\<close>, taken at the point
  \<open>hostToTarget * (depth.max * hostDir)\<close> with the translation applied, and with
  the translation blocks of the motion derivatives.
\<close>

theorem nonfinite_depth:
  assumes "expT maxT logDepthV = NonFinite"
  shows "snd (getValues maxT res hostToTargetImage l logDepthV)
           = map_cam (camTarget res) (SO3_act (so3 hostToTargetImage) (hostDir res))
     \<and> fst (getValues maxT res hostToTargetImage l logDepthV)
           = map (\<lambda>i. fst (target res
                        (snd (vadd2 (map_cam (camTarget res) (SO3_act (so3 hostToTargetImage) (hostDir res)))
                                (reprojPattern res ! i)))
                        (fst (vadd2 (map_cam (camTarget res) (SO3_act (so3 hostToTargetImage) (hostDir res)))
                                (reprojPattern res ! i))))
                      - AffLight_apply l (hostIntensities res ! i))
               [0..<length (pattern (rsettings res))]
     \<and> isInfDepth (getJacobian maxT res hostToTargetImage dH lw l logDepthV)
     \<and> dp_dlogd (getJacobian maxT res hostToTargetImage dH lw l logDepthV)
           = mat_vec (snd (diffMap (camTarget res)
                        (SE3_act hostToTargetImage (smul (depth_max (rsettings res)) (hostDir res)))))
               (toList (SO3_act (so3 hostToTargetImage) (smul (depth_max (rsettings res)) (hostDir res))))
     \<and> dp_dt (dhost (getJacobian maxT res hostToTargetImage dH lw l logDepthV))
           = mat_mul (snd (diffMap (camTarget res)
                        (SE3_act hostToTargetImage (smul (depth_max (rsettings res)) (hostDir res)))))
               (daction_dt_host dH)
     \<and> (\<forall>x. expT maxT x = Finite (depth_max (rsettings res)) \<longrightarrow>
           getJacobian maxT res hostToTargetImage dH lw l logDepthV
             = (getJacobian maxT res hostToTargetImage dH lw l x)\<lparr>isInfDepth := True\<rparr>)"
  using assms by (simp add: getValues_def getJacobian_def Let_def)

text \<open>
  At the log-depth 1024 a double overflows. With the translation \<open>(1, 0, 0)\<close> the value
  is taken at the pixel \<open>(0, 0)\<close> of the pure rotation, and the Jacobian is the one at
  depth 10, the \<open>depth.max\<close> of the example.
\<close>

theorem nonfinite_depth_witness:
  "expT DBL_MAX 1024 = NonFinite
   \<and> expT DBL_MAX (ln 10) = Finite (depth_max (rsettings (oneTap TrivialLoss 1 (1/100))))
   \<and> getValues DBL_MAX (oneTap TrivialLoss 1 (1/100)) (qone, (1, 0, 0)) (0, 0) 1024 = ([2], (0, 0))
   \<and> getJacobian DBL_MAX (oneTap TrivialLoss 1 (1/100)) (qone, (1, 0, 0)) unitMotion (0, 0) (0, 0) 1024
       = (getJacobian DBL_MAX (oneTap TrivialLoss 1 (1/100)) (qone, (1, 0, 0)) unitMotion (0, 0) (0, 0) (ln 10))
           \<lparr>isInfDepth := True\<rparr>"
proof -
  have x: "expT DBL_MAX (ln 10) = Finite (depth_max (rsettings (oneTap TrivialLoss 1 (1/100))))"
    by (simp add: expT_ln_10 oneTap_def)
  note N = nonfinite_depth [OF expT_1024, of "oneTap TrivialLoss 1 (1/100)" "(qone, (1, 0, 0))" "(0, 0)"
      unitMotion "(0, 0)"]
  have v: "getValues DBL_MAX (oneTap TrivialLoss 1 (1/100)) (qone, (1, 0, 0)) (0, 0) 1024 = ([2], (0, 0))"
    using N [THEN conjunct1] N [THEN conjunct2, THEN conjunct1]
    by (cases "getValues DBL_MAX (oneTap TrivialLoss 1 (1/100)) (qone, (1, 0, 0)) (0, 0) 1024")
       (simp add: oneTap_def so3_def SO3_act_qone pinhole_def flatImage_def AffLight_apply_def vadd2_def)
  have j: "getJacobian DBL_MAX (oneTap TrivialLoss 1 (1/100)) (qone, (1, 0, 0)) unitMotion (0, 0) (0, 0) 1024
       = (getJacobian DBL_MAX (oneTap TrivialLoss 1 (1/100)) (qone, (1, 0, 0)) unitMotion (0, 0) (0, 0) (ln 10))
           \<lparr>isInfDepth := True\<rparr>"
    using N x by blast
  show ?thesis
    using expT_1024 x v j by simp
qed

section \<open>The constructor of EnergyFunction\<close>

lemma mkResidual_simps [simp]:
  "mHostInd (mkResidual bundle keyFrames h2t lossFn sett ref k tgt) = fst ref"
  "mHostCamInd (mkResidual bundle keyFrames h2t lossFn sett ref k tgt) = fst (snd ref)"
  "mTargetInd (mkResidual bundle keyFrames h2t lossFn sett ref k tgt) = fst tgt"
  "mTargetCamInd (mkResidual bundle keyFrames h2t lossFn sett ref k tgt) = snd tgt"
  "mPointInd (mkResidual bundle keyFrames h2t lossFn sett ref k tgt) = k"
  by (simp_all add: mkResidual_def Residual_ctor_def Let_def)

lemma targetStep_eq:
  "targetStep bundle keyFrames h2t lossFn sett ref tgt (hr, pts, res) =
     (if accepts bundle keyFrames h2t sett ref tgt
      then (True, (if \<not> hr then pts @ [ref] else pts),
            res @ [mkResidual bundle keyFrames h2t lossFn sett ref
                     (length (if \<not> hr then pts @ [ref] else pts) - 1) tgt])
      else (hr, pts, res))"
  by (simp add: targetStep_def accepts_def mkResidual_def Let_def)

lemma fold_targetStep:
  "fold (targetStep bundle keyFrames h2t lossFn sett ref) tgts (hr, pts, res) =
     (let good = filter (accepts bundle keyFrames h2t sett ref) tgts;
          pts' = (if \<not> hr \<and> good \<noteq> [] then pts @ [ref] else pts)
      in (hr \<or> good \<noteq> [], pts',
          res @ map (mkResidual bundle keyFrames h2t lossFn sett ref (length pts' - 1)) good))"
proof (induction tgts arbitrary: hr pts res)
  case Nil
  show ?case by simp
next
  case (Cons tgt tgts)
  show ?case
    by (simp add: targetStep_eq Cons.IH Let_def)
qed

lemma pointStep_eq:
  "pointStep bundle keyFrames h2t lossFn sett ref (pts, res) =
     ((if goodTargets bundle keyFrames h2t sett ref \<noteq> [] then pts @ [ref] else pts),
      res @ map (mkResidual bundle keyFrames h2t lossFn sett ref (length pts))
              (goodTargets bundle keyFrames h2t sett ref))"
proof (cases "filter (accepts bundle keyFrames h2t sett ref)
                 (List.product [0..<length keyFrames] [0..<length bundle]) = []")
  case True
  then show ?thesis
    by (simp add: pointStep_def goodTargets_def fold_targetStep Let_def)
next
  case False
  then show ?thesis
    by (simp add: pointStep_def goodTargets_def fold_targetStep Let_def)
qed

lemma key_append:
  assumes "mPointInd r < length pts"
  shows "key (pts @ ext) r = key pts r"
  using assms by (simp add: key_def nth_append)

lemma pointStep_invariant:
  assumes "wellIndexed pts res"
    and "pointStep bundle keyFrames h2t lossFn sett ref (pts, res) = (pts', res')"
  shows "wellIndexed pts' res'
     \<and> key pts' ` set res' =
         key pts ` set res \<union> {(ref, ti, tci) | ti tci. (ti, tci) \<in> set (goodTargets bundle keyFrames h2t sett ref)}"
proof (cases "goodTargets bundle keyFrames h2t sett ref = []")
  case True
  with assms show ?thesis by (simp add: pointStep_eq)
next
  case False
  let ?good = "goodTargets bundle keyFrames h2t sett ref"
  let ?mk = "mkResidual bundle keyFrames h2t lossFn sett ref (length pts)"
  have pts': "pts' = pts @ [ref]" and res': "res' = res @ map ?mk ?good"
    using assms(2) False by (simp_all add: pointStep_eq)
  have old: "key pts' r = key pts r" if "r \<in> set res" for r
    using that assms(1) by (simp add: pts' key_append wellIndexed_def)
  have new: "key pts' (?mk tgt) = (ref, fst tgt, snd tgt)" for tgt
    by (simp add: key_def pts')
  have wi: "wellIndexed pts' res'"
    using assms(1) by (auto simp: wellIndexed_def pts' res' nth_append)
  have "key pts' ` set res' = key pts' ` set res \<union> key pts' ` ?mk ` set ?good"
    by (simp add: res' image_Un)
  also have "key pts' ` set res = key pts ` set res"
    using old by (intro image_cong) simp_all
  also have "key pts' ` ?mk ` set ?good = {(ref, ti, tci) | ti tci. (ti, tci) \<in> set ?good}"
    by (force simp: image_image new)
  finally show ?thesis using wi by simp
qed

lemma fold_pointStep_invariant:
  assumes "wellIndexed pts res"
    and "fold (pointStep bundle keyFrames h2t lossFn sett) refs (pts, res) = (pts', res')"
  shows "wellIndexed pts' res'
     \<and> key pts' ` set res' =
         key pts ` set res \<union>
         {(ref, ti, tci) | ref ti tci. ref \<in> set refs \<and> (ti, tci) \<in> set (goodTargets bundle keyFrames h2t sett ref)}"
  using assms
proof (induction refs arbitrary: pts res)
  case Nil
  then show ?case by simp
next
  case (Cons ref refs)
  obtain pts1 res1 where step: "pointStep bundle keyFrames h2t lossFn sett ref (pts, res) = (pts1, res1)"
    by (cases "pointStep bundle keyFrames h2t lossFn sett ref (pts, res)")
  note inv1 = pointStep_invariant [OF Cons.prems(1) step]
  have rest: "fold (pointStep bundle keyFrames h2t lossFn sett) refs (pts1, res1) = (pts', res')"
    using Cons.prems(2) step by simp
  note inv2 = Cons.IH [OF inv1 [THEN conjunct1] rest]
  show ?case
    using inv1 inv2 by auto
qed

lemma allPoints_iff:
  "ref \<in> set (allPoints bundle keyFrames) \<longleftrightarrow>
     fst ref < length keyFrames \<and> fst (snd ref) < length bundle
     \<and> snd (snd ref) < length (optimizedPoints (frames (keyFrames ! fst ref) ! fst (snd ref)))"
  by (cases ref) (auto simp: allPoints_def image_iff)

lemma numKeyFrames_Parameters_ctor: "numKeyFrames (Parameters_ctor bundle keyFrames) = length keyFrames"
  by (simp add: numKeyFrames_def Parameters_ctor_def)

lemma goodTargets_iff:
  assumes "ref \<in> set (allPoints bundle keyFrames)"
  shows "(ti, tci) \<in> set (goodTargets bundle keyFrames
            (PrecomputedHostToTarget bundle (Parameters_ctor bundle keyFrames)) sett ref)
     \<longleftrightarrow> ti < length keyFrames \<and> tci < length bundle \<and> admissible bundle keyFrames sett ref ti tci"
proof -
  have in_range: "fst ref < length keyFrames" "fst (snd ref) < length bundle"
    using assms by (simp_all add: allPoints_iff)
  have "get4 (PrecomputedHostToTarget bundle (Parameters_ctor bundle keyFrames)) (fst ref) (fst (snd ref)) ti tci
      = hostToTarget_entry bundle (Parameters_ctor bundle keyFrames) (fst ref) (fst (snd ref)) ti tci"
    if "ti < length keyFrames" "tci < length bundle"
    using that in_range
    by (intro get4_PrecomputedHostToTarget) (simp_all add: numKeyFrames_Parameters_ctor)
  then show ?thesis
    by (auto simp: goodTargets_def accepts_def admissible_def projectsInto_def Let_def)
qed

lemma EnergyFunction_ctor_Inr:
  assumes "EnergyFunction_ctor bundle keyFrames sett = Inr efn"
  shows "2 \<le> length keyFrames"
    and "fold (pointStep bundle keyFrames (PrecomputedHostToTarget bundle (Parameters_ctor bundle keyFrames))
                 (getLoss (opt_lossType (optimization sett)) (outlierDiff (residual sett))) sett)
           (allPoints bundle keyFrames) ([], [])
         = (points (parameters efn), residuals efn)"
    and "ef_cam efn = bundle" and "ef_settings efn = sett"
  using assms
  by (auto simp: EnergyFunction_ctor_def Let_def setPoints_def split: if_splits)

lemma iteration_residuals:
  assumes "iteration maxT co st = Inr st'"
  shows "residuals (ef st') = residuals (ef st)"
  using assms
  by (auto simp: iteration_unfold Let_def split: sum.splits if_splits)

lemma optimize_loop_residuals:
  assumes "optimize_loop maxT co n st = Inr st'"
  shows "residuals (ef st') = residuals (ef st)"
  using assms
proof (induction n arbitrary: st)
  case 0
  then show ?case by simp
next
  case (Suc n)
  then obtain st1 where 1: "iteration maxT co st = Inr st1" and 2: "optimize_loop maxT co n st1 = Inr st'"
    by (auto split: sum.splits)
  show ?case
    using Suc.IH [OF 2] iteration_residuals [OF 1] by simp
qed

lemma optimize_residuals:
  assumes "optimize maxT co efn keyFrames maxIterations = Inr result"
  shows "residuals (fst result) = residuals efn"
proof -
  obtain st where "optimize_loop maxT co (nat maxIterations) (optimize_init maxT co efn) = Inr st"
    and "result = (ef st, applyParameters co (parameters (ef st)) keyFrames)"
    using assms by (auto simp: optimize_def split: sum.splits)
  then show ?thesis
    using optimize_loop_residuals [of maxT co "nat maxIterations" "optimize_init maxT co efn" st]
    by (simp add: init_simps)
qed

lemma upt_2: "[0..<2] = [0, Suc 0]"
  by (simp add: numeral_2_eq_2)

lemma upt_3: "[0..<3] = [0, Suc 0, 2]"
  by (simp add: numeral_3_eq_3 numeral_2_eq_2)

lemma example_Parameters_ctor:
  "Parameters_ctor bundle exampleKeyFrames =
     \<lparr>pstate = \<lparr>bodyToWorld = [SE3_identity, SE3_identity],
                 lightWorldToFrame = [[(0, 0)], [(0, 0)]], logDepths = []\<rparr>, points = []\<rparr>"
  by (simp add: Parameters_ctor_def exampleKeyFrames_def)

lemma example_allPoints: "allPoints unitRig exampleKeyFrames = [(0, 0, 0), (0, 0, Suc 0), (0, 0, 2)]"
  by (simp add: allPoints_def exampleKeyFrames_def unitRig_def upt_2 upt_3)

lemma example_entry:
  "get4 (PrecomputedHostToTarget unitRig (Parameters_ctor unitRig exampleKeyFrames)) 0 0 (Suc 0) 0 = SE3_identity"
  by (subst get4_PrecomputedHostToTarget)
     (simp_all add: example_Parameters_ctor numKeyFrames_def unitRig_def hostToTarget_entry_def
       getBodyToWorld_def SE3_identity_simps Let_def)

lemma example_product: "List.product [0..<length exampleKeyFrames] [0..<length unitRig] = [(0, 0), (Suc 0, 0)]"
  by (simp add: exampleKeyFrames_def unitRig_def upt_2)

lemma example_goodTargets:
  "goodTargets unitRig exampleKeyFrames
     (PrecomputedHostToTarget unitRig (Parameters_ctor unitRig exampleKeyFrames)) exampleSettings (0, 0, 0)
     = [(Suc 0, 0)]"
  "goodTargets unitRig exampleKeyFrames
     (PrecomputedHostToTarget unitRig (Parameters_ctor unitRig exampleKeyFrames)) exampleSettings (0, 0, Suc 0)
     = []"
  "goodTargets unitRig exampleKeyFrames
     (PrecomputedHostToTarget unitRig (Parameters_ctor unitRig exampleKeyFrames)) exampleSettings (0, 0, 2)
     = []"
  by (simp_all add: goodTargets_def example_product accepts_def Let_def example_entry SE3_identity_simps)
     (simp_all add: exampleKeyFrames_def unitRig_def pinhole_def depth_def exampleSettings_def)

lemma example_mkResidual:
  "mkResidual unitRig exampleKeyFrames
     (PrecomputedHostToTarget unitRig (Parameters_ctor unitRig exampleKeyFrames)) TrivialLoss exampleSettings
     (0, 0, 0) 0 (Suc 0, 0) = oneTap TrivialLoss 1 (1/100)"
  by (simp add: mkResidual_def example_entry Residual_ctor_def Let_def SE3_identity_simps)
     (simp add: exampleKeyFrames_def unitRig_def pinhole_def exampleSettings_def oneTap_def
       flatImage_def vadd2_def vsub2_def)

lemma example_ctor:
  "EnergyFunction_ctor unitRig exampleKeyFrames exampleSettings = Inr (exampleEF [oneTap TrivialLoss 1 (1/100)])"
proof -
  have l: "length exampleKeyFrames = 2" by (simp add: exampleKeyFrames_def)
  have g: "getLoss (opt_lossType (optimization exampleSettings)) (outlierDiff (residual exampleSettings)) = TrivialLoss"
    by (simp add: exampleSettings_def)
  have f: "fold (pointStep unitRig exampleKeyFrames
                  (PrecomputedHostToTarget unitRig (Parameters_ctor unitRig exampleKeyFrames))
                  TrivialLoss exampleSettings)
             (allPoints unitRig exampleKeyFrames) ([], [])
         = ([(0, 0, 0)], [oneTap TrivialLoss 1 (1/100)])"
    by (simp add: example_allPoints pointStep_eq example_goodTargets example_mkResidual)
  have s: "setPoints exampleKeyFrames [(0, 0, 0)] (Parameters_ctor unitRig exampleKeyFrames) = twoFrames 0"
    by (simp add: example_Parameters_ctor setPoints_def twoFrames_def) (simp add: exampleKeyFrames_def)
  show ?thesis
    by (simp add: EnergyFunction_ctor_def Let_def l g f s exampleEF_def)
qed

text \<open>
  Claim C3. Every residual that the constructor of \<open>EnergyFunction\<close> makes has distinct
  host and target key frame indices, refers to a point in state \<open>ACTIVE\<close> (of its host
  key frame and camera), and the ray of this point at the current depth is mappable by
  the target camera with its projection on the target image within the border
  \<open>residualPattern.height\<close>. The combinations of a point, a target key frame and a target
  camera for which there is a residual are exactly the admissible ones: a combination that
  violates one of the conditions has no residual. No iteration of \<open>optimize\<close>, and no
  call of \<open>optimize\<close>, changes the residuals.
\<close>

theorem constructed_residuals:
  assumes "EnergyFunction_ctor bundle keyFrames sett = Inr efn"
  shows "(\<forall>r \<in> set (residuals efn).
            mPointInd r < length (points (parameters efn))
          \<and> mHostInd r = fst (pointOf efn r) \<and> mHostCamInd r = fst (snd (pointOf efn r))
          \<and> mHostInd r \<noteq> mTargetInd r
          \<and> state (getPoint keyFrames (pointOf efn r)) = ACTIVE
          \<and> projectsInto bundle keyFrames sett (pointOf efn r) (mTargetInd r) (mTargetCamInd r))
     \<and> (\<lambda>r. (pointOf efn r, mTargetInd r, mTargetCamInd r)) ` set (residuals efn)
         = {(ref, ti, tci). ref \<in> set (allPoints bundle keyFrames) \<and> ti < length keyFrames
              \<and> tci < length bundle \<and> admissible bundle keyFrames sett ref ti tci}
     \<and> (\<forall>st st'. ef st = efn \<longrightarrow> iteration maxT co st = Inr st' \<longrightarrow> residuals (ef st') = residuals efn)
     \<and> (\<forall>maxIterations result. optimize maxT co efn keyFrames maxIterations = Inr result
            \<longrightarrow> residuals (fst result) = residuals efn)"
proof -
  let ?h2t = "PrecomputedHostToTarget bundle (Parameters_ctor bundle keyFrames)"
  let ?pts = "points (parameters efn)"
  have w0: "wellIndexed [] []" by (simp add: wellIndexed_def)
  note inv = fold_pointStep_invariant [OF w0 EnergyFunction_ctor_Inr(2) [OF assms]]
  have wi: "wellIndexed ?pts (residuals efn)" using inv by simp
  have "key ?pts ` set (residuals efn) =
      {(ref, ti, tci) | ref ti tci. ref \<in> set (allPoints bundle keyFrames)
         \<and> (ti, tci) \<in> set (goodTargets bundle keyFrames ?h2t sett ref)}"
    using inv by simp
  also have "\<dots> = {(ref, ti, tci). ref \<in> set (allPoints bundle keyFrames) \<and> ti < length keyFrames
              \<and> tci < length bundle \<and> admissible bundle keyFrames sett ref ti tci}"
    by (auto simp: goodTargets_iff)
  finally have keys: "key ?pts ` set (residuals efn) =
      {(ref, ti, tci). ref \<in> set (allPoints bundle keyFrames) \<and> ti < length keyFrames
              \<and> tci < length bundle \<and> admissible bundle keyFrames sett ref ti tci}" .
  have keyfun: "key ?pts = (\<lambda>r. (pointOf efn r, mTargetInd r, mTargetCamInd r))"
    by (simp add: key_def pointOf_def fun_eq_iff)
  have each: "mPointInd r < length ?pts \<and> mHostInd r = fst (pointOf efn r)
      \<and> mHostCamInd r = fst (snd (pointOf efn r)) \<and> mHostInd r \<noteq> mTargetInd r
      \<and> state (getPoint keyFrames (pointOf efn r)) = ACTIVE
      \<and> projectsInto bundle keyFrames sett (pointOf efn r) (mTargetInd r) (mTargetCamInd r)"
    if r: "r \<in> set (residuals efn)" for r
  proof -
    have "key ?pts r \<in> key ?pts ` set (residuals efn)" using r by simp
    then have "admissible bundle keyFrames sett (pointOf efn r) (mTargetInd r) (mTargetCamInd r)"
      unfolding keys by (simp add: keyfun)
    moreover have "mPointInd r < length ?pts \<and> mHostInd r = fst (pointOf efn r)
        \<and> mHostCamInd r = fst (snd (pointOf efn r))"
      using wi r by (simp add: wellIndexed_def pointOf_def)
    ultimately show ?thesis by (simp add: admissible_def)
  qed
  have c1: "\<forall>r \<in> set (residuals efn).
            mPointInd r < length (points (parameters efn))
          \<and> mHostInd r = fst (pointOf efn r) \<and> mHostCamInd r = fst (snd (pointOf efn r))
          \<and> mHostInd r \<noteq> mTargetInd r
          \<and> state (getPoint keyFrames (pointOf efn r)) = ACTIVE
          \<and> projectsInto bundle keyFrames sett (pointOf efn r) (mTargetInd r) (mTargetCamInd r)"
    using each by blast
  have c3: "\<forall>st st'. ef st = efn \<longrightarrow> iteration maxT co st = Inr st' \<longrightarrow> residuals (ef st') = residuals efn"
    using iteration_residuals by metis
  have c4: "\<forall>maxIterations result. optimize maxT co efn keyFrames maxIterations = Inr result
            \<longrightarrow> residuals (fst result) = residuals efn"
    using optimize_residuals by blast
  show ?thesis
    using c1 keys [unfolded keyfun] c3 c4 by (intro conjI)
qed

text \<open>
  For the example key frames the constructor makes the one residual of the active point on
  the axis into key frame 1: the same key frame as target, the outlier and the point that
  projects outside of the image give none.
\<close>

theorem constructed_residuals_witness:
  "EnergyFunction_ctor unitRig exampleKeyFrames exampleSettings = Inr (exampleEF [oneTap TrivialLoss 1 (1/100)])
   \<and> (\<lambda>r. (pointOf (exampleEF [oneTap TrivialLoss 1 (1/100)]) r, mTargetInd r, mTargetCamInd r))
        ` set (residuals (exampleEF [oneTap TrivialLoss 1 (1/100)])) = {((0, 0, 0), 1, 0)}
   \<and> admissible unitRig exampleKeyFrames exampleSettings (0, 0, 0) 1 0
   \<and> \<not> admissible unitRig exampleKeyFrames exampleSettings (0, 0, 0) 0 0
   \<and> \<not> admissible unitRig exampleKeyFrames exampleSettings (0, 0, 1) 1 0
   \<and> \<not> admissible unitRig exampleKeyFrames exampleSettings (0, 0, 2) 1 0"
proof -
  note C = constructed_residuals [OF example_ctor, of DBL_MAX "shiftB 1"]
  have k: "(\<lambda>r. (pointOf (exampleEF [oneTap TrivialLoss 1 (1/100)]) r, mTargetInd r, mTargetCamInd r))
        ` set (residuals (exampleEF [oneTap TrivialLoss 1 (1/100)])) = {((0, 0, 0), 1, 0)}"
    by (simp add: exampleEF_simps pointOf_def oneTap_def twoFrames_def)
  have in_all: "(0, 0, 0) \<in> set (allPoints unitRig exampleKeyFrames)"
      "(0, 0, 1) \<in> set (allPoints unitRig exampleKeyFrames)"
      "(0, 0, 2) \<in> set (allPoints unitRig exampleKeyFrames)"
    by (simp_all add: example_allPoints)
  have len: "(0::nat) < length exampleKeyFrames" "(1::nat) < length exampleKeyFrames" "(0::nat) < length unitRig"
    by (simp_all add: exampleKeyFrames_def unitRig_def)
  have eq: "{(ref, ti, tci). ref \<in> set (allPoints unitRig exampleKeyFrames) \<and> ti < length exampleKeyFrames
              \<and> tci < length unitRig \<and> admissible unitRig exampleKeyFrames exampleSettings ref ti tci}
          = {((0, 0, 0), 1, 0)}"
    using C [THEN conjunct2, THEN conjunct1] unfolding k by simp
  have iff: "(ref \<in> set (allPoints unitRig exampleKeyFrames) \<and> ti < length exampleKeyFrames
              \<and> tci < length unitRig \<and> admissible unitRig exampleKeyFrames exampleSettings ref ti tci)
          = ((ref, ti, tci) = ((0, 0, 0), 1, 0))" for ref ti tci
    using arg_cong [OF eq, of "\<lambda>S. (ref, ti, tci) \<in> S"] by simp
  have a: "admissible unitRig exampleKeyFrames exampleSettings (0, 0, 0) 1 0"
    using iff [of "(0, 0, 0)" 1 0] by simp
  have b: "\<not> admissible unitRig exampleKeyFrames exampleSettings (0, 0, 0) 0 0"
    using iff [of "(0, 0, 0)" 0 0] in_all len by simp
  have c: "\<not> admissible unitRig exampleKeyFrames exampleSettings (0, 0, 1) 1 0"
    using iff [of "(0, 0, 1)" 1 0] in_all len by simp
  have d: "\<not> admissible unitRig exampleKeyFrames exampleSettings (0, 0, 2) 1 0"
    using iff [of "(0, 0, 2)" 1 0] in_all len by simp
  show ?thesis
    using example_ctor k a b c d by simp
qed

section \<open>Gauge invariance of the two runs\<close>

lemma leftMultiplyKeyFrames_simps:
  "length (leftMultiplyKeyFrames g keyFrames) = length keyFrames"
  "i < length keyFrames \<Longrightarrow> frames (leftMultiplyKeyFrames g keyFrames ! i) = frames (keyFrames ! i)"
  by (simp_all add: leftMultiplyKeyFrames_def)

lemma getPoint_leftMultiplyKeyFrames:
  assumes "fst ref < length keyFrames"
  shows "getPoint (leftMultiplyKeyFrames g keyFrames) ref = getPoint keyFrames ref"
  using assms by (cases ref) (simp add: leftMultiplyKeyFrames_simps)

lemma allPoints_leftMultiplyKeyFrames:
  "allPoints bundle (leftMultiplyKeyFrames g keyFrames) = allPoints bundle keyFrames"
  unfolding allPoints_def leftMultiplyKeyFrames_simps
  by (intro arg_cong [where f = concat] map_cong refl) (simp add: leftMultiplyKeyFrames_simps)

lemma Parameters_ctor_leftMultiplyKeyFrames:
  "Parameters_ctor bundle (leftMultiplyKeyFrames g keyFrames) = leftMultiply g (Parameters_ctor bundle keyFrames)"
  by (simp add: Parameters_ctor_def leftMultiply_def leftMultiplyKeyFrames_def comp_def)

lemma targetStep_leftMultiplyKeyFrames:
  assumes "fst ref < length keyFrames" "fst tgt < length keyFrames"
  shows "targetStep bundle (leftMultiplyKeyFrames g keyFrames) h2t lossFn sett ref tgt
       = targetStep bundle keyFrames h2t lossFn sett ref tgt"
  using assms
  by (simp add: targetStep_def fun_eq_iff getPoint_leftMultiplyKeyFrames leftMultiplyKeyFrames_simps
      Let_def)

lemma pointStep_leftMultiplyKeyFrames:
  assumes "fst ref < length keyFrames"
  shows "pointStep bundle (leftMultiplyKeyFrames g keyFrames) h2t lossFn sett ref
       = pointStep bundle keyFrames h2t lossFn sett ref"
proof
  fix acc
  have "fold (targetStep bundle (leftMultiplyKeyFrames g keyFrames) h2t lossFn sett ref)
          (List.product [0..<length keyFrames] [0..<length bundle]) (False, fst acc, snd acc)
      = fold (targetStep bundle keyFrames h2t lossFn sett ref)
          (List.product [0..<length keyFrames] [0..<length bundle]) (False, fst acc, snd acc)"
    by (intro fold_cong refl targetStep_leftMultiplyKeyFrames assms) auto
  then show "pointStep bundle (leftMultiplyKeyFrames g keyFrames) h2t lossFn sett ref acc
       = pointStep bundle keyFrames h2t lossFn sett ref acc"
    by (simp add: pointStep_def getPoint_leftMultiplyKeyFrames [OF assms] leftMultiplyKeyFrames_simps)
qed

lemma setPoints_leftMultiply:
  assumes "\<forall>ref \<in> set pts. fst ref < length keyFrames"
  shows "setPoints (leftMultiplyKeyFrames g keyFrames) pts (leftMultiply g ps)
       = leftMultiply g (setPoints keyFrames pts ps)"
  using assms
  by (simp add: setPoints_def leftMultiply_def getPoint_leftMultiplyKeyFrames cong: map_cong)

lemma fold_pointStep_points:
  assumes "fold (pointStep bundle keyFrames h2t lossFn sett) refs (pts, res) = (pts', res')"
  shows "set pts' \<subseteq> set pts \<union> set refs"
  using assms
proof (induction refs arbitrary: pts res)
  case Nil
  then show ?case by simp
next
  case (Cons ref refs)
  show ?case
    using Cons.IH [of "if goodTargets bundle keyFrames h2t sett ref \<noteq> [] then pts @ [ref] else pts"
        "res @ map (mkResidual bundle keyFrames h2t lossFn sett ref (length pts))
              (goodTargets bundle keyFrames h2t sett ref)"] Cons.prems
    by (auto simp: pointStep_eq split: if_splits)
qed

lemma EnergyFunction_ctor_leftMultiplyKeyFrames:
  assumes "squaredNorm (so3 g) = 1"
  shows "EnergyFunction_ctor bundle (leftMultiplyKeyFrames g keyFrames) sett
       = map_sum id (\<lambda>efn. efn\<lparr>parameters := leftMultiply g (parameters efn)\<rparr>)
           (EnergyFunction_ctor bundle keyFrames sett)"
proof -
  let ?h2t = "PrecomputedHostToTarget bundle (Parameters_ctor bundle keyFrames)"
  let ?lossFn = "getLoss (opt_lossType (optimization sett)) (outlierDiff (residual sett))"
  obtain pts res where acc: "fold (pointStep bundle keyFrames ?h2t ?lossFn sett)
      (allPoints bundle keyFrames) ([], []) = (pts, res)"
    by (cases "fold (pointStep bundle keyFrames ?h2t ?lossFn sett) (allPoints bundle keyFrames) ([], [])")
  have f: "fold (pointStep bundle (leftMultiplyKeyFrames g keyFrames) ?h2t ?lossFn sett)
      (allPoints bundle keyFrames) ([], []) = (pts, res)"
    unfolding acc [symmetric]
    by (intro fold_cong refl pointStep_leftMultiplyKeyFrames) (simp add: allPoints_iff)
  have "set pts \<subseteq> set (allPoints bundle keyFrames)"
    using fold_pointStep_points [OF acc] by simp
  then have pts: "\<forall>ref \<in> set pts. fst ref < length keyFrames"
    by (auto simp: allPoints_iff)
  show ?thesis
    by (simp add: EnergyFunction_ctor_def Let_def leftMultiplyKeyFrames_simps
        Parameters_ctor_leftMultiplyKeyFrames PrecomputedHostToTarget_leftMultiply [OF assms]
        allPoints_leftMultiplyKeyFrames f acc setPoints_leftMultiply [OF pts])
qed

text \<open>
  Claim C7. For every rigid motion \<open>g\<close> (a unit quaternion and a translation),
  multiplying the body-to-world pose of every key frame from the left by \<open>g\<close> leaves the
  table of host-to-target transforms that \<open>PrecomputedHostToTarget\<close> computes unchanged,
  and hence the values that \<open>getValues\<close> returns for every residual are the same in the
  two runs; the constructor makes the same residuals in the two runs, and its parameter
  block differs by \<open>g\<close> only. Rotations compose exactly here; the rounding of the machine
  is not modelled.
\<close>

theorem gauge_invariance:
  assumes "squaredNorm (so3 g) = 1"
  shows "PrecomputedHostToTarget bundle (leftMultiply g ps) = PrecomputedHostToTarget bundle ps
     \<and> createValues maxT rs (leftMultiply g ps)
          (PrecomputedHostToTarget bundle (leftMultiply g ps))
          (lightHostToTarget_get (leftMultiply g ps))
       = createValues maxT rs ps (PrecomputedHostToTarget bundle ps) (lightHostToTarget_get ps)
     \<and> EnergyFunction_ctor bundle (leftMultiplyKeyFrames g keyFrames) sett
       = map_sum id (\<lambda>efn. efn\<lparr>parameters := leftMultiply g (parameters efn)\<rparr>)
           (EnergyFunction_ctor bundle keyFrames sett)"
  by (simp add: PrecomputedHostToTarget_leftMultiply [OF assms] createValues_def leftMultiply_simps
      EnergyFunction_ctor_leftMultiplyKeyFrames [OF assms])

text \<open>
  The half turn about the first axis followed by the translation \<open>(1, 2, 3)\<close>: both poses
  change, the table, the values and the residuals of the constructor do not.
\<close>

theorem gauge_invariance_witness:
  "squaredNorm (so3 ((0, 1, 0, 0), (1, 2, 3))) = 1
   \<and> bodyToWorld (pstate (leftMultiply ((0, 1, 0, 0), (1, 2, 3)) (twoFrames 0)))
       = [((0, 1, 0, 0), (1, 2, 3)), ((0, 1, 0, 0), (1, 2, 3))]
   \<and> PrecomputedHostToTarget unitRig (leftMultiply ((0, 1, 0, 0), (1, 2, 3)) (twoFrames 0))
       = PrecomputedHostToTarget unitRig (twoFrames 0)
   \<and> createValues DBL_MAX [oneTap TrivialLoss 1 (1/100)] (leftMultiply ((0, 1, 0, 0), (1, 2, 3)) (twoFrames 0))
          (PrecomputedHostToTarget unitRig (leftMultiply ((0, 1, 0, 0), (1, 2, 3)) (twoFrames 0)))
          (lightHostToTarget_get (leftMultiply ((0, 1, 0, 0), (1, 2, 3)) (twoFrames 0)))
       = [([2], (0, 0))]
   \<and> EnergyFunction_ctor unitRig (leftMultiplyKeyFrames ((0, 1, 0, 0), (1, 2, 3)) exampleKeyFrames) exampleSettings
       = Inr ((exampleEF [oneTap TrivialLoss 1 (1/100)])
                \<lparr>parameters := leftMultiply ((0, 1, 0, 0), (1, 2, 3)) (twoFrames 0)\<rparr>)"
proof -
  have u: "squaredNorm (so3 ((0, 1, 0, 0), (1, 2, 3))) = 1"
    by (simp add: so3_def)
  have b: "bodyToWorld (pstate (leftMultiply ((0, 1, 0, 0), (1, 2, 3)) (twoFrames 0)))
       = [((0, 1, 0, 0), (1, 2, 3)), ((0, 1, 0, 0), (1, 2, 3))]"
    by (simp add: leftMultiply_def twoFrames_def SE3_mul_def SE3_identity_def so3_def
        translation_def qone_def)
  note G = gauge_invariance [OF u, of unitRig "twoFrames 0" DBL_MAX "[oneTap TrivialLoss 1 (1/100)]"
      exampleKeyFrames exampleSettings]
  have v: "createValues DBL_MAX [oneTap TrivialLoss 1 (1/100)] (leftMultiply ((0, 1, 0, 0), (1, 2, 3)) (twoFrames 0))
          (PrecomputedHostToTarget unitRig (leftMultiply ((0, 1, 0, 0), (1, 2, 3)) (twoFrames 0)))
          (lightHostToTarget_get (leftMultiply ((0, 1, 0, 0), (1, 2, 3)) (twoFrames 0)))
       = [([2], (0, 0))]"
    unfolding G [THEN conjunct2, THEN conjunct1] by (simp add: oneTap_values)
  have c: "EnergyFunction_ctor unitRig (leftMultiplyKeyFrames ((0, 1, 0, 0), (1, 2, 3)) exampleKeyFrames) exampleSettings
       = Inr ((exampleEF [oneTap TrivialLoss 1 (1/100)])
                \<lparr>parameters := leftMultiply ((0, 1, 0, 0), (1, 2, 3)) (twoFrames 0)\<rparr>)"
    unfolding G [THEN conjunct2, THEN conjunct2] by (simp add: example_ctor exampleEF_simps)
  show ?thesis
    using u b G [THEN conjunct1] v c by simp
qed

section \<open>The anchor key frame\<close>

lemma isFree_constant:
  assumes "b \<in> set (constantBlocks problem)"
  shows "\<not> isFree problem b"
  using assms by (simp add: isFree_def)

lemma constantBlocksOf_anchor:
  "TranslationBlock 0 \<in> set (constantBlocksOf sett keyFrames)"
  "RotationBlock 0 \<in> set (constantBlocksOf sett keyFrames)"
  "c < length (frames (keyFrames ! 0)) \<Longrightarrow> AffLightBlock 0 c \<in> set (constantBlocksOf sett keyFrames)"
  by (simp_all add: constantBlocksOf_def Let_def)

lemma Solve_constant:
  assumes "TranslationBlock 0 \<in> set (constantBlocks problem)"
    "RotationBlock 0 \<in> set (constantBlocks problem)"
  shows "pv_translation (Solve minimizer problem v) 0 = pv_translation v 0"
    and "pv_rotation (Solve minimizer problem v) 0 = pv_rotation v 0"
  using assms by (simp_all add: Solve_def Let_def isFree_def)

lemma Solve_constant_aff:
  assumes "AffLightBlock i c \<in> set (constantBlocks problem)"
  shows "pv_affLight (Solve minimizer problem v) i c = pv_affLight v i c"
  using assms by (simp add: Solve_def Let_def isFree_def)

lemma adjust_anchor:
  assumes "2 \<le> length keyFrames" and "length bundle = 1"
  shows "\<exists>kfs'. adjust minimizer sett bundle keyFrames = Inr kfs'
     \<and> length kfs' = length keyFrames
     \<and> thisToWorld (kfs' ! 0) = thisToWorld (keyFrames ! 0)
     \<and> map lightWorldToThis (frames (kfs' ! 0)) = map lightWorldToThis (frames (keyFrames ! 0))"
proof -
  define problem where "problem =
     \<lparr>parameterBlocks = frameBlocks keyFrames @ depthBlocks sett bundle keyFrames,
      constantBlocks = constantBlocksOf sett keyFrames\<rparr>"
  define v0 where "v0 =
     \<lparr>pv_translation = (\<lambda>i. translation (map thisToWorld keyFrames ! i)),
      pv_rotation = (\<lambda>i. so3 (map thisToWorld keyFrames ! i)),
      pv_affLight = (\<lambda>i c. lightWorldToThis (frames (keyFrames ! i) ! c)),
      pv_logDepth = (\<lambda>i c k. logDepth (optimizedPoints (frames (keyFrames ! i) ! c) ! k))\<rparr>"
  define v1 where "v1 = Solve minimizer problem v0"
  define newEntry where "newEntry = (\<lambda>kfInd c. (frames (keyFrames ! kfInd) ! c)
       \<lparr>optimizedPoints :=
          map (\<lambda>k. (optimizedPoints (frames (keyFrames ! kfInd) ! c) ! k)
                      \<lparr>logDepth := pv_logDepth v1 kfInd c k\<rparr>)
            [0..<length (optimizedPoints (frames (keyFrames ! kfInd) ! c))],
        lightWorldToThis := pv_affLight v1 kfInd c\<rparr>)"
  define newFrame where "newFrame = (\<lambda>kfInd. (keyFrames ! kfInd)
       \<lparr>thisToWorld := (pv_rotation v1 kfInd, pv_translation v1 kfInd),
        frames := map (newEntry kfInd) [0..<length (frames (keyFrames ! kfInd))]\<rparr>)"
  have res: "adjust minimizer sett bundle keyFrames = Inr (map newFrame [0..<length keyFrames])"
    using assms
    by (simp add: adjust_def Let_def problem_def v0_def v1_def newEntry_def newFrame_def)
  have 0: "0 < length keyFrames" using assms(1) by linarith
  have cb: "constantBlocks problem = constantBlocksOf sett keyFrames"
    by (simp add: problem_def)
  have t: "pv_translation v1 0 = translation (thisToWorld (keyFrames ! 0))"
    using 0 by (simp add: v1_def Solve_constant cb constantBlocksOf_anchor v0_def)
  have r: "pv_rotation v1 0 = so3 (thisToWorld (keyFrames ! 0))"
    using 0 by (simp add: v1_def Solve_constant cb constantBlocksOf_anchor v0_def)
  have a: "pv_affLight v1 0 c = lightWorldToThis (frames (keyFrames ! 0) ! c)"
    if "c < length (frames (keyFrames ! 0))" for c
    using that by (simp add: v1_def Solve_constant_aff cb constantBlocksOf_anchor v0_def)
  have pose: "thisToWorld (newFrame 0) = thisToWorld (keyFrames ! 0)"
    by (simp add: newFrame_def t r so3_def translation_def)
  have "map lightWorldToThis (frames (newFrame 0))
      = map (\<lambda>c. pv_affLight v1 0 c) [0..<length (frames (keyFrames ! 0))]"
    by (simp add: newFrame_def newEntry_def comp_def)
  also have "\<dots> = map (\<lambda>c. lightWorldToThis (frames (keyFrames ! 0) ! c)) [0..<length (frames (keyFrames ! 0))]"
    by (intro map_cong refl) (simp add: a)
  also have "\<dots> = map lightWorldToThis (frames (keyFrames ! 0))"
    by (rule nth_equalityI) simp_all
  finally have aff: "map lightWorldToThis (frames (newFrame 0)) = map lightWorldToThis (frames (keyFrames ! 0))" .
  show ?thesis
    unfolding res using 0 pose aff by simp
qed

lemma fold_affBlock_frame:
  "point (fold (affBlock_setZero f) cs d) = point d
   \<and> frameParameterOrder (fold (affBlock_setZero f) cs d) = frameParameterOrder d
   \<and> length (frame (fold (affBlock_setZero f) cs d)) = length (frame d)
   \<and> (\<forall>j. (\<forall>c \<in> set cs. j \<noteq> affStart (frameParameterOrder d) f c
                \<and> j \<noteq> Suc (affStart (frameParameterOrder d) f c))
        \<longrightarrow> frame (fold (affBlock_setZero f) cs d) ! j = frame d ! j)"
proof (induction cs arbitrary: d)
  case Nil
  show ?case by simp
next
  case (Cons c cs)
  show ?case
    using Cons.IH [of "affBlock_setZero f c d"]
    by (auto simp: affBlock_setZero_def Let_def)
qed

lemma fold_frames_frame:
  "point (fold (\<lambda>f d'. fold (affBlock_setZero f) cs d') fs d) = point d
   \<and> frameParameterOrder (fold (\<lambda>f d'. fold (affBlock_setZero f) cs d') fs d) = frameParameterOrder d
   \<and> length (frame (fold (\<lambda>f d'. fold (affBlock_setZero f) cs d') fs d)) = length (frame d)
   \<and> (\<forall>j. (\<forall>f \<in> set fs. \<forall>c \<in> set cs. j \<noteq> affStart (frameParameterOrder d) f c
                \<and> j \<noteq> Suc (affStart (frameParameterOrder d) f c))
        \<longrightarrow> frame (fold (\<lambda>f d'. fold (affBlock_setZero f) cs d') fs d) ! j = frame d ! j)"
proof (induction fs arbitrary: d)
  case Nil
  show ?case by simp
next
  case (Cons f fs)
  show ?case
    using Cons.IH [of "fold (affBlock_setZero f) cs d"] fold_affBlock_frame [of f cs d]
    by auto
qed

lemma setAffineZero_frame:
  assumes "j \<notin> affEntries (frameParameterOrder delta)"
  shows "frame (setAffineZero delta) ! j = frame delta ! j"
proof -
  have "\<forall>f \<in> set [1..<fpo_numKeyFrames (frameParameterOrder delta)].
          \<forall>c \<in> set [0..<fpo_numCameras (frameParameterOrder delta)].
            j \<noteq> affStart (frameParameterOrder delta) f c
          \<and> j \<noteq> Suc (affStart (frameParameterOrder delta) f c)"
    using assms by (auto simp: affEntries_def)
  then show ?thesis
    unfolding setAffineZero_def
    using fold_frames_frame [of "[0..<fpo_numCameras (frameParameterOrder delta)]"
        "[1..<fpo_numKeyFrames (frameParameterOrder delta)]" delta]
    by blast
qed

lemma setAffineZero_point: "point (setAffineZero delta) = point delta"
  unfolding setAffineZero_def
  using fold_frames_frame [of "[0..<fpo_numCameras (frameParameterOrder delta)]"
        "[1..<fpo_numKeyFrames (frameParameterOrder delta)]" delta]
  by blast

lemma iteration_anchor:
  assumes "keepsAnchor co" and "iteration maxT co st = Inr st'"
  shows "anchor (pstate (parameters (ef st'))) = anchor (pstate (parameters (ef st)))"
proof -
  obtain curEnergy newEnergy where
    cur: "totalEnergy (ef_lossFunction (ef st)) (curValues st) = Inr curEnergy" and
    new: "totalEnergy (ef_lossFunction (ef st)) (trialValues maxT co st) = Inr newEnergy"
    using assms(2) by (rule iteration_cases)
  have trial: "anchor (pstate (trialParameters maxT co st)) = anchor (pstate (parameters (ef st)))"
    using assms(1) by (simp add: trialParameters_def Let_def keepsAnchor_def)
  show ?thesis
  proof (cases "newEnergy < curEnergy")
    case True
    from assms(2) show ?thesis
      unfolding iteration_accepted [OF cur new True] using trial by auto
  next
    case False
    from assms(2) show ?thesis
      unfolding iteration_rejected [OF cur new False] by auto
  qed
qed

lemma optimize_loop_anchor:
  assumes "keepsAnchor co" and "optimize_loop maxT co n st = Inr st'"
  shows "anchor (pstate (parameters (ef st'))) = anchor (pstate (parameters (ef st)))"
  using assms(2)
proof (induction n arbitrary: st)
  case 0
  then show ?case by simp
next
  case (Suc n)
  then obtain st1 where 1: "iteration maxT co st = Inr st1" and 2: "optimize_loop maxT co n st1 = Inr st'"
    by (auto split: sum.splits)
  show ?case
    using Suc.IH [OF 2] iteration_anchor [OF assms(1) 1] by simp
qed

lemma optimize_anchor:
  assumes "keepsAnchor co" and "optimize maxT co efn keyFrames maxIterations = Inr result"
  shows "anchor (pstate (parameters (fst result))) = anchor (pstate (parameters efn))"
proof -
  obtain st where "optimize_loop maxT co (nat maxIterations) (optimize_init maxT co efn) = Inr st"
    and "result = (ef st, applyParameters co (parameters (ef st)) keyFrames)"
    using assms(2) by (auto simp: optimize_def split: sum.splits)
  then show ?thesis
    using optimize_loop_anchor [OF assms(1), of maxT "nat maxIterations" "optimize_init maxT co efn" st]
    by (simp add: init_simps)
qed

lemma example_accepted:
  "iteration DBL_MAX (shiftB 1) (optimize_init DBL_MAX (shiftB 1) (exampleEF [oneTap TrivialLoss 1 (1/100)]))
     = Inr ((refresh DBL_MAX (shiftB 1) (optimize_init DBL_MAX (shiftB 1) (exampleEF [oneTap TrivialLoss 1 (1/100)])))
              \<lparr>ef := (exampleEF [oneTap TrivialLoss 1 (1/100)])\<lparr>parameters := twoFrames 1\<rparr>,
               lambda := 1/2, curValues := [([1], (0, 0))],
               hostToTarget := PrecomputedHostToTarget unitRig (twoFrames 1),
               lightHostToTarget := lightHostToTarget_get (twoFrames 1),
               parametersUpdated := True\<rparr>)"
proof -
  let ?st = "optimize_init DBL_MAX (shiftB 1) (exampleEF [oneTap TrivialLoss 1 (1/100)])"
  have cur: "totalEnergy (ef_lossFunction (ef ?st)) (curValues ?st) = Inr 4"
    by (simp add: init_simps init_curValues exampleEF_simps oneTap_values energy_one)
  have new: "totalEnergy (ef_lossFunction (ef ?st)) (trialValues DBL_MAX (shiftB 1) ?st) = Inr 1"
    by (simp add: init_simps exampleEF_simps trialValues_example energy_one)
  show ?thesis
    using iteration_accepted [OF cur new]
    by (simp add: init_simps exampleEF_simps exampleSettings_def trial_example trialValues_example)
qed

lemma example_optimize_1:
  "optimize DBL_MAX (shiftB 1) (exampleEF [oneTap TrivialLoss 1 (1/100)]) exampleKeyFrames 1
     = Inr ((exampleEF [oneTap TrivialLoss 1 (1/100)])\<lparr>parameters := twoFrames 1\<rparr>, exampleKeyFrames)"
  by (simp add: optimize_def example_accepted) (simp add: shiftB_def)

lemma keepsAnchor_shiftB: "keepsAnchor (shiftB k)"
  by (simp add: keepsAnchor_def anchor_def shiftB_def)

lemma upt_1_2: "[1..<2] = [Suc 0]"
  by (simp add: numeral_2_eq_2)

lemma example_setAffineZero: "frame (setAffineZero exampleDelta) = [7, 8, 0, 0]"
  by (simp add: setAffineZero_def exampleDelta_def affBlock_setZero_def Let_def upt_1_2 numeral_2_eq_2)

lemma example_adjust:
  "map_sum id (map thisToWorld) (adjust greedyMinimizer exampleAdjusterSettings unitRig exampleKeyFrames)
     = Inr [SE3_identity, ((0, 1, 0, 0), (0, 0, 0))]"
  "map_sum id (map (\<lambda>kf. map lightWorldToThis (frames kf)))
       (adjust greedyMinimizer exampleAdjusterSettings unitRig exampleKeyFrames)
     = Inr [[(0, 0)], [(1, 1)]]"
  by (simp_all add: adjust_def Let_def Solve_def isFree_def frameBlocks_def constantBlocksOf_def
      depthBlocks_def exampleKeyFrames_def unitRig_def exampleAdjusterSettings_def greedyMinimizer_def
      upt_2 SE3_identity_def so3_def translation_def qone_def)

text \<open>
  Claim C9. Across a full optimization call the pose of key frame 0 and its affine
  brightness parameters for every camera are exactly unchanged, whatever the minimizer
  does: \<open>BundleAdjusterCeres::adjust\<close> sets the parameter blocks of key frame 0
  constant, so that \<open>ceres::Solve\<close> does not write to them, and writes the unchanged pose
  back; \<open>DeltaParameterVector::setAffineZero\<close> starts at frame index 1 and writes only to
  the affine blocks of the key frames from 1 on; and \<open>EnergyFunction::optimize\<close>, which
  writes to the parameter block through \<open>update\<close> and \<open>recoverState\<close> only, leaves the
  anchor as it is in every accepted and every rejected iteration, given that \<open>update\<close>
  does (its code is not among the sources).
\<close>

theorem anchor_unchanged:
  assumes "2 \<le> length keyFrames" and "length bundle = 1" and "keepsAnchor co"
  shows "(\<exists>kfs'. adjust minimizer sett bundle keyFrames = Inr kfs'
            \<and> length kfs' = length keyFrames
            \<and> thisToWorld (kfs' ! 0) = thisToWorld (keyFrames ! 0)
            \<and> map lightWorldToThis (frames (kfs' ! 0)) = map lightWorldToThis (frames (keyFrames ! 0)))
     \<and> (\<forall>j. j \<notin> affEntries (frameParameterOrder delta)
            \<longrightarrow> frame (setAffineZero delta) ! j = frame delta ! j)
     \<and> point (setAffineZero delta) = point delta
     \<and> (\<forall>maxIterations result. optimize maxT co efn keyFrames maxIterations = Inr result
            \<longrightarrow> anchor (pstate (parameters (fst result))) = anchor (pstate (parameters efn)))"
  using adjust_anchor [OF assms(1,2)] setAffineZero_frame setAffineZero_point
    optimize_anchor [OF assms(3)]
  by blast

text \<open>
  On the example key frames the adjuster lets the minimizer turn key frame 1 and change
  its affine pair, and keeps key frame 0; \<open>setAffineZero\<close> clears the entries 2 and 3 of
  the example delta; and one accepted iteration of \<open>optimize\<close> changes the brightness offset
  of key frame 1 only.
\<close>

theorem anchor_unchanged_witness:
  "2 \<le> length exampleKeyFrames \<and> length unitRig = 1 \<and> keepsAnchor (shiftB 1)
   \<and> (\<exists>kfs'. adjust greedyMinimizer exampleAdjusterSettings unitRig exampleKeyFrames = Inr kfs'
          \<and> thisToWorld (kfs' ! 0) = thisToWorld (exampleKeyFrames ! 0)
          \<and> map thisToWorld kfs' = [SE3_identity, ((0, 1, 0, 0), (0, 0, 0))]
          \<and> map (\<lambda>kf. map lightWorldToThis (frames kf)) kfs' = [[(0, 0)], [(1, 1)]])
   \<and> frame (setAffineZero exampleDelta) ! 0 = 7 \<and> frame (setAffineZero exampleDelta) ! 1 = 8
   \<and> frame (setAffineZero exampleDelta) = [7, 8, 0, 0]
   \<and> (\<exists>result. optimize DBL_MAX (shiftB 1) (exampleEF [oneTap TrivialLoss 1 (1/100)]) exampleKeyFrames 1
                    = Inr result
          \<and> anchor (pstate (parameters (fst result))) = (SE3_identity, [(0, 0)])
          \<and> lightWorldToFrame (pstate (parameters (fst result))) = [[(0, 0)], [(0, 1)]])"
proof -
  have h1: "2 \<le> length exampleKeyFrames" by (simp add: exampleKeyFrames_def)
  have h2: "length unitRig = 1" by (simp add: unitRig_def)
  note A = anchor_unchanged [OF h1 h2 keepsAnchor_shiftB [of 1], of greedyMinimizer
      exampleAdjusterSettings exampleDelta DBL_MAX "exampleEF [oneTap TrivialLoss 1 (1/100)]"]
  obtain kfs' where k: "adjust greedyMinimizer exampleAdjusterSettings unitRig exampleKeyFrames = Inr kfs'"
      and k0: "thisToWorld (kfs' ! 0) = thisToWorld (exampleKeyFrames ! 0)"
    using A by blast
  have k1: "map thisToWorld kfs' = [SE3_identity, ((0, 1, 0, 0), (0, 0, 0))]"
    and k2: "map (\<lambda>kf. map lightWorldToThis (frames kf)) kfs' = [[(0, 0)], [(1, 1)]]"
    using example_adjust k by simp_all
  have n: "(0::nat) \<notin> affEntries (frameParameterOrder exampleDelta)"
      "(1::nat) \<notin> affEntries (frameParameterOrder exampleDelta)"
    by (auto simp: affEntries_def exampleDelta_def)
  have f0: "frame (setAffineZero exampleDelta) ! 0 = 7" and f1: "frame (setAffineZero exampleDelta) ! 1 = 8"
    using A n by (simp_all add: exampleDelta_def)
  have o: "anchor (pstate (parameters (fst ((exampleEF [oneTap TrivialLoss 1 (1/100)])\<lparr>parameters := twoFrames 1\<rparr>, exampleKeyFrames))))
         = anchor (pstate (parameters (exampleEF [oneTap TrivialLoss 1 (1/100)])))"
    using A example_optimize_1 by blast
  have o1: "anchor (pstate (twoFrames 0)) = (SE3_identity, [(0, 0)])"
    by (simp add: anchor_def twoFrames_def)
  have o2: "lightWorldToFrame (pstate (twoFrames 1)) = [[(0, 0)], [(0, 1)]]"
    by (simp add: twoFrames_def)
  show ?thesis
    using h1 h2 keepsAnchor_shiftB [of 1] k k0 k1 k2 f0 f1 example_setAffineZero example_optimize_1 o o1 o2
    by (simp add: exampleEF_simps)
qed

end
